theory Spec2Isabelle
  imports Main "HOL-Library.AList"
begin

section \<open>Errors and multi-value returns\<close>

text \<open>
  Go's \<^verbatim>\<open>error\<close> values are built in the sources with \<^verbatim>\<open>fmt.Errorf\<close> only.
  \<open>Errorf msg\<close> is an error with the formatted text \<open>msg\<close>; \<open>ErrorfW prefix e\<close> is
  \<^verbatim>\<open>fmt.Errorf(prefix + ": %w", e)\<close>, which wraps \<open>e\<close>; \<open>ErrorfDV n es\<close> is the error of
  \<^verbatim>\<open>Registry.Shutdown\<close>, \<^verbatim>\<open>fmt.Errorf("failed to shutdown %d plugin(s): %v", n, es)\<close>.
  A Go function returning \<^verbatim>\<open>(T, error)\<close> returns a pair whose second component is
  \<open>None\<close> for the \<^verbatim>\<open>nil\<close> error; a pointer or map that may be \<^verbatim>\<open>nil\<close> is an option.
  Code supplied by a plugin acts on a world \<open>'w\<close> (everything plugin code can reach:
  its own fields, the configuration object behind the \<^verbatim>\<open>*config.Config\<close> pointer,
  the services), passed in and returned.
\<close>

datatype error =
  Errorf string
| ErrorfW string error
| ErrorfDV nat "error list"

section \<open>Functions of the Go standard library used by the sources\<close>

text \<open>
  A Go \<^verbatim>\<open>string\<close> is a sequence of bytes, here a \<^typ>\<open>string\<close>; \<^verbatim>\<open>len\<close> is \<^const>\<open>length\<close>. The
  functions below model package \<^verbatim>\<open>strings\<close> and, for Unix (separator \<^verbatim>\<open>/\<close>, no volume
  names), package \<^verbatim>\<open>path/filepath\<close>. An index that Go reports as \<^verbatim>\<open>-1\<close> is \<open>None\<close>.
\<close>

definition HasPrefix :: "string \<Rightarrow> string \<Rightarrow> bool" where
  "HasPrefix s prefix = (take (length prefix) s = prefix)"

definition HasSuffix :: "string \<Rightarrow> string \<Rightarrow> bool" where
  "HasSuffix s suffix =
     (length suffix \<le> length s \<and> drop (length s - length suffix) s = suffix)"

definition TrimPrefix :: "string \<Rightarrow> string \<Rightarrow> string" where
  "TrimPrefix s prefix = (if HasPrefix s prefix then drop (length prefix) s else s)"

definition TrimSuffix :: "string \<Rightarrow> string \<Rightarrow> string" where
  "TrimSuffix s suffix =
     (if HasSuffix s suffix then take (length s - length suffix) s else s)"

fun Index :: "string \<Rightarrow> string \<Rightarrow> nat option" where
  "Index [] substr = (if substr = [] then Some 0 else None)"
| "Index (c # cs) substr =
     (if HasPrefix (c # cs) substr then Some 0 else map_option Suc (Index cs substr))"

fun LastIndex :: "string \<Rightarrow> string \<Rightarrow> nat option" where
  "LastIndex [] substr = (if substr = [] then Some 0 else None)"
| "LastIndex (c # cs) substr =
     (case LastIndex cs substr of
        Some i \<Rightarrow> Some (Suc i)
      | None \<Rightarrow> if HasPrefix (c # cs) substr then Some 0 else None)"

text \<open>\<^verbatim>\<open>strings.Join(elems, sep)\<close>.\<close>

fun Join_sep :: "string list \<Rightarrow> string \<Rightarrow> string" where
  "Join_sep [] sep = []"
| "Join_sep [e] sep = e"
| "Join_sep (e # e' # es) sep = e @ sep @ Join_sep (e' # es) sep"

text \<open>\<^verbatim>\<open>strings.SplitN(s, sep, n)\<close> for a non-empty separator and \<open>n \<ge> 0\<close> (the sources call
  it with \<^verbatim>\<open>"---"\<close> and \<open>3\<close>): \<^verbatim>\<open>genSplit\<close> caps \<open>n\<close> at \<^verbatim>\<open>len(s) + 1\<close>, cuts at the first
  \<open>n - 1\<close> occurrences of the separator and keeps the rest of the text as the last part.\<close>

fun genSplit :: "string \<Rightarrow> string \<Rightarrow> nat \<Rightarrow> string list" where
  "genSplit s sep 0 = [s]"
| "genSplit s sep (Suc k) =
     (case Index s sep of
        None \<Rightarrow> [s]
      | Some m \<Rightarrow> take m s # genSplit (drop (m + length sep) s) sep k)"

definition SplitN :: "string \<Rightarrow> string \<Rightarrow> nat \<Rightarrow> string list" where
  "SplitN s sep n = (if n = 0 then [] else genSplit s sep (min n (length s + 1) - 1))"

text \<open>\<^verbatim>\<open>strings.ReplaceAll(s, old, new)\<close> for a non-empty \<open>old\<close> (the sources call it with
  \<^verbatim>\<open>"/"\<close>): the non-overlapping occurrences of \<open>old\<close>, from the left.\<close>

function ReplaceAll :: "string \<Rightarrow> string \<Rightarrow> string \<Rightarrow> string" where
  "ReplaceAll s old new =
     (if s = [] \<or> old = [] then s
      else if HasPrefix s old then new @ ReplaceAll (drop (length old) s) old new
      else hd s # ReplaceAll (tl s) old new)"
  by pat_completeness auto
termination
  by (relation "measure (\<lambda>(s, old, new). length s)") auto

declare ReplaceAll.simps [simp del]

text \<open>Bytes: the ASCII classes of the two regular expressions of the sources.\<close>

definition byte :: "char \<Rightarrow> nat" where
  "byte c = of_char c"

definition is_lower :: "char \<Rightarrow> bool" where
  "is_lower c = (97 \<le> byte c \<and> byte c \<le> 122)"

definition is_upper :: "char \<Rightarrow> bool" where
  "is_upper c = (65 \<le> byte c \<and> byte c \<le> 90)"

definition is_digit :: "char \<Rightarrow> bool" where
  "is_digit c = (48 \<le> byte c \<and> byte c \<le> 57)"

text \<open>\<^verbatim>\<open>strings.ToLower\<close> on bytes below \<^verbatim>\<open>0x80\<close>. The sources lower a string that the
  regular expression has already reduced to ASCII (lemma \<open>ReplaceAllString_nonword_word\<close>
  below); bytes from \<^verbatim>\<open>0x80\<close> on are left as they are here, where Go would map the
  letters of other alphabets.\<close>

definition ToLower :: "string \<Rightarrow> string" where
  "ToLower s = map (\<lambda>c. if is_upper c then char_of (byte c + 32) else c) s"

text \<open>
  \<^verbatim>\<open>utf8.DecodeRuneInString\<close>: the number of bytes of the first rune of a non-empty
  string. A byte that does not start a well-formed encoding is the rune \<^verbatim>\<open>U+FFFD\<close> of
  width 1. The second byte of an encoding has a range that depends on the first (no
  overlong forms, no surrogates, nothing above \<^verbatim>\<open>U+10FFFF\<close>); later bytes are in
  \<^verbatim>\<open>0x80..0xBF\<close>.
\<close>

definition is_cont :: "char \<Rightarrow> bool" where
  "is_cont c = (128 \<le> byte c \<and> byte c \<le> 191)"

definition rune_width :: "string \<Rightarrow> nat" where
  "rune_width s =
     (let b0 = byte (s ! 0);
          sz = (if b0 < 224 then 2 else if b0 < 240 then 3 else 4 :: nat);
          lo = (if b0 = 224 then 160 else if b0 = 240 then 144 else 128 :: nat);
          hi = (if b0 = 237 then 159 else if b0 = 244 then 143 else 191 :: nat)
      in if b0 < 194 \<or> 244 < b0 then 1
         else if length s < sz then 1
         else if byte (s ! 1) < lo \<or> hi < byte (s ! 1) then 1
         else if sz \<le> 2 then 2
         else if \<not> is_cont (s ! 2) then 1
         else if sz \<le> 3 then 3
         else if \<not> is_cont (s ! 3) then 1
         else 4)"

text \<open>\<^verbatim>\<open>regexp.MustCompile(`[^a-zA-Z0-9_]`).ReplaceAllString(s, "_")\<close>: the expression
  matches one rune outside the class, so every such rune, whatever its width, becomes one
  underscore.\<close>

definition is_word :: "char \<Rightarrow> bool" where
  "is_word c = (is_lower c \<or> is_upper c \<or> is_digit c \<or> c = CHR ''_'')"

function ReplaceAllString_nonword :: "string \<Rightarrow> string" where
  "ReplaceAllString_nonword s =
     (if s = [] then []
      else if is_word (hd s) then hd s # ReplaceAllString_nonword (tl s)
      else CHR ''_'' # ReplaceAllString_nonword (drop (rune_width s) s))"
  by pat_completeness auto
termination
  by (relation "measure length") (auto simp: rune_width_def Let_def)

declare ReplaceAllString_nonword.simps [simp del]

text \<open>
  \<^verbatim>\<open>strings.TrimSpace\<close> removes the leading and trailing runes of Unicode's White Space
  property: the ASCII ones, \<^verbatim>\<open>U+0085\<close>, \<^verbatim>\<open>U+00A0\<close>, \<^verbatim>\<open>U+1680\<close>, \<^verbatim>\<open>U+2000\<close> to
  \<^verbatim>\<open>U+200A\<close>, \<^verbatim>\<open>U+2028\<close>, \<^verbatim>\<open>U+2029\<close>, \<^verbatim>\<open>U+202F\<close>, \<^verbatim>\<open>U+205F\<close> and \<^verbatim>\<open>U+3000\<close>, given
  here by their encodings.
\<close>

definition space_runes :: "string list" where
  "space_runes =
     [[CHR 0x09], [CHR 0x0A], [CHR 0x0B], [CHR 0x0C], [CHR 0x0D], [CHR 0x20],
      [CHR 0xC2, CHR 0x85], [CHR 0xC2, CHR 0xA0], [CHR 0xE1, CHR 0x9A, CHR 0x80],
      [CHR 0xE2, CHR 0x80, CHR 0x80], [CHR 0xE2, CHR 0x80, CHR 0x81],
      [CHR 0xE2, CHR 0x80, CHR 0x82], [CHR 0xE2, CHR 0x80, CHR 0x83],
      [CHR 0xE2, CHR 0x80, CHR 0x84], [CHR 0xE2, CHR 0x80, CHR 0x85],
      [CHR 0xE2, CHR 0x80, CHR 0x86], [CHR 0xE2, CHR 0x80, CHR 0x87],
      [CHR 0xE2, CHR 0x80, CHR 0x88], [CHR 0xE2, CHR 0x80, CHR 0x89],
      [CHR 0xE2, CHR 0x80, CHR 0x8A], [CHR 0xE2, CHR 0x80, CHR 0xA8],
      [CHR 0xE2, CHR 0x80, CHR 0xA9], [CHR 0xE2, CHR 0x80, CHR 0xAF],
      [CHR 0xE2, CHR 0x81, CHR 0x9F], [CHR 0xE3, CHR 0x80, CHR 0x80]]"

function TrimLeft_space :: "string \<Rightarrow> string" where
  "TrimLeft_space s =
     (case find (\<lambda>sp. sp \<noteq> [] \<and> HasPrefix s sp) space_runes of
        None \<Rightarrow> s
      | Some sp \<Rightarrow> TrimLeft_space (drop (length sp) s))"
  by pat_completeness auto
termination
proof (relation "measure length")
  fix s sp
  assume "find (\<lambda>sp. sp \<noteq> [] \<and> HasPrefix s sp) space_runes = Some sp"
  then have "sp \<noteq> []" "HasPrefix s sp"
    by (auto simp: find_Some_iff)
  then have "s \<noteq> []"
    by (auto simp: HasPrefix_def)
  with \<open>sp \<noteq> []\<close> show "(drop (length sp) s, s) \<in> measure length"
    by simp
qed simp

declare TrimLeft_space.simps [simp del]

function TrimRight_space :: "string \<Rightarrow> string" where
  "TrimRight_space s =
     (case find (\<lambda>sp. sp \<noteq> [] \<and> HasSuffix s sp) space_runes of
        None \<Rightarrow> s
      | Some sp \<Rightarrow> TrimRight_space (take (length s - length sp) s))"
  by pat_completeness auto
termination
proof (relation "measure length")
  fix s sp
  assume "find (\<lambda>sp. sp \<noteq> [] \<and> HasSuffix s sp) space_runes = Some sp"
  then have "sp \<noteq> []" "HasSuffix s sp"
    by (auto simp: find_Some_iff)
  then have "s \<noteq> []"
    by (auto simp: HasSuffix_def)
  with \<open>sp \<noteq> []\<close> show "(take (length s - length sp) s, s) \<in> measure length"
    by simp
qed simp

declare TrimRight_space.simps [simp del]

definition TrimSpace :: "string \<Rightarrow> string" where
  "TrimSpace s = TrimRight_space (TrimLeft_space s)"

text \<open>
  Package \<^verbatim>\<open>path/filepath\<close> on Unix. \<^verbatim>\<open>Clean\<close> reads the path element by element: empty
  elements and \<^verbatim>\<open>.\<close> are dropped; \<^verbatim>\<open>..\<close> removes the element before it when there is one
  that is not itself \<^verbatim>\<open>..\<close>, is dropped at the root, and is kept at the start of a
  relative path; the result is the elements joined by one separator, after the leading
  separator of a rooted path, and \<^verbatim>\<open>.\<close> when that is empty.
\<close>

fun path_elements :: "string \<Rightarrow> string list" where
  "path_elements [] = [[]]"
| "path_elements (c # cs) =
     (if c = CHR ''/'' then [] # path_elements cs
      else (case path_elements cs of [] \<Rightarrow> [[c]] | e # es \<Rightarrow> (c # e) # es))"

fun clean_elements :: "bool \<Rightarrow> string list \<Rightarrow> string list \<Rightarrow> string list" where
  "clean_elements rooted [] out = out"
| "clean_elements rooted (e # es) out =
     (if e = [] \<or> e = ''.'' then clean_elements rooted es out
      else if e = ''..'' then
        (if out \<noteq> [] \<and> last out \<noteq> ''..'' then clean_elements rooted es (butlast out)
         else if \<not> rooted then clean_elements rooted es (out @ [''..''])
         else clean_elements rooted es out)
      else clean_elements rooted es (out @ [e]))"

definition Clean :: "string \<Rightarrow> string" where
  "Clean path =
     (if path = [] then ''.''
      else
        (let rooted = (hd path = CHR ''/'');
             out = (if rooted then ''/'' else [])
                     @ Join_sep (clean_elements rooted (path_elements path) []) ''/''
         in if out = [] then ''.'' else out))"

text \<open>\<^verbatim>\<open>filepath.Join\<close> ignores leading empty elements, joins the rest with the separator
  and cleans the result; with nothing but empty elements it is the empty string.\<close>

definition Join :: "string list \<Rightarrow> string" where
  "Join elem =
     (case dropWhile (\<lambda>e. e = []) elem of [] \<Rightarrow> [] | e # es \<Rightarrow> Clean (Join_sep (e # es) ''/''))"

text \<open>\<^verbatim>\<open>filepath.Dir\<close> cleans the path up to and including its last separator;
  \<^verbatim>\<open>filepath.Base\<close> is the last element after removing trailing separators, \<^verbatim>\<open>.\<close> for
  the empty path and the separator for a path of separators only.\<close>

definition Dir :: "string \<Rightarrow> string" where
  "Dir path = Clean (rev (dropWhile (\<lambda>c. c \<noteq> CHR ''/'') (rev path)))"

definition Base :: "string \<Rightarrow> string" where
  "Base path =
     (if path = [] then ''.''
      else
        (let stripped = dropWhile (\<lambda>c. c = CHR ''/'') (rev path);
             element = rev (takeWhile (\<lambda>c. c \<noteq> CHR ''/'') stripped)
         in if element = [] then ''/'' else element))"

text \<open>The method \<^verbatim>\<open>Error()\<close> of the errors above, as \<^verbatim>\<open>%v\<close> prints them; \<open>decimal\<close> is
  \<^verbatim>\<open>%d\<close>.\<close>

function decimal :: "nat \<Rightarrow> string" where
  "decimal n = (if n < 10 then [char_of (48 + n)] else decimal (n div 10) @ [char_of (48 + n mod 10)])"
  by pat_completeness auto
termination
  by (relation "measure id") auto

declare decimal.simps [simp del]

fun error_string :: "error \<Rightarrow> string" where
  "error_string (Errorf msg) = msg"
| "error_string (ErrorfW prefix err) = prefix @ '': '' @ error_string err"
| "error_string (ErrorfDV n errs) =
     ''failed to shutdown '' @ decimal n @ '' plugin(s): [''
       @ Join_sep (map error_string errs) '' '' @ '']''"

section \<open>The hook interfaces (package plugin)\<close>

record 'v ToolExecuteInput =
  ToolName :: string
  SessionID :: string
  MessageID :: string
  ToolCallID :: string
  Arguments :: "(string \<rightharpoonup> 'v) option"

record 'v ToolExecuteResult =
  Output :: string
  Error :: "error option"
  Metadata :: "(string \<rightharpoonup> 'v) option"

text \<open>\<^verbatim>\<open>OnConfigLoad(ctx, cfg) error\<close>: the configuration is reached through the pointer,
  so it is part of the world.\<close>

record 'w ConfigHook =
  OnConfigLoad :: "'w \<Rightarrow> error option \<times> 'w"

record ('sess, 'w) SessionHook =
  OnSessionCreated :: "'sess \<Rightarrow> 'w \<Rightarrow> error option \<times> 'w"
  OnSessionUpdated :: "'sess \<Rightarrow> 'w \<Rightarrow> error option \<times> 'w"
  OnSessionDeleted :: "string \<Rightarrow> 'w \<Rightarrow> error option \<times> 'w"

record ('msg, 'w) MessageHook =
  OnMessageCreated :: "'msg \<Rightarrow> 'w \<Rightarrow> error option \<times> 'w"
  OnMessageUpdated :: "'msg \<Rightarrow> 'w \<Rightarrow> error option \<times> 'w"

text \<open>\<^verbatim>\<open>OnPermissionRequest(ctx, req) (*bool, error)\<close>: the decision is \<open>None\<close> for
  \<^verbatim>\<open>nil\<close> (no decision), \<open>Some True\<close> to allow, \<open>Some False\<close> to deny.\<close>

record ('req, 'w) PermissionHook =
  OnPermissionRequest :: "'req \<Rightarrow> 'w \<Rightarrow> (bool option \<times> error option) \<times> 'w"

record ('v, 'w) ToolHook =
  OnToolExecuteBefore ::
    "'v ToolExecuteInput \<Rightarrow> 'w \<Rightarrow> ((string \<rightharpoonup> 'v) option \<times> error option) \<times> 'w"
  OnToolExecuteAfter ::
    "'v ToolExecuteInput \<Rightarrow> 'v ToolExecuteResult \<Rightarrow> 'w
       \<Rightarrow> ('v ToolExecuteResult option \<times> error option) \<times> 'w"

record ('start, 'step, 'fin, 'w) AgentHook =
  OnAgentStart :: "'start \<Rightarrow> 'w \<Rightarrow> error option \<times> 'w"
  OnAgentStep :: "'step \<Rightarrow> 'w \<Rightarrow> error option \<times> 'w"
  OnAgentFinish :: "'fin \<Rightarrow> 'w \<Rightarrow> error option \<times> 'w"

section \<open>Trigger loops of the registry (registry.go)\<close>

text \<open>
  Every trigger copies the pipeline under the read lock and walks the copy; the list
  argument of the loops below is that snapshot.
\<close>

fun TriggerConfigHooks_loop :: "'w ConfigHook list \<Rightarrow> 'w \<Rightarrow> error option \<times> 'w" where
  "TriggerConfigHooks_loop [] w = (None, w)"
| "TriggerConfigHooks_loop (hook # hooks) w =
     (case OnConfigLoad hook w of
        (Some err, w') \<Rightarrow> (Some (ErrorfW ''config hook failed'' err), w')
      | (None, w') \<Rightarrow> TriggerConfigHooks_loop hooks w')"

fun TriggerPermissionRequest_loop ::
  "('req, 'w) PermissionHook list \<Rightarrow> 'req \<Rightarrow> 'w \<Rightarrow> (bool option \<times> error option) \<times> 'w" where
  "TriggerPermissionRequest_loop [] req w = ((None, None), w)"
| "TriggerPermissionRequest_loop (hook # hooks) req w =
     (case OnPermissionRequest hook req w of
        ((decision, Some err), w') \<Rightarrow> ((None, Some (ErrorfW ''permission hook failed'' err)), w')
      | ((Some d, None), w') \<Rightarrow> ((Some d, None), w')
      | ((None, None), w') \<Rightarrow> TriggerPermissionRequest_loop hooks req w')"

text \<open>The loop of \<^verbatim>\<open>TriggerToolExecuteBefore\<close> keeps two variables, \<^verbatim>\<open>args\<close> and
  \<^verbatim>\<open>input\<close> (a copy of the caller's record, passed by value).\<close>

fun TriggerToolExecuteBefore_loop ::
  "('v, 'w) ToolHook list \<Rightarrow> (string \<rightharpoonup> 'v) option \<Rightarrow> 'v ToolExecuteInput \<Rightarrow> 'w
     \<Rightarrow> ((string \<rightharpoonup> 'v) option \<times> error option) \<times> 'w" where
  "TriggerToolExecuteBefore_loop [] args input w = ((args, None), w)"
| "TriggerToolExecuteBefore_loop (hook # hooks) args input w =
     (case OnToolExecuteBefore hook input w of
        ((modifiedArgs, Some err), w') \<Rightarrow>
          ((None, Some (ErrorfW ''tool execute before hook failed'' err)), w')
      | ((Some m, None), w') \<Rightarrow>
          TriggerToolExecuteBefore_loop hooks (Some m) (input\<lparr>Arguments := Some m\<rparr>) w'
      | ((None, None), w') \<Rightarrow> TriggerToolExecuteBefore_loop hooks args input w')"

fun TriggerToolExecuteAfter_loop ::
  "('v, 'w) ToolHook list \<Rightarrow> 'v ToolExecuteInput \<Rightarrow> 'v ToolExecuteResult \<Rightarrow> 'w
     \<Rightarrow> ('v ToolExecuteResult \<times> error option) \<times> 'w" where
  "TriggerToolExecuteAfter_loop [] input result w = ((result, None), w)"
| "TriggerToolExecuteAfter_loop (hook # hooks) input result w =
     (case OnToolExecuteAfter hook input result w of
        ((modifiedResult, Some err), w') \<Rightarrow>
          ((result, Some (ErrorfW ''tool execute after hook failed'' err)), w')
      | ((Some r, None), w') \<Rightarrow> TriggerToolExecuteAfter_loop hooks input r w'
      | ((None, None), w') \<Rightarrow> TriggerToolExecuteAfter_loop hooks input result w')"


section \<open>Plugins and the registry (plugin.go, registry.go)\<close>

record PluginInfo =
  Name :: string
  Version :: string
  Description :: string
  Author :: string

text \<open>\<^verbatim>\<open>PluginContext\<close>: the \<^verbatim>\<open>Config\<close> pointer and the service handles are references
  into the world; the working directory is a value.\<close>

record PluginContext =
  WorkingDir :: string

text \<open>
  The \<^verbatim>\<open>Hooks\<close> interface has six methods, each returning a hook or \<^verbatim>\<open>nil\<close>
  (``Returning nil for any hook means the plugin doesn't implement it''). The registry
  never looks inside a hook when it stores one, so the six hook types are parameters
  here; the triggers instantiate them with the records above.
\<close>

record ('c, 's, 'm, 'p, 't, 'a) Hooks =
  Config :: "'c option"
  Session :: "'s option"
  Message :: "'m option"
  Permission :: "'p option"
  Tool :: "'t option"
  Agent :: "'a option"

text \<open>The \<^verbatim>\<open>Plugin\<close> interface. \<^verbatim>\<open>Info()\<close> and \<^verbatim>\<open>Hooks()\<close> return values;
  \<^verbatim>\<open>Init\<close> and \<^verbatim>\<open>Shutdown\<close> run plugin code on the world.\<close>

record ('w, 'h) Plugin =
  Info :: PluginInfo
  Init :: "PluginContext \<Rightarrow> 'w \<Rightarrow> error option \<times> 'w"
  Hooks :: "'h"
  Shutdown :: "'w \<Rightarrow> error option \<times> 'w"

text \<open>
  \<^verbatim>\<open>csync.Map[string, Plugin]\<close> is an association list with distinct keys:
  \<^verbatim>\<open>Load\<close> is \<^const>\<open>map_of\<close>, \<^verbatim>\<open>Store\<close> is \<^const>\<open>AList.update\<close>, \<^verbatim>\<open>Delete\<close> is
  \<^const>\<open>AList.delete\<close>. Go leaves the order in which \<^verbatim>\<open>Range\<close> visits a map
  unspecified; the model visits the entries in the order of the list.
\<close>

record ('w, 'c, 's, 'm, 'p, 't, 'a) Registry =
  plugins :: "(string \<times> ('w, ('c, 's, 'm, 'p, 't, 'a) Hooks) Plugin) list"
  configHooks :: "'c list"
  sessionHooks :: "'s list"
  messageHooks :: "'m list"
  permHooks :: "'p list"
  toolHooks :: "'t list"
  agentHooks :: "'a list"

definition NewRegistry :: "('w, 'c, 's, 'm, 'p, 't, 'a) Registry" where
  "NewRegistry =
     \<lparr>plugins = [], configHooks = [], sessionHooks = [], messageHooks = [],
      permHooks = [], toolHooks = [], agentHooks = []\<rparr>"

text \<open>\<^verbatim>\<open>append\<close> of a hook when the method returned a non-nil one.\<close>

definition append_hook :: "'x list \<Rightarrow> 'x option \<Rightarrow> 'x list" where
  "append_hook pipeline h = (case h of None \<Rightarrow> pipeline | Some hook \<Rightarrow> pipeline @ [hook])"

definition registerHooks ::
  "('w, 'c, 's, 'm, 'p, 't, 'a) Registry \<Rightarrow> ('c, 's, 'm, 'p, 't, 'a) Hooks
     \<Rightarrow> ('w, 'c, 's, 'm, 'p, 't, 'a) Registry" where
  "registerHooks r hooks =
     r\<lparr>configHooks := append_hook (configHooks r) (Config hooks),
       sessionHooks := append_hook (sessionHooks r) (Session hooks),
       messageHooks := append_hook (messageHooks r) (Message hooks),
       permHooks := append_hook (permHooks r) (Permission hooks),
       toolHooks := append_hook (toolHooks r) (Tool hooks),
       agentHooks := append_hook (agentHooks r) (Agent hooks)\<rparr>"

text \<open>The registry methods return the error, the registry after the call and the
  world after the call.\<close>

definition LoadPlugin ::
  "('w, 'c, 's, 'm, 'p, 't, 'a) Registry \<Rightarrow> ('w, ('c, 's, 'm, 'p, 't, 'a) Hooks) Plugin
     \<Rightarrow> PluginContext \<Rightarrow> 'w \<Rightarrow> error option \<times> ('w, 'c, 's, 'm, 'p, 't, 'a) Registry \<times> 'w" where
  "LoadPlugin r plugin pluginCtx w =
     (let info = Info plugin in
      if map_of (plugins r) (PluginInfo.Name info) \<noteq> None
      then (Some (Errorf (''plugin '' @ PluginInfo.Name info @ '' is already loaded'')), r, w)
      else
        (case Init plugin pluginCtx w of
           (Some err, w') \<Rightarrow>
             (Some (ErrorfW (''failed to initialize plugin '' @ PluginInfo.Name info) err), r, w')
         | (None, w') \<Rightarrow>
             (None,
              registerHooks (r\<lparr>plugins := AList.update (PluginInfo.Name info) plugin (plugins r)\<rparr>)
                (Hooks plugin),
              w')))"

definition UnloadPlugin ::
  "('w, 'c, 's, 'm, 'p, 't, 'a) Registry \<Rightarrow> string \<Rightarrow> 'w
     \<Rightarrow> error option \<times> ('w, 'c, 's, 'm, 'p, 't, 'a) Registry \<times> 'w" where
  "UnloadPlugin r name w =
     (case map_of (plugins r) name of
        None \<Rightarrow> (Some (Errorf (''plugin '' @ name @ '' is not loaded'')), r, w)
      | Some plugin \<Rightarrow>
          (case Shutdown plugin w of
             (Some err, w') \<Rightarrow>
               (Some (ErrorfW (''failed to shutdown plugin '' @ name) err), r, w')
           | (None, w') \<Rightarrow> (None, r\<lparr>plugins := AList.delete name (plugins r)\<rparr>, w')))"

definition GetPlugin ::
  "('w, 'c, 's, 'm, 'p, 't, 'a) Registry \<Rightarrow> string
     \<Rightarrow> ('w, ('c, 's, 'm, 'p, 't, 'a) Hooks) Plugin option" where
  "GetPlugin r name = map_of (plugins r) name"

definition ListPlugins :: "('w, 'c, 's, 'm, 'p, 't, 'a) Registry \<Rightarrow> PluginInfo list" where
  "ListPlugins r = map (\<lambda>(name, plugin). Info plugin) (plugins r)"

text \<open>The callback of \<^verbatim>\<open>Range\<close> in \<^verbatim>\<open>Registry.Shutdown\<close>, over the entries still to
  visit, with the \<^verbatim>\<open>errors\<close> slice collected so far.\<close>

fun Shutdown_range ::
  "(string \<times> ('w, 'h) Plugin) list \<Rightarrow> error list \<Rightarrow> 'w \<Rightarrow> error list \<times> 'w" where
  "Shutdown_range [] errors w = (errors, w)"
| "Shutdown_range ((name, plugin) # rest) errors w =
     (case Shutdown plugin w of
        (Some err, w') \<Rightarrow> Shutdown_range rest (errors @ [ErrorfW (''plugin '' @ name) err]) w'
      | (None, w') \<Rightarrow> Shutdown_range rest errors w')"

definition Registry_Shutdown ::
  "('w, 'c, 's, 'm, 'p, 't, 'a) Registry \<Rightarrow> 'w
     \<Rightarrow> error option \<times> ('w, 'c, 's, 'm, 'p, 't, 'a) Registry \<times> 'w" where
  "Registry_Shutdown r w =
     (case Shutdown_range (plugins r) [] w of
        (errors, w') \<Rightarrow>
          (if length errors > 0 then Some (ErrorfDV (length errors) errors) else None, r, w'))"

text \<open>The trigger methods: the snapshot of the pipeline, then the loop.\<close>

definition TriggerConfigHooks ::
  "('w, 'w ConfigHook, 's, 'm, 'p, 't, 'a) Registry \<Rightarrow> 'w \<Rightarrow> error option \<times> 'w" where
  "TriggerConfigHooks r w = TriggerConfigHooks_loop (configHooks r) w"

definition TriggerPermissionRequest ::
  "('w, 'c, 's, 'm, ('req, 'w) PermissionHook, 't, 'a) Registry \<Rightarrow> 'req \<Rightarrow> 'w
     \<Rightarrow> (bool option \<times> error option) \<times> 'w" where
  "TriggerPermissionRequest r req w = TriggerPermissionRequest_loop (permHooks r) req w"

definition TriggerToolExecuteBefore ::
  "('w, 'c, 's, 'm, 'p, ('v, 'w) ToolHook, 'a) Registry \<Rightarrow> 'v ToolExecuteInput \<Rightarrow> 'w
     \<Rightarrow> ((string \<rightharpoonup> 'v) option \<times> error option) \<times> 'w" where
  "TriggerToolExecuteBefore r input w =
     TriggerToolExecuteBefore_loop (toolHooks r) (Arguments input) input w"

definition TriggerToolExecuteAfter ::
  "('w, 'c, 's, 'm, 'p, ('v, 'w) ToolHook, 'a) Registry \<Rightarrow> 'v ToolExecuteInput
     \<Rightarrow> 'v ToolExecuteResult \<Rightarrow> 'w \<Rightarrow> ('v ToolExecuteResult \<times> error option) \<times> 'w" where
  "TriggerToolExecuteAfter r input result w =
     TriggerToolExecuteAfter_loop (toolHooks r) input result w"

text \<open>The no-op hooks of the contract and \<^verbatim>\<open>NewBaseHooks\<close>. Each field of
  \<^verbatim>\<open>BaseHooks\<close> holds a \<^verbatim>\<open>Nil...Hook{}\<close> struct value, which is a non-nil interface
  value, so each method of the \<^verbatim>\<open>Hooks\<close> interface returns \<open>Some\<close> hook.\<close>

definition NilConfigHook :: "'w ConfigHook" where
  "NilConfigHook = \<lparr>OnConfigLoad = (\<lambda>w. (None, w))\<rparr>"

definition NilSessionHook :: "('sess, 'w) SessionHook" where
  "NilSessionHook =
     \<lparr>OnSessionCreated = (\<lambda>sess w. (None, w)),
      OnSessionUpdated = (\<lambda>sess w. (None, w)),
      OnSessionDeleted = (\<lambda>sessionID w. (None, w))\<rparr>"

definition NilMessageHook :: "('msg, 'w) MessageHook" where
  "NilMessageHook =
     \<lparr>OnMessageCreated = (\<lambda>msg w. (None, w)), OnMessageUpdated = (\<lambda>msg w. (None, w))\<rparr>"

definition NilPermissionHook :: "('req, 'w) PermissionHook" where
  "NilPermissionHook = \<lparr>OnPermissionRequest = (\<lambda>req w. ((None, None), w))\<rparr>"

definition NilToolHook :: "('v, 'w) ToolHook" where
  "NilToolHook =
     \<lparr>OnToolExecuteBefore = (\<lambda>input w. ((None, None), w)),
      OnToolExecuteAfter = (\<lambda>input result w. ((None, None), w))\<rparr>"

definition NilAgentHook :: "('start, 'step, 'fin, 'w) AgentHook" where
  "NilAgentHook =
     \<lparr>OnAgentStart = (\<lambda>input w. (None, w)),
      OnAgentStep = (\<lambda>input w. (None, w)),
      OnAgentFinish = (\<lambda>input w. (None, w))\<rparr>"

definition NewBaseHooks ::
  "('w ConfigHook, ('sess, 'w) SessionHook, ('msg, 'w) MessageHook,
    ('req, 'w) PermissionHook, ('v, 'w) ToolHook, ('start, 'step, 'fin, 'w) AgentHook) Hooks" where
  "NewBaseHooks =
     \<lparr>Config = Some NilConfigHook, Session = Some NilSessionHook,
      Message = Some NilMessageHook, Permission = Some NilPermissionHook,
      Tool = Some NilToolHook, Agent = Some NilAgentHook\<rparr>"

section \<open>The loader (loader.go)\<close>

text \<open>
  The operating system as the loader sees it. \<^verbatim>\<open>filepath.Abs\<close>, \<^verbatim>\<open>os.Stat\<close> (of whose
  result only \<^verbatim>\<open>IsDir()\<close> is read), \<^verbatim>\<open>os.ReadDir\<close> and \<^verbatim>\<open>plugin.Open\<close> are parameters.
  An opened artifact is its \<^verbatim>\<open>Lookup\<close> function from symbol names to symbols, and a
  symbol either holds a value that implements the \<^verbatim>\<open>Plugin\<close> interface or it does not.
\<close>

record DirEntry =
  Name :: string
  IsDir :: bool

datatype 'pl Symbol = PluginSymbol 'pl | OtherSymbol

record 'pl OS =
  Abs :: "string \<Rightarrow> error + string"
  Stat :: "string \<Rightarrow> error + bool"
  ReadDir :: "string \<Rightarrow> error + DirEntry list"
  Open :: "string \<Rightarrow> error + (string \<Rightarrow> error + 'pl Symbol)"

definition findPluginInDir :: "'pl OS \<Rightarrow> string \<Rightarrow> string \<times> error option" where
  "findPluginInDir os dir =
     (case ReadDir os dir of
        Inl err \<Rightarrow> ([], Some (ErrorfW ''failed to read plugin directory'' err))
      | Inr entries \<Rightarrow>
          (case find (\<lambda>entry. \<not> IsDir entry \<and> HasSuffix (DirEntry.Name entry) ''.so'') entries of
             Some entry \<Rightarrow> (Join [dir, DirEntry.Name entry], None)
           | None \<Rightarrow> ([], Some (Errorf (''no .so file found in directory: '' @ dir)))))"

definition loadGoPlugin ::
  "('w, ('c, 's, 'm, 'p, 't, 'a) Hooks) Plugin OS \<Rightarrow> ('w, 'c, 's, 'm, 'p, 't, 'a) Registry
     \<Rightarrow> string \<Rightarrow> PluginContext \<Rightarrow> 'w
     \<Rightarrow> error option \<times> ('w, 'c, 's, 'm, 'p, 't, 'a) Registry \<times> 'w" where
  "loadGoPlugin os r path pluginCtx w =
     (case Open os path of
        Inl err \<Rightarrow> (Some (ErrorfW ''failed to open plugin'' err), r, w)
      | Inr p \<Rightarrow>
          (case p ''Plugin'' of
             Inl err \<Rightarrow> (Some (ErrorfW ''plugin does not export 'Plugin' symbol'' err), r, w)
           | Inr symbol \<Rightarrow>
               (case symbol of
                  OtherSymbol \<Rightarrow>
                    (Some (Errorf ''Plugin symbol does not implement plugin.Plugin interface''),
                     r, w)
                | PluginSymbol pluginImpl \<Rightarrow>
                    (case LoadPlugin r pluginImpl pluginCtx w of
                       (Some err, r', w') \<Rightarrow> (Some (ErrorfW ''failed to load plugin'' err), r', w')
                     | (None, r', w') \<Rightarrow> (None, r', w')))))"

definition LoadFromPath ::
  "('w, ('c, 's, 'm, 'p, 't, 'a) Hooks) Plugin OS \<Rightarrow> ('w, 'c, 's, 'm, 'p, 't, 'a) Registry
     \<Rightarrow> string \<Rightarrow> PluginContext \<Rightarrow> 'w
     \<Rightarrow> error option \<times> ('w, 'c, 's, 'm, 'p, 't, 'a) Registry \<times> 'w" where
  "LoadFromPath os r path pluginCtx w =
     (case Abs os path of
        Inl err \<Rightarrow> (Some (ErrorfW ''failed to resolve plugin path'' err), r, w)
      | Inr absPath \<Rightarrow>
          (case Stat os absPath of
             Inl err \<Rightarrow> (Some (ErrorfW ''plugin path does not exist'' err), r, w)
           | Inr isDir \<Rightarrow>
               (case (if isDir then findPluginInDir os absPath else (absPath, None)) of
                  (pluginPath, Some err) \<Rightarrow> (Some err, r, w)
                | (pluginPath, None) \<Rightarrow>
                    if \<not> HasSuffix pluginPath ''.so''
                    then (Some (Errorf (''plugin must be a .so file, got: '' @ pluginPath)), r, w)
                    else loadGoPlugin os r pluginPath pluginCtx w)))"

text \<open>\<^verbatim>\<open>LoadFromConfig\<close> over \<^verbatim>\<open>cfg.GetPluginPaths()\<close>: a path that fails to load writes a
  warning to the standard error stream (a list of lines here, \<^verbatim>\<open>\n\<close> included) and the
  loop goes on. The function always returns the nil error.\<close>

fun LoadFromConfig_loop ::
  "('w, ('c, 's, 'm, 'p, 't, 'a) Hooks) Plugin OS \<Rightarrow> ('w, 'c, 's, 'm, 'p, 't, 'a) Registry
     \<Rightarrow> string list \<Rightarrow> PluginContext \<Rightarrow> 'w \<Rightarrow> string list
     \<Rightarrow> ('w, 'c, 's, 'm, 'p, 't, 'a) Registry \<times> 'w \<times> string list" where
  "LoadFromConfig_loop os r [] pluginCtx w stderr = (r, w, stderr)"
| "LoadFromConfig_loop os r (path # pluginPaths) pluginCtx w stderr =
     (case LoadFromPath os r path pluginCtx w of
        (Some err, r', w') \<Rightarrow>
          LoadFromConfig_loop os r' pluginPaths pluginCtx w'
            (stderr @ [''Warning: failed to load plugin from '' @ path @ '': ''
                         @ error_string err @ [CHR 0x0A]])
      | (None, r', w') \<Rightarrow> LoadFromConfig_loop os r' pluginPaths pluginCtx w' stderr)"

definition LoadFromConfig ::
  "('w, ('c, 's, 'm, 'p, 't, 'a) Hooks) Plugin OS \<Rightarrow> ('w, 'c, 's, 'm, 'p, 't, 'a) Registry
     \<Rightarrow> string list \<Rightarrow> PluginContext \<Rightarrow> 'w \<Rightarrow> string list
     \<Rightarrow> error option \<times> ('w, 'c, 's, 'm, 'p, 't, 'a) Registry \<times> 'w \<times> string list" where
  "LoadFromConfig os r pluginPaths pluginCtx w stderr =
     (None, LoadFromConfig_loop os r pluginPaths pluginCtx w stderr)"

section \<open>Application startup (app.go)\<close>

text \<open>
  Of \<^verbatim>\<open>App\<close> the model keeps the plugin registry, the agent coordinator (\<open>None\<close> for
  \<^verbatim>\<open>nil\<close>) and the cleanup functions, each closure named by what it does. Records written
  with \<^verbatim>\<open>slog\<close> are collected in a list.
\<close>

datatype cleanup = EventsCleanup | PluginRegistryShutdown | ConnClose | CloseMCPClients

datatype slog_attr = ErrorAttr string error | CountAttr string nat

datatype slog_record =
  SlogWarn string "slog_attr list"
| SlogInfo string "slog_attr list"
| SlogError string "slog_attr list"

record ('w, 's, 'm, 'p, 't, 'a, 'coord) App =
  PluginRegistry :: "('w, 'w ConfigHook, 's, 'm, 'p, 't, 'a) Registry"
  AgentCoordinator :: "'coord option"
  cleanupFuncs :: "cleanup list"

text \<open>
  What startup reads from outside the sources: the operating system of the loader, and,
  of the configuration object (which config hooks may have changed, so each is read from
  the world), \<^verbatim>\<open>cfg.GetPluginPaths()\<close>, \<^verbatim>\<open>cfg.WorkingDir()\<close>, \<^verbatim>\<open>cfg.IsConfigured()\<close> and
  the \<^verbatim>\<open>ID\<close> of the coder agent's configuration; \<^verbatim>\<open>agent.NewCoordinator\<close>.
\<close>

record ('w, 's, 'm, 'p, 't, 'a, 'coord) Host =
  system :: "('w, ('w ConfigHook, 's, 'm, 'p, 't, 'a) Hooks) Plugin OS"
  GetPluginPaths :: "'w \<Rightarrow> string list"
  cfg_WorkingDir :: "'w \<Rightarrow> string"
  IsConfigured :: "'w \<Rightarrow> bool"
  CoderAgentID :: "'w \<Rightarrow> string"
  NewCoordinator ::
    "('w, 'w ConfigHook, 's, 'm, 'p, 't, 'a) Registry \<Rightarrow> 'w \<Rightarrow> ('coord option \<times> error option) \<times> 'w"

text \<open>The functions return the error, the \<^verbatim>\<open>App\<close> as the call leaves it, the world, the
  \<^verbatim>\<open>slog\<close> records written and the lines written to the standard error stream.\<close>

definition initPlugins ::
  "('w, 's, 'm, 'p, 't, 'a, 'coord) Host \<Rightarrow> ('w, 's, 'm, 'p, 't, 'a, 'coord) App \<Rightarrow> 'w
     \<Rightarrow> error option \<times> ('w, 's, 'm, 'p, 't, 'a, 'coord) App \<times> 'w \<times> slog_record list
         \<times> string list" where
  "initPlugins host app w =
     (let pluginCtx = \<lparr>WorkingDir = cfg_WorkingDir host w\<rparr> in
      case LoadFromConfig (system host) (PluginRegistry app) (GetPluginPaths host w) pluginCtx w [] of
        (Some err, r, w', stderr) \<Rightarrow>
          (Some (ErrorfW ''failed to load plugins from config'' err),
           app\<lparr>PluginRegistry := r\<rparr>, w', [], stderr)
      | (None, r, w', stderr) \<Rightarrow>
          (case TriggerConfigHooks r w' of
             (Some err, w'') \<Rightarrow>
               (Some (ErrorfW ''failed to trigger config hooks'' err),
                app\<lparr>PluginRegistry := r\<rparr>, w'', [], stderr)
           | (None, w'') \<Rightarrow>
               (None,
                app\<lparr>PluginRegistry := r,
                    cleanupFuncs := cleanupFuncs app @ [PluginRegistryShutdown]\<rparr>,
                w'',
                [SlogInfo ''Plugins initialized'' [CountAttr ''count'' (length (ListPlugins r))]],
                stderr)))"

definition InitCoderAgent ::
  "('w, 's, 'm, 'p, 't, 'a, 'coord) Host \<Rightarrow> ('w, 's, 'm, 'p, 't, 'a, 'coord) App \<Rightarrow> 'w
     \<Rightarrow> error option \<times> ('w, 's, 'm, 'p, 't, 'a, 'coord) App \<times> 'w \<times> slog_record list" where
  "InitCoderAgent host app w =
     (if CoderAgentID host w = []
      then (Some (Errorf ''coder agent configuration is missing''), app, w, [])
      else
        (case NewCoordinator host (PluginRegistry app) w of
           ((coordinator, Some err), w') \<Rightarrow>
             (Some err, app\<lparr>AgentCoordinator := coordinator\<rparr>, w',
              [SlogError ''Failed to create coder agent'' [ErrorAttr ''err'' err]])
         | ((coordinator, None), w') \<Rightarrow>
             (None,
              app\<lparr>AgentCoordinator := coordinator,
                  cleanupFuncs := cleanupFuncs app @ [CloseMCPClients]\<rparr>,
              w', [])))"

text \<open>\<^verbatim>\<open>New\<close>, from the construction of the \<^verbatim>\<open>App\<close> on. \<^verbatim>\<open>setupEvents\<close> registers its
  cleanup function (the subscriptions it starts run concurrently and are not modelled);
  \<^verbatim>\<open>initLSPClients\<close> works in the background. The result is the pair \<^verbatim>\<open>(*App, error)\<close>.\<close>

definition New ::
  "('w, 's, 'm, 'p, 't, 'a, 'coord) Host \<Rightarrow> 'w
     \<Rightarrow> (('w, 's, 'm, 'p, 't, 'a, 'coord) App option \<times> error option) \<times> 'w \<times> slog_record list
         \<times> string list" where
  "New host w =
     (let app = \<lparr>PluginRegistry = NewRegistry, AgentCoordinator = None,
                 cleanupFuncs = [EventsCleanup]\<rparr>
      in case initPlugins host app w of
           (err, app', w', logs, stderr) \<Rightarrow>
             (let logs' = logs @ (case err of
                                    Some e \<Rightarrow> [SlogWarn ''Failed to initialize plugins''
                                                 [ErrorAttr ''error'' e]]
                                  | None \<Rightarrow> []);
                  app'' = app'\<lparr>cleanupFuncs := cleanupFuncs app' @ [ConnClose]\<rparr>
              in if \<not> IsConfigured host w'
                 then ((Some app'', None), w', logs' @ [SlogWarn ''No agent configuration found'' []],
                       stderr)
                 else
                   (case InitCoderAgent host app'' w' of
                      (Some e, app''', w'', logs'') \<Rightarrow>
                        ((None, Some (ErrorfW ''failed to initialize coder agent'' e)), w'',
                         logs' @ logs'', stderr)
                    | (None, app''', w'', logs'') \<Rightarrow>
                        ((Some app''', None), w'', logs' @ logs'', stderr))))"

section \<open>The skills plugin (package skills)\<close>

text \<open>The \<^verbatim>\<open>map[string]string\<close> of the metadata is an association list; it is only
  copied.\<close>

record SkillFrontmatter =
  Name :: string
  Description :: string
  License :: string
  AllowedTools :: "string list"
  Metadata :: "(string \<times> string) list"

record Skill =
  Name :: string
  FullPath :: string
  ToolName :: string
  Description :: string
  AllowedTools :: "string list"
  Metadata :: "(string \<times> string) list"
  License :: string
  Content :: string
  Path :: string

text \<open>
  What the skills plugin reads from outside the sources: \<^verbatim>\<open>os.ReadFile\<close>;
  \<^verbatim>\<open>yaml.Unmarshal\<close> into a \<^verbatim>\<open>SkillFrontmatter\<close>; whether \<^verbatim>\<open>os.Stat\<close> of a path fails with an
  error that \<^verbatim>\<open>os.IsNotExist\<close> accepts; the calls that \<^verbatim>\<open>filepath.WalkDir\<close> makes to a
  callback that never returns an error, in order, each with the path and either the error
  or the directory entry passed; \<^verbatim>\<open>os.Getenv\<close> and \<^verbatim>\<open>os.UserHomeDir\<close>.
\<close>

record SkillsOS =
  ReadFile :: "string \<Rightarrow> error + string"
  Unmarshal :: "string \<Rightarrow> error + SkillFrontmatter"
  NotExist :: "string \<Rightarrow> bool"
  WalkDir :: "string \<Rightarrow> (string \<times> (error + DirEntry)) list"
  Getenv :: "string \<Rightarrow> string"
  UserHomeDir :: "error + string"

text \<open>\<^verbatim>\<open>validateSkillName\<close> is \<^verbatim>\<open>regexp.MatchString(`^[a-z0-9-]+$`, name)\<close>: in Go's syntax \<^verbatim>\<open>$\<close> without the
  \<^verbatim>\<open>m\<close> flag matches at the end of the text only.\<close>

definition validateSkillName :: "string \<Rightarrow> bool" where
  "validateSkillName name =
     (name \<noteq> [] \<and> list_all (\<lambda>c. is_lower c \<or> is_digit c \<or> c = CHR ''-'') name)"

definition generateToolName :: "string \<Rightarrow> string" where
  "generateToolName skillPath =
     (let cleaned = TrimPrefix skillPath ''./'';
          cleaned = TrimSuffix cleaned ''/'';
          toolName = ReplaceAll cleaned ''/'' ''_'';
          toolName = ReplaceAllString_nonword toolName;
          toolName = ToLower toolName
      in ''skills_'' @ toolName)"

text \<open>\<^verbatim>\<open>parseSkillMD\<close> returns either \<^verbatim>\<open>(nil, err)\<close> or \<^verbatim>\<open>(skill, nil)\<close>.\<close>

definition parseSkillMD :: "SkillsOS \<Rightarrow> string \<Rightarrow> error + Skill" where
  "parseSkillMD sys skillPath =
     (case ReadFile sys skillPath of
        Inl err \<Rightarrow> Inl (ErrorfW ''failed to read skill file'' err)
      | Inr contentStr \<Rightarrow>
          (let parts = SplitN contentStr ''---'' 3 in
           if length parts < 3 then Inl (Errorf ''invalid SKILL.md format: missing frontmatter'')
           else
             (case Unmarshal sys (parts ! 1) of
                Inl err \<Rightarrow> Inl (ErrorfW ''failed to parse frontmatter'' err)
              | Inr frontmatter \<Rightarrow>
                  if SkillFrontmatter.Name frontmatter = []
                  then Inl (Errorf ''skill name is required in frontmatter'')
                  else if \<not> validateSkillName (SkillFrontmatter.Name frontmatter)
                  then Inl (Errorf (''invalid skill name format: ''
                              @ SkillFrontmatter.Name frontmatter
                              @ '' (must be lowercase alphanumeric with hyphens)''))
                  else if length (SkillFrontmatter.Description frontmatter) < 20
                  then Inl (Errorf ''skill description must be at least 20 characters'')
                  else
                    (let skillDir = Dir skillPath;
                         skillDirName = Base skillDir
                     in if SkillFrontmatter.Name frontmatter \<noteq> skillDirName
                        then Inl (Errorf (''skill name '' @ [CHR 0x27]
                                    @ SkillFrontmatter.Name frontmatter @ [CHR 0x27]
                                    @ '' does not match directory name '' @ [CHR 0x27]
                                    @ skillDirName @ [CHR 0x27]))
                        else
                          (let relPath =
                                 (case LastIndex skillDir ''/skills/'' of
                                    Some skillsIdx \<Rightarrow> drop (skillsIdx + 8) skillDir
                                  | None \<Rightarrow> skillDirName)
                           in Inr \<lparr>Skill.Name = SkillFrontmatter.Name frontmatter,
                                   FullPath = skillDir,
                                   ToolName = generateToolName relPath,
                                   Skill.Description = SkillFrontmatter.Description frontmatter,
                                   Skill.AllowedTools = SkillFrontmatter.AllowedTools frontmatter,
                                   Skill.Metadata = SkillFrontmatter.Metadata frontmatter,
                                   Skill.License = SkillFrontmatter.License frontmatter,
                                   Content = TrimSpace (parts ! 2),
                                   Path = skillPath\<rparr>)))))"

text \<open>The loop of \<^verbatim>\<open>discoverSkills\<close> that removes the first skill with a tool name.\<close>

fun remove_ToolName :: "string \<Rightarrow> Skill list \<Rightarrow> Skill list" where
  "remove_ToolName toolName [] = []"
| "remove_ToolName toolName (s # allSkills) =
     (if Skill.ToolName s = toolName then allSkills else s # remove_ToolName toolName allSkills)"

text \<open>The state of \<^verbatim>\<open>discoverSkills\<close>: \<^verbatim>\<open>allSkills\<close>, \<^verbatim>\<open>seenToolNames\<close> and the lines written
  to the standard error stream. \<open>discoverSkills_visit\<close> is the callback handed to
  \<^verbatim>\<open>WalkDir\<close>; it returns the nil error in every branch.\<close>

type_synonym discovery = "Skill list \<times> (string \<rightharpoonup> string) \<times> string list"

definition discoverSkills_visit ::
  "SkillsOS \<Rightarrow> string \<times> (error + DirEntry) \<Rightarrow> discovery \<Rightarrow> error option \<times> discovery" where
  "discoverSkills_visit sys call state =
     (case (call, state) of
        ((path, Inl err), (allSkills, seenToolNames, stderr)) \<Rightarrow> (None, state)
      | ((path, Inr d), (allSkills, seenToolNames, stderr)) \<Rightarrow>
          if \<not> IsDir d \<and> DirEntry.Name d = ''SKILL.md'' then
            (case parseSkillMD sys path of
               Inl parseErr \<Rightarrow>
                 (None,
                  (allSkills, seenToolNames,
                   stderr @ [''Warning: Failed to parse skill at '' @ path @ '': ''
                               @ error_string parseErr @ [CHR 0x0A]]))
             | Inr skill \<Rightarrow>
                 (case seenToolNames (Skill.ToolName skill) of
                    Some existingPath \<Rightarrow>
                      (None,
                       (remove_ToolName (Skill.ToolName skill) allSkills @ [skill],
                        seenToolNames(Skill.ToolName skill \<mapsto> path),
                        stderr @ [''Warning: Duplicate tool name '' @ [CHR 0x27]
                                    @ Skill.ToolName skill @ [CHR 0x27] @ '' for skills at ''
                                    @ existingPath @ '' and '' @ path
                                    @ ''. Using the later one.'' @ [CHR 0x0A]]))
                  | None \<Rightarrow>
                      (None,
                       (allSkills @ [skill], seenToolNames(Skill.ToolName skill \<mapsto> path),
                        stderr))))
          else (None, state))"

text \<open>\<^verbatim>\<open>filepath.WalkDir\<close> makes its calls in order and stops at the first error that the
  callback returns.\<close>

fun WalkDir_calls ::
  "SkillsOS \<Rightarrow> (string \<times> (error + DirEntry)) list \<Rightarrow> discovery \<Rightarrow> error option \<times> discovery" where
  "WalkDir_calls sys [] state = (None, state)"
| "WalkDir_calls sys (call # calls) state =
     (case discoverSkills_visit sys call state of
        (Some err, state') \<Rightarrow> (Some err, state')
      | (None, state') \<Rightarrow> WalkDir_calls sys calls state')"

fun discoverSkills_loop :: "SkillsOS \<Rightarrow> string list \<Rightarrow> discovery \<Rightarrow> discovery" where
  "discoverSkills_loop sys [] state = state"
| "discoverSkills_loop sys (basePath # basePaths) state =
     (if NotExist sys basePath then discoverSkills_loop sys basePaths state
      else
        (case WalkDir_calls sys (WalkDir sys basePath) state of
           (Some err, (allSkills, seenToolNames, stderr)) \<Rightarrow>
             discoverSkills_loop sys basePaths
               (allSkills, seenToolNames,
                stderr @ [''Warning: Error walking directory '' @ basePath @ '': ''
                            @ error_string err @ [CHR 0x0A]])
         | (None, state') \<Rightarrow> discoverSkills_loop sys basePaths state'))"

text \<open>\<^verbatim>\<open>discoverSkills\<close> returns \<^verbatim>\<open>(allSkills, nil)\<close>; the model adds the lines written to
  the standard error stream.\<close>

definition discoverSkills ::
  "SkillsOS \<Rightarrow> string list \<Rightarrow> (Skill list \<times> error option) \<times> string list" where
  "discoverSkills sys basePaths =
     (case discoverSkills_loop sys basePaths ([], Map.empty, []) of
        (allSkills, seenToolNames, stderr) \<Rightarrow> ((allSkills, None), stderr))"

definition getSkillBasePaths :: "SkillsOS \<Rightarrow> string \<Rightarrow> string list" where
  "getSkillBasePaths sys workingDir =
     (let configDir = Getenv sys ''XDG_CONFIG_HOME'';
          configDir =
            (if configDir = [] then
               (case UserHomeDir sys of
                  Inr homeDir \<Rightarrow> Join [homeDir, ''.config'']
                | Inl err \<Rightarrow> configDir)
             else configDir);
          paths = (if configDir \<noteq> [] then [Join [configDir, ''crush'', ''skills'']] else []);
          paths =
            (case UserHomeDir sys of
               Inr homeDir \<Rightarrow> paths @ [Join [homeDir, ''.crush'', ''skills'']]
             | Inl err \<Rightarrow> paths)
      in paths @ [Join [workingDir, ''.crush'', ''skills'']])"

section \<open>Notions used to state the properties\<close>

subsection \<open>Runs of a pipeline\<close>

text \<open>
  \<open>permission_returns hooks req w\<close> is the sequence \<open>[d1, ..., dn]\<close> of what the
  permission hooks return when each is invoked in turn on \<open>req\<close>, starting in world
  \<open>w\<close>; \<open>permission_world hooks req w\<close> is the world after all of \<open>hooks\<close> have been
  invoked, so \<open>permission_world (take k hooks) req w\<close> is the world in which exactly the
  first \<open>k\<close> hooks have run and no other.
\<close>

fun permission_world :: "('req, 'w) PermissionHook list \<Rightarrow> 'req \<Rightarrow> 'w \<Rightarrow> 'w" where
  "permission_world [] req w = w"
| "permission_world (hook # hooks) req w =
     permission_world hooks req (snd (OnPermissionRequest hook req w))"

fun permission_returns ::
  "('req, 'w) PermissionHook list \<Rightarrow> 'req \<Rightarrow> 'w \<Rightarrow> (bool option \<times> error option) list" where
  "permission_returns [] req w = []"
| "permission_returns (hook # hooks) req w =
     fst (OnPermissionRequest hook req w)
       # permission_returns hooks req (snd (OnPermissionRequest hook req w))"

text \<open>The last non-nil element of the hook returns \<open>[m1, m2, ...]\<close>, or the initial
  value when every return is nil.\<close>

definition last_non_nil_args ::
  "(string \<rightharpoonup> 'v) option \<Rightarrow> (string \<rightharpoonup> 'v) option list \<Rightarrow> (string \<rightharpoonup> 'v) option" where
  "last_non_nil_args args0 ms =
     (case filter (\<lambda>m. m \<noteq> None) ms of [] \<Rightarrow> args0 | m # rest \<Rightarrow> last (m # rest))"

definition last_modified_result ::
  "'v ToolExecuteResult \<Rightarrow> 'v ToolExecuteResult option list \<Rightarrow> 'v ToolExecuteResult" where
  "last_modified_result result0 ms =
     (case List.map_filter (\<lambda>m. m) ms of [] \<Rightarrow> result0 | x # rest \<Rightarrow> last (x # rest))"

subsection \<open>Sequences of loads\<close>

text \<open>\<open>load_sequence r loads w\<close> calls \<^verbatim>\<open>LoadPlugin\<close> for each plugin of \<open>loads\<close> in turn and
  returns the error of each call, the registry and the world at the end;
  \<open>successful_loads\<close> are the plugins whose call returned no error.\<close>

fun load_sequence ::
  "('w, 'c, 's, 'm, 'p, 't, 'a) Registry
     \<Rightarrow> (('w, ('c, 's, 'm, 'p, 't, 'a) Hooks) Plugin \<times> PluginContext) list \<Rightarrow> 'w
     \<Rightarrow> error option list \<times> ('w, 'c, 's, 'm, 'p, 't, 'a) Registry \<times> 'w" where
  "load_sequence r [] w = ([], r, w)"
| "load_sequence r ((plugin, pluginCtx) # rest) w =
     (case LoadPlugin r plugin pluginCtx w of
        (err, r', w') \<Rightarrow>
          (case load_sequence r' rest w' of (errs, r'', w'') \<Rightarrow> (err # errs, r'', w'')))"

definition successful_loads ::
  "(('w, 'h) Plugin \<times> PluginContext) list \<Rightarrow> error option list \<Rightarrow> ('w, 'h) Plugin list" where
  "successful_loads loads errs =
     map (\<lambda>((plugin, pluginCtx), err). plugin) (filter (\<lambda>(load, err). err = None) (zip loads errs))"

subsection \<open>Valid skills in discovery order\<close>

text \<open>
  \<open>call_skill sys call\<close> is the skill that one call of the walk contributes: the parsed skill
  when the call is for a file named \<^verbatim>\<open>SKILL.md\<close> that parses, nothing otherwise.
  \<open>valid_skills sys basePaths\<close> are the valid skills in the order of discovery: base
  directory after base directory, each in the order of its walk. \<open>keep_later\<close> keeps of
  the skills with one tool name the last. \<open>discovered ss state\<close> is the invariant of
  discovery once the valid skills \<open>ss\<close> have been visited.
\<close>

definition call_skill :: "SkillsOS \<Rightarrow> string \<times> (error + DirEntry) \<Rightarrow> Skill list" where
  "call_skill sys call =
     (case call of
        (path, Inl err) \<Rightarrow> []
      | (path, Inr d) \<Rightarrow>
          if \<not> IsDir d \<and> DirEntry.Name d = ''SKILL.md''
          then (case parseSkillMD sys path of Inl err \<Rightarrow> [] | Inr skill \<Rightarrow> [skill])
          else [])"

definition valid_skills :: "SkillsOS \<Rightarrow> string list \<Rightarrow> Skill list" where
  "valid_skills sys basePaths =
     concat (map (\<lambda>basePath. if NotExist sys basePath then []
                               else concat (map (call_skill sys) (WalkDir sys basePath)))
               basePaths)"

fun keep_later :: "Skill list \<Rightarrow> Skill list" where
  "keep_later [] = []"
| "keep_later (s # later) =
     (if Skill.ToolName s \<in> set (map Skill.ToolName later) then keep_later later
      else s # keep_later later)"

definition discovered :: "Skill list \<Rightarrow> discovery \<Rightarrow> bool" where
  "discovered ss state =
     (case state of
        (allSkills, seenToolNames, stderr) \<Rightarrow>
          allSkills = keep_later ss \<and> dom seenToolNames = set (map Skill.ToolName ss))"

subsection \<open>The path of a skill directory below a directory named skills\<close>

text \<open>
  \<open>after_skills\<close> reads the elements of a path and returns the elements below the last
  element named \<^verbatim>\<open>skills\<close> that has elements below it, if there is one. For the path of a
  directory this element is the nearest ancestor named \<^verbatim>\<open>skills\<close>, and
  \<open>skills_relative_path\<close> is the path of the directory relative to that ancestor, the base
  name of the directory when it has no such ancestor.
\<close>

fun after_skills :: "string list \<Rightarrow> string list option" where
  "after_skills [] = None"
| "after_skills (e # es) =
     (case after_skills es of
        Some rel \<Rightarrow> Some rel
      | None \<Rightarrow> if e = ''skills'' \<and> es \<noteq> [] then Some es else None)"

definition skills_relative_path :: "string \<Rightarrow> string" where
  "skills_relative_path dir =
     (case after_skills (path_elements dir) of
        Some rel \<Rightarrow> Join_sep rel ''/''
      | None \<Rightarrow> Base dir)"

text \<open>The elements of a rooted path, each after a separator.\<close>

definition slashed :: "string list \<Rightarrow> string" where
  "slashed es = concat (map (\<lambda>e. CHR ''/'' # e) es)"

subsection \<open>Characters of a text\<close>

text \<open>
  \<^verbatim>\<open>utf8.RuneCountInString\<close>: the number of characters of a text, each well-formed encoding
  and each byte outside one counting once. The sources never call it: \<^verbatim>\<open>len\<close> of a Go
  string, \<^const>\<open>length\<close> here, is the number of its bytes.
\<close>

function RuneCountInString :: "string \<Rightarrow> nat" where
  "RuneCountInString s =
     (if s = [] then 0 else Suc (RuneCountInString (drop (rune_width s) s)))"
  by pat_completeness auto
termination
  by (relation "measure length") (auto simp: rune_width_def Let_def)

declare RuneCountInString.simps [simp del]

section \<open>Examples\<close>

subsection \<open>Example plugins\<close>

text \<open>In the examples the world is the log of the hooks that ran, a permission request is
  the name of the tool, and argument values are strings.\<close>

type_synonym example_hooks =
  "(string list ConfigHook, (unit, string list) SessionHook, (unit, string list) MessageHook,
    (string, string list) PermissionHook, (string, string list) ToolHook,
    (unit, unit, unit, string list) AgentHook) Hooks"

type_synonym example_registry =
  "(string list, string list ConfigHook, (unit, string list) SessionHook,
    (unit, string list) MessageHook, (string, string list) PermissionHook,
    (string, string list) ToolHook, (unit, unit, unit, string list) AgentHook) Registry"

definition example_allow_view :: "(string, string list) PermissionHook" where
  "example_allow_view =
     \<lparr>OnPermissionRequest =
        (\<lambda>req w. ((if req = ''view'' then Some True else None, None), w @ [''A'']))\<rparr>"

definition example_deny_all :: "(string, string list) PermissionHook" where
  "example_deny_all = \<lparr>OnPermissionRequest = (\<lambda>req w. ((Some False, None), w @ [''B'']))\<rparr>"

definition example_perm_failing :: "(string, string list) PermissionHook" where
  "example_perm_failing =
     \<lparr>OnPermissionRequest = (\<lambda>req w. ((Some True, Some (Errorf ''boom'')), w @ [''F'']))\<rparr>"

definition example_perm_registry ::
  "(string, string list) PermissionHook list \<Rightarrow> example_registry" where
  "example_perm_registry hooks = NewRegistry\<lparr>permHooks := hooks\<rparr>"

definition example_add_mode :: "(string, string list) ToolHook" where
  "example_add_mode =
     \<lparr>OnToolExecuteBefore =
        (\<lambda>input w. ((map_option (\<lambda>m. m(''mode'' \<mapsto> ''r'')) (Arguments input), None), w @ [''X''])),
      OnToolExecuteAfter =
        (\<lambda>input result w. ((Some (result\<lparr>Output := Output result @ ''+X''\<rparr>), None), w @ [''X'']))\<rparr>"

definition example_add_trace :: "(string, string list) ToolHook" where
  "example_add_trace =
     \<lparr>OnToolExecuteBefore =
        (\<lambda>input w. ((map_option (\<lambda>m. m(''trace'' \<mapsto> ''true'')) (Arguments input), None), w @ [''Y''])),
      OnToolExecuteAfter =
        (\<lambda>input result w. ((Some (result\<lparr>Output := Output result @ ''+Y''\<rparr>), None), w @ [''Y'']))\<rparr>"

definition example_tool_failing :: "(string, string list) ToolHook" where
  "example_tool_failing =
     \<lparr>OnToolExecuteBefore = (\<lambda>input w. ((None, Some (Errorf ''boom'')), w @ [''F''])),
      OnToolExecuteAfter = (\<lambda>input result w. ((None, Some (Errorf ''boom'')), w @ [''F'']))\<rparr>"

definition example_tool_registry :: "(string, string list) ToolHook list \<Rightarrow> example_registry" where
  "example_tool_registry hooks = NewRegistry\<lparr>toolHooks := hooks\<rparr>"

definition example_input :: "string ToolExecuteInput" where
  "example_input =
     \<lparr>ToolExecuteInput.ToolName = ''view'', SessionID = ''s1'', MessageID = ''m1'', ToolCallID = ''c1'',
      Arguments = Some [''path'' \<mapsto> ''a.txt'']\<rparr>"

definition example_result :: "string ToolExecuteResult" where
  "example_result = \<lparr>Output = ''out'', Error = None, ToolExecuteResult.Metadata = None\<rparr>"

text \<open>A plugin with the hooks of \<^verbatim>\<open>NewBaseHooks()\<close>, as the skills plugin has, and one with a
  permission hook only, whose \<^verbatim>\<open>Shutdown\<close> fails.\<close>

definition example_base_plugin :: "(string list, example_hooks) Plugin" where
  "example_base_plugin =
     \<lparr>Info = \<lparr>PluginInfo.Name = ''crush-skills'', Version = ''1.0.0'',
              PluginInfo.Description = ''Agent Skills for Crush'',
              Author = ''Crush Team''\<rparr>,
      Init = (\<lambda>pluginCtx w. (None, w @ [''init''])),
      Hooks = NewBaseHooks,
      Shutdown = (\<lambda>w. (None, w @ [''shutdown'']))\<rparr>"

definition example_perm_plugin :: "(string list, example_hooks) Plugin" where
  "example_perm_plugin =
     \<lparr>Info = \<lparr>PluginInfo.Name = ''auto-approve'', Version = ''1.0.0'', PluginInfo.Description = ''approves view'',
              Author = ''example''\<rparr>,
      Init = (\<lambda>pluginCtx w. (None, w)),
      Hooks = \<lparr>Config = None, Session = None, Message = None,
                Permission = Some example_allow_view, Tool = None, Agent = None\<rparr>,
      Shutdown = (\<lambda>w. (Some (Errorf ''busy''), w @ [''shutdown auto-approve'']))\<rparr>"

definition example_loads :: "((string list, example_hooks) Plugin \<times> PluginContext) list" where
  "example_loads =
     [(example_base_plugin, \<lparr>WorkingDir = ''/w''\<rparr>),
      (example_perm_plugin, \<lparr>WorkingDir = ''/w''\<rparr>),
      (example_base_plugin, \<lparr>WorkingDir = ''/w''\<rparr>)]"

definition example_loaded_registry :: example_registry where
  "example_loaded_registry = fst (snd (load_sequence NewRegistry example_loads []))"

subsection \<open>Example artifacts and an example host\<close>

text \<open>A plugin whose config hook fails; artifacts that export one symbol, a plugin, under a
  given name; an operating system with three artifacts; and a host whose configuration
  lists the first of them and has a coder agent.\<close>

definition example_failing_config_plugin :: "(string list, example_hooks) Plugin" where
  "example_failing_config_plugin =
     \<lparr>Info = \<lparr>PluginInfo.Name = ''bad-config'', Version = ''0.1.0'',
              PluginInfo.Description = ''rejects the configuration'', Author = ''example''\<rparr>,
      Init = (\<lambda>pluginCtx w. (None, w @ [''init bad-config''])),
      Hooks = \<lparr>Config = Some \<lparr>OnConfigLoad =
                         (\<lambda>w. (Some (Errorf ''invalid config''), w @ [''config hook'']))\<rparr>,
                Session = None, Message = None, Permission = None, Tool = None, Agent = None\<rparr>,
      Shutdown = (\<lambda>w. (None, w))\<rparr>"

definition example_artifact ::
  "string \<Rightarrow> (string list, example_hooks) Plugin \<Rightarrow> string
     \<Rightarrow> error + (string list, example_hooks) Plugin Symbol" where
  "example_artifact symbol plugin name =
     (if name = symbol then Inr (PluginSymbol plugin) else Inl (Errorf ''symbol not found''))"

definition example_os :: "(string list, example_hooks) Plugin OS" where
  "example_os =
     \<lparr>Abs = Inr,
      Stat = (\<lambda>path. Inr False),
      ReadDir = (\<lambda>path. Inl (Errorf ''not a directory'')),
      Open = (\<lambda>path.
        if path = ''/p/bad.so'' then Inr (example_artifact ''Plugin'' example_failing_config_plugin)
        else if path = ''/p/plugin.so'' then Inr (example_artifact ''Plugin'' example_base_plugin)
        else if path = ''/p/extension.so''
        then Inr (example_artifact ''Extension'' example_base_plugin)
        else Inl (Errorf ''no such file''))\<rparr>"

definition example_host ::
  "(string list, (unit, string list) SessionHook, (unit, string list) MessageHook,
    (string, string list) PermissionHook, (string, string list) ToolHook,
    (unit, unit, unit, string list) AgentHook, unit) Host" where
  "example_host =
     \<lparr>system = example_os,
      GetPluginPaths = (\<lambda>w. [''/p/bad.so'']),
      cfg_WorkingDir = (\<lambda>w. ''/w''),
      IsConfigured = (\<lambda>w. True),
      CoderAgentID = (\<lambda>w. ''coder''),
      NewCoordinator = (\<lambda>r w. ((Some (), None), w @ [''coordinator'']))\<rparr>"

definition example_bad_registry :: example_registry where
  "example_bad_registry =
     \<lparr>plugins = [(''bad-config'', example_failing_config_plugin)],
      configHooks = [\<lparr>OnConfigLoad =
                        (\<lambda>w. (Some (Errorf ''invalid config''), w @ [''config hook'']))\<rparr>],
      sessionHooks = [], messageHooks = [], permHooks = [], toolHooks = [], agentHooks = []\<rparr>"

subsection \<open>An example file system of skills\<close>

text \<open>A user-level skill \<^verbatim>\<open>foo\<close>; in the project a file without frontmatter, a skill
  \<^verbatim>\<open>baz\<close> and another skill \<^verbatim>\<open>foo\<close>; and a skill two levels below a directory
  \<^verbatim>\<open>skills\<close>. \<^verbatim>\<open>~/.crush/skills\<close> does not exist.\<close>

definition example_frontmatter :: "string \<Rightarrow> string \<Rightarrow> SkillFrontmatter" where
  "example_frontmatter name description =
     \<lparr>SkillFrontmatter.Name = name, SkillFrontmatter.Description = description,
      SkillFrontmatter.License = [], SkillFrontmatter.AllowedTools = [],
      SkillFrontmatter.Metadata = []\<rparr>"

definition example_dir :: "string \<Rightarrow> error + DirEntry" where
  "example_dir name = Inr \<lparr>DirEntry.Name = name, IsDir = True\<rparr>"

definition example_file :: "string \<Rightarrow> error + DirEntry" where
  "example_file name = Inr \<lparr>DirEntry.Name = name, IsDir = False\<rparr>"

definition example_skills_os :: SkillsOS where
  "example_skills_os =
     \<lparr>ReadFile = (\<lambda>path.
        if path = ''/home/u/.config/crush/skills/foo/SKILL.md''
        then Inr ''---\<newline>name: foo\<newline>description: formats foo files everywhere\<newline>---\<newline>User foo.\<newline>''
        else if path = ''/w/.crush/skills/foo/SKILL.md''
        then Inr ''---\<newline>name: foo\<newline>description: formats foo files in this project\<newline>---\<newline>Project foo.\<newline>''
        else if path = ''/w/.crush/skills/bar/SKILL.md''
        then Inr ''# bar\<newline>no frontmatter here\<newline>''
        else if path = ''/w/.crush/skills/baz/SKILL.md''
        then Inr ''---\<newline>name: baz\<newline>description: explains baz to new colleagues\<newline>---\<newline>Baz.\<newline>''
        else if path = ''/w/skills/tools/analyzer/SKILL.md''
        then Inr ''---\<newline>name: analyzer\<newline>description: analyzes the tools of a project\<newline>---\<newline>Analyze.\<newline>''
        else Inl (Errorf ''no such file'')),
      Unmarshal = (\<lambda>text.
        if text = ''\<newline>name: foo\<newline>description: formats foo files everywhere\<newline>''
        then Inr (example_frontmatter ''foo'' ''formats foo files everywhere'')
        else if text = ''\<newline>name: foo\<newline>description: formats foo files in this project\<newline>''
        then Inr (example_frontmatter ''foo'' ''formats foo files in this project'')
        else if text = ''\<newline>name: baz\<newline>description: explains baz to new colleagues\<newline>''
        then Inr (example_frontmatter ''baz'' ''explains baz to new colleagues'')
        else if text = ''\<newline>name: analyzer\<newline>description: analyzes the tools of a project\<newline>''
        then Inr (example_frontmatter ''analyzer'' ''analyzes the tools of a project'')
        else Inl (Errorf ''yaml: unmarshal error'')),
      NotExist = (\<lambda>path. path = ''/home/u/.crush/skills''),
      WalkDir = (\<lambda>root.
        if root = ''/home/u/.config/crush/skills''
        then [(''/home/u/.config/crush/skills'', example_dir ''skills''),
              (''/home/u/.config/crush/skills/foo'', example_dir ''foo''),
              (''/home/u/.config/crush/skills/foo/SKILL.md'', example_file ''SKILL.md'')]
        else if root = ''/w/.crush/skills''
        then [(''/w/.crush/skills'', example_dir ''skills''),
              (''/w/.crush/skills/bar'', example_dir ''bar''),
              (''/w/.crush/skills/bar/SKILL.md'', example_file ''SKILL.md''),
              (''/w/.crush/skills/baz'', example_dir ''baz''),
              (''/w/.crush/skills/baz/SKILL.md'', example_file ''SKILL.md''),
              (''/w/.crush/skills/foo'', example_dir ''foo''),
              (''/w/.crush/skills/foo/SKILL.md'', example_file ''SKILL.md'')]
        else [(root, Inl (Errorf ''lstat: no such file or directory''))]),
      Getenv = (\<lambda>name. []),
      UserHomeDir = Inr ''/home/u''\<rparr>"

definition example_skill :: "string \<Rightarrow> string \<Rightarrow> string \<Rightarrow> string \<Rightarrow> string \<Rightarrow> Skill" where
  "example_skill name dir toolName description content =
     \<lparr>Skill.Name = name, FullPath = dir, ToolName = toolName, Skill.Description = description,
      Skill.AllowedTools = [], Skill.Metadata = [], Skill.License = [],
      Content = content, Path = dir @ ''/SKILL.md''\<rparr>"

text \<open>A project with one skill whose description has 19 characters in 20 bytes: the
  \<^verbatim>\<open>e\<close> with an acute accent is the two bytes \<^verbatim>\<open>C3 A9\<close>.\<close>

definition example_utf8_description :: string where
  "example_utf8_description = ''caf'' @ [CHR 0xC3, CHR 0xA9] @ ''s in every town''"

definition example_utf8_os :: SkillsOS where
  "example_utf8_os =
     \<lparr>ReadFile = (\<lambda>path.
        if path = ''/w/.crush/skills/cafe/SKILL.md''
        then Inr (''---\<newline>name: cafe\<newline>description: '' @ example_utf8_description
                    @ ''\<newline>---\<newline>Find one.\<newline>'')
        else Inl (Errorf ''no such file'')),
      Unmarshal = (\<lambda>text.
        if text = ''\<newline>name: cafe\<newline>description: '' @ example_utf8_description @ ''\<newline>''
        then Inr (example_frontmatter ''cafe'' example_utf8_description)
        else Inl (Errorf ''yaml: unmarshal error'')),
      NotExist = (\<lambda>path. path \<noteq> ''/w/.crush/skills''),
      WalkDir = (\<lambda>root.
        if root = ''/w/.crush/skills''
        then [(''/w/.crush/skills'', example_dir ''skills''),
              (''/w/.crush/skills/cafe'', example_dir ''cafe''),
              (''/w/.crush/skills/cafe/SKILL.md'', example_file ''SKILL.md'')]
        else [(root, Inl (Errorf ''lstat: no such file or directory''))]),
      Getenv = (\<lambda>name. []),
      UserHomeDir = Inr ''/home/u''\<rparr>"

text \<open>A user whose \<^verbatim>\<open>XDG_CONFIG_HOME\<close> is the relative path \<^verbatim>\<open>skills\<close>, with one
  \<^verbatim>\<open>SKILL.md\<close> in the skills directory of the configuration itself.\<close>

definition example_relative_os :: SkillsOS where
  "example_relative_os =
     \<lparr>ReadFile = (\<lambda>path.
        if path = ''skills/crush/skills/SKILL.md''
        then Inr ''---\<newline>name: skills\<newline>description: lists the skills of this user\<newline>---\<newline>List them.\<newline>''
        else Inl (Errorf ''no such file'')),
      Unmarshal = (\<lambda>text.
        if text = ''\<newline>name: skills\<newline>description: lists the skills of this user\<newline>''
        then Inr (example_frontmatter ''skills'' ''lists the skills of this user'')
        else Inl (Errorf ''yaml: unmarshal error'')),
      NotExist = (\<lambda>path. path \<noteq> ''skills/crush/skills''),
      WalkDir = (\<lambda>root.
        if root = ''skills/crush/skills''
        then [(''skills/crush/skills'', example_dir ''skills''),
              (''skills/crush/skills/SKILL.md'', example_file ''SKILL.md'')]
        else [(root, Inl (Errorf ''lstat: no such file or directory''))]),
      Getenv = (\<lambda>name. if name = ''XDG_CONFIG_HOME'' then ''skills'' else []),
      UserHomeDir = Inr ''/home/u''\<rparr>"

section \<open>Verified properties\<close>

subsection \<open>The permission trigger\<close>

lemma permission_loop_Cons:
  "TriggerPermissionRequest_loop (h # hs) req w =
     (case fst (OnPermissionRequest h req w) of
        (decision, Some err) \<Rightarrow>
          ((None, Some (ErrorfW ''permission hook failed'' err)), snd (OnPermissionRequest h req w))
      | (Some d, None) \<Rightarrow> ((Some d, None), snd (OnPermissionRequest h req w))
      | (None, None) \<Rightarrow> TriggerPermissionRequest_loop hs req (snd (OnPermissionRequest h req w)))"
  by (simp split: prod.splits option.splits)

lemma permission_loop_at:
  assumes "i < length hs"
    and "\<forall>j<i. permission_returns hs req w ! j = (None, None)"
  shows "TriggerPermissionRequest_loop hs req w =
     (case permission_returns hs req w ! i of
        (decision, Some err) \<Rightarrow>
          ((None, Some (ErrorfW ''permission hook failed'' err)),
           permission_world (take (Suc i) hs) req w)
      | (Some d, None) \<Rightarrow> ((Some d, None), permission_world (take (Suc i) hs) req w)
      | (None, None) \<Rightarrow>
          TriggerPermissionRequest_loop (drop (Suc i) hs) req
            (permission_world (take (Suc i) hs) req w))"
  using assms
proof (induction hs arbitrary: i w)
  case Nil
  then show ?case by simp
next
  case (Cons h hs)
  show ?case
  proof (cases i)
    case 0
    then show ?thesis
      by (simp add: permission_loop_Cons del: TriggerPermissionRequest_loop.simps(2)
          split: prod.splits option.splits)
  next
    case (Suc k)
    from Cons.prems(2) Suc have "permission_returns (h # hs) req w ! 0 = (None, None)"
      by blast
    then have h0: "fst (OnPermissionRequest h req w) = (None, None)"
      by simp
    have rest: "\<forall>j<k. permission_returns hs req (snd (OnPermissionRequest h req w)) ! j = (None, None)"
    proof (intro allI impI)
      fix j assume "j < k"
      then have "Suc j < i" using Suc by simp
      with Cons.prems(2) have "permission_returns (h # hs) req w ! Suc j = (None, None)"
        by blast
      then show "permission_returns hs req (snd (OnPermissionRequest h req w)) ! j = (None, None)"
        by simp
    qed
    from Cons.prems(1) Suc have "k < length hs" by simp
    note IH = Cons.IH[OF this rest]
    have step: "TriggerPermissionRequest_loop (h # hs) req w =
        TriggerPermissionRequest_loop hs req (snd (OnPermissionRequest h req w))"
      using h0 by (simp add: permission_loop_Cons del: TriggerPermissionRequest_loop.simps(2))
    have nth: "permission_returns (h # hs) req w ! i =
        permission_returns hs req (snd (OnPermissionRequest h req w)) ! k"
      using Suc by simp
    have world: "permission_world (take (Suc i) (h # hs)) req w =
        permission_world (take (Suc k) hs) req (snd (OnPermissionRequest h req w))"
      using Suc by simp
    have dr: "drop (Suc i) (h # hs) = drop (Suc k) hs"
      using Suc by simp
    show ?thesis
      unfolding step nth world dr by (rule IH)
  qed
qed

lemma permission_loop_all_None:
  "\<forall>j<length hs. permission_returns hs req w ! j = (None, None) \<Longrightarrow>
   TriggerPermissionRequest_loop hs req w = ((None, None), permission_world hs req w)"
proof (induction hs arbitrary: w)
  case Nil
  then show ?case by simp
next
  case (Cons h hs)
  from Cons.prems have "permission_returns (h # hs) req w ! 0 = (None, None)"
    by (metis length_greater_0_conv list.distinct(1))
  then have h0: "fst (OnPermissionRequest h req w) = (None, None)"
    by simp
  have rest: "\<forall>j<length hs. permission_returns hs req (snd (OnPermissionRequest h req w)) ! j = (None, None)"
  proof (intro allI impI)
    fix j assume "j < length hs"
    then have "Suc j < length (h # hs)" by simp
    with Cons.prems have "permission_returns (h # hs) req w ! Suc j = (None, None)"
      by blast
    then show "permission_returns hs req (snd (OnPermissionRequest h req w)) ! j = (None, None)"
      by simp
  qed
  from Cons.IH[OF rest] h0 show ?case
    by (simp add: permission_loop_Cons del: TriggerPermissionRequest_loop.simps(2))
qed

text \<open>
  Claim C1. Let \<open>[d1, ..., dn]\<close> be what the hooks of the permission pipeline return.
  If \<open>di\<close> is the first return that is not (no decision, no error) and it is a decision
  \<open>d\<close> without error, \<^verbatim>\<open>TriggerPermissionRequest\<close> returns \<open>d\<close> and no error, in the
  world in which exactly the hooks up to the \<open>i\<close>-th have run: the hooks after it are
  not invoked. If every hook returns no decision and no error, the trigger returns the
  nil decision and no error. If the first such return carries an error, the trigger
  returns the nil decision and that error, wrapped, again without invoking the hooks
  after it.
\<close>

theorem TriggerPermissionRequest_first_decision:
  "(\<forall>i d. i < length (permHooks r)
        \<and> (\<forall>j<i. permission_returns (permHooks r) req w ! j = (None, None))
        \<and> permission_returns (permHooks r) req w ! i = (Some d, None)
      \<longrightarrow> TriggerPermissionRequest r req w =
            ((Some d, None), permission_world (take (Suc i) (permHooks r)) req w))
   \<and> ((\<forall>j<length (permHooks r). permission_returns (permHooks r) req w ! j = (None, None))
      \<longrightarrow> TriggerPermissionRequest r req w =
            ((None, None), permission_world (permHooks r) req w))
   \<and> (\<forall>i x err. i < length (permHooks r)
        \<and> (\<forall>j<i. permission_returns (permHooks r) req w ! j = (None, None))
        \<and> permission_returns (permHooks r) req w ! i = (x, Some err)
      \<longrightarrow> TriggerPermissionRequest r req w =
            ((None, Some (ErrorfW ''permission hook failed'' err)),
             permission_world (take (Suc i) (permHooks r)) req w))"
  unfolding TriggerPermissionRequest_def
  by (auto simp: permission_loop_at permission_loop_all_None split: option.splits)

theorem TriggerPermissionRequest_first_decision_witness:
  "TriggerPermissionRequest (example_perm_registry [example_allow_view, example_deny_all]) ''view'' []
     = ((Some True, None), [''A''])
   \<and> TriggerPermissionRequest (example_perm_registry [example_allow_view, example_deny_all]) ''write'' []
     = ((Some False, None), [''A'', ''B''])
   \<and> TriggerPermissionRequest (example_perm_registry [example_allow_view, NilPermissionHook]) ''write'' []
     = ((None, None), [''A''])
   \<and> TriggerPermissionRequest
        (example_perm_registry [example_allow_view, example_perm_failing, example_deny_all]) ''write'' []
     = ((None, Some (ErrorfW ''permission hook failed'' (Errorf ''boom''))), [''A'', ''F''])"
proof -
  have a: "TriggerPermissionRequest (example_perm_registry [example_allow_view, example_deny_all]) ''view'' []
     = ((Some True, None), [''A''])"
    using TriggerPermissionRequest_first_decision
      [of "example_perm_registry [example_allow_view, example_deny_all]" "''view''" "[]",
       THEN conjunct1, rule_format, of 0 True]
    by (simp add: example_perm_registry_def example_allow_view_def example_deny_all_def)
  have b: "TriggerPermissionRequest (example_perm_registry [example_allow_view, example_deny_all]) ''write'' []
     = ((Some False, None), [''A'', ''B''])"
    using TriggerPermissionRequest_first_decision
      [of "example_perm_registry [example_allow_view, example_deny_all]" "''write''" "[]",
       THEN conjunct1, rule_format, of 1 False]
    by (simp add: example_perm_registry_def example_allow_view_def example_deny_all_def)
  have c: "TriggerPermissionRequest (example_perm_registry [example_allow_view, NilPermissionHook]) ''write'' []
     = ((None, None), [''A''])"
    using TriggerPermissionRequest_first_decision
      [of "example_perm_registry [example_allow_view, NilPermissionHook]" "''write''" "[]",
       THEN conjunct2, THEN conjunct1]
    by (simp add: example_perm_registry_def example_allow_view_def NilPermissionHook_def
        less_Suc_eq)
  have d: "TriggerPermissionRequest
        (example_perm_registry [example_allow_view, example_perm_failing, example_deny_all]) ''write'' []
     = ((None, Some (ErrorfW ''permission hook failed'' (Errorf ''boom''))), [''A'', ''F''])"
    using TriggerPermissionRequest_first_decision
      [of "example_perm_registry [example_allow_view, example_perm_failing, example_deny_all]"
        "''write''" "[]", THEN conjunct2, THEN conjunct2, rule_format, of 1 "Some True" "Errorf ''boom''"]
    by (simp add: example_perm_registry_def example_allow_view_def example_perm_failing_def
        example_deny_all_def)
  from a b c d show ?thesis by blast
qed

subsection \<open>The tool-before trigger\<close>

lemma last_non_nil_args_Nil: "last_non_nil_args a [] = a"
  by (simp add: last_non_nil_args_def)

lemma last_non_nil_args_Cons:
  "last_non_nil_args a (m # ms) = last_non_nil_args (case m of None \<Rightarrow> a | Some x \<Rightarrow> Some x) ms"
  by (cases m) (auto simp: last_non_nil_args_def split: list.splits)

lemma before_loop_Cons:
  "OnToolExecuteBefore h input w = ((m, None), w') \<Longrightarrow>
   TriggerToolExecuteBefore_loop (h # hs) args input w =
     TriggerToolExecuteBefore_loop hs (case m of None \<Rightarrow> args | Some x \<Rightarrow> Some x)
       (case m of None \<Rightarrow> input | Some x \<Rightarrow> input\<lparr>Arguments := Some x\<rparr>) w'"
  by (cases m) simp_all

lemma before_loop_run:
  assumes "length ms \<le> length hs"
    and "length ws = Suc (length ms)"
    and "ws ! 0 = w"
    and "\<forall>i<length ms.
           OnToolExecuteBefore (hs ! i)
             (input\<lparr>Arguments := last_non_nil_args (Arguments input) (take i ms)\<rparr>) (ws ! i)
           = ((ms ! i, None), ws ! Suc i)"
  shows "TriggerToolExecuteBefore_loop hs (Arguments input) input w =
         TriggerToolExecuteBefore_loop (drop (length ms) hs)
           (last_non_nil_args (Arguments input) ms)
           (input\<lparr>Arguments := last_non_nil_args (Arguments input) ms\<rparr>) (ws ! length ms)"
  using assms
proof (induction ms arbitrary: hs input w ws)
  case Nil
  then show ?case by (simp add: last_non_nil_args_Nil)
next
  case (Cons m ms)
  from Cons.prems(1) obtain h hs' where hs: "hs = h # hs'"
    by (cases hs) auto
  from Cons.prems(2) obtain w0 ws' where ws: "ws = w0 # ws'"
    by (cases ws) auto
  from Cons.prems(3) ws have w0: "w0 = w" by simp
  define input' where
    "input' = (case m of None \<Rightarrow> input | Some x \<Rightarrow> input\<lparr>Arguments := Some x\<rparr>)"
  have args': "Arguments input' = (case m of None \<Rightarrow> Arguments input | Some x \<Rightarrow> Some x)"
    by (cases m) (simp_all add: input'_def)
  have upd: "\<And>a. input'\<lparr>Arguments := a\<rparr> = input\<lparr>Arguments := a\<rparr>"
    by (cases m) (simp_all add: input'_def)
  from Cons.prems(4) have "OnToolExecuteBefore (hs ! 0)
        (input\<lparr>Arguments := last_non_nil_args (Arguments input) (take 0 (m # ms))\<rparr>) (ws ! 0)
       = (((m # ms) ! 0, None), ws ! Suc 0)"
    by (metis length_greater_0_conv list.distinct(1))
  then have first: "OnToolExecuteBefore h input w = ((m, None), ws' ! 0)"
    by (simp add: hs ws w0 last_non_nil_args_Nil)
  have step: "TriggerToolExecuteBefore_loop hs (Arguments input) input w =
      TriggerToolExecuteBefore_loop hs' (Arguments input') input' (ws' ! 0)"
    using before_loop_Cons[OF first, of hs' "Arguments input"]
    by (cases m) (simp_all add: hs input'_def del: TriggerToolExecuteBefore_loop.simps(2))
  have p1: "length ms \<le> length hs'" using Cons.prems(1) hs by simp
  have p2: "length ws' = Suc (length ms)" using Cons.prems(2) ws by simp
  have p4: "\<forall>i<length ms.
           OnToolExecuteBefore (hs' ! i)
             (input'\<lparr>Arguments := last_non_nil_args (Arguments input') (take i ms)\<rparr>) (ws' ! i)
           = ((ms ! i, None), ws' ! Suc i)"
  proof (intro allI impI)
    fix i assume "i < length ms"
    then have "Suc i < length (m # ms)" by simp
    with Cons.prems(4) have "OnToolExecuteBefore (hs ! Suc i)
        (input\<lparr>Arguments := last_non_nil_args (Arguments input) (take (Suc i) (m # ms))\<rparr>)
        (ws ! Suc i) = (((m # ms) ! Suc i, None), ws ! Suc (Suc i))"
      by blast
    then show "OnToolExecuteBefore (hs' ! i)
             (input'\<lparr>Arguments := last_non_nil_args (Arguments input') (take i ms)\<rparr>) (ws' ! i)
           = ((ms ! i, None), ws' ! Suc i)"
      by (simp add: hs ws upd args' last_non_nil_args_Cons)
  qed
  from Cons.IH[OF p1 p2 refl p4] show ?case
    unfolding step by (simp add: hs ws upd args' last_non_nil_args_Cons)
qed

text \<open>
  Claim C2. Let the hooks of the tool pipeline return \<open>[m1, m2, ...]\<close> (\<open>None\<close> for nil)
  when hook \<open>Hi\<close> is invoked with the caller's input record whose arguments are the last
  non-nil \<open>mj\<close> for \<open>j < i\<close> (the caller's arguments if there is none). Then
  \<^verbatim>\<open>TriggerToolExecuteBefore\<close> invokes them so: when no hook fails it returns the last
  non-nil \<open>mi\<close>, or the caller's arguments if every hook returned nil; and when, after
  the hooks that returned \<open>ms\<close>, the next hook returns an error, it returns nil
  arguments and the wrapped error in the world that hook left, so no later hook runs.
  The hypotheses fix the hooks' behaviour only at the inputs named, and the result
  depends on nothing else.
\<close>

theorem TriggerToolExecuteBefore_threads_arguments:
  assumes "length ms \<le> length (toolHooks r)"
    and "length ws = Suc (length ms)"
    and "ws ! 0 = w"
    and "\<forall>i<length ms.
           OnToolExecuteBefore (toolHooks r ! i)
             (input\<lparr>Arguments := last_non_nil_args (Arguments input) (take i ms)\<rparr>) (ws ! i)
           = ((ms ! i, None), ws ! Suc i)"
  shows "(length ms = length (toolHooks r) \<longrightarrow>
            TriggerToolExecuteBefore r input w =
              ((last_non_nil_args (Arguments input) ms, None), ws ! length ms))
       \<and> (\<forall>x err w'. length ms < length (toolHooks r)
            \<and> OnToolExecuteBefore (toolHooks r ! length ms)
                (input\<lparr>Arguments := last_non_nil_args (Arguments input) ms\<rparr>) (ws ! length ms)
              = ((x, Some err), w')
          \<longrightarrow> TriggerToolExecuteBefore r input w =
                ((None, Some (ErrorfW ''tool execute before hook failed'' err)), w'))"
proof -
  note run = before_loop_run[OF assms]
  show ?thesis
    unfolding TriggerToolExecuteBefore_def run
    by (auto simp: Cons_nth_drop_Suc[symmetric] split: option.splits)
qed

theorem TriggerToolExecuteBefore_threads_arguments_witness:
  "TriggerToolExecuteBefore (example_tool_registry [example_add_mode, NilToolHook, example_add_trace])
       example_input []
     = ((Some [''path'' \<mapsto> ''a.txt'', ''mode'' \<mapsto> ''r'', ''trace'' \<mapsto> ''true''], None),
        [''X'', ''Y''])
   \<and> TriggerToolExecuteBefore
       (example_tool_registry [example_add_mode, example_tool_failing, example_add_trace])
       example_input []
     = ((None, Some (ErrorfW ''tool execute before hook failed'' (Errorf ''boom''))), [''X'', ''F''])"
proof -
  let ?m1 = "Some [''path'' \<mapsto> ''a.txt'', ''mode'' \<mapsto> ''r'']"
  let ?m2 = "Some [''path'' \<mapsto> ''a.txt'', ''mode'' \<mapsto> ''r'', ''trace'' \<mapsto> ''true'']"
  let ?r = "example_tool_registry [example_add_mode, NilToolHook, example_add_trace]"
  let ?ms = "[?m1, None, ?m2]"
  let ?ws = "[[], [''X''], [''X''], [''X'', ''Y'']]"
  have hooks: "toolHooks ?r = [example_add_mode, NilToolHook, example_add_trace]"
    by (simp add: example_tool_registry_def NewRegistry_def)
  have run: "\<forall>i<length ?ms.
           OnToolExecuteBefore (toolHooks ?r ! i)
             (example_input\<lparr>Arguments := last_non_nil_args (Arguments example_input) (take i ?ms)\<rparr>)
             (?ws ! i)
           = ((?ms ! i, None), ?ws ! Suc i)"
    unfolding hooks
    by (simp add: less_Suc_eq all_conj_distrib example_add_mode_def NilToolHook_def
        example_add_trace_def example_input_def last_non_nil_args_def)
  have a: "TriggerToolExecuteBefore ?r example_input [] = ((?m2, None), [''X'', ''Y''])"
    using TriggerToolExecuteBefore_threads_arguments
      [of ?ms ?r ?ws "[]" example_input, OF _ _ _ run, THEN conjunct1]
    by (simp add: hooks last_non_nil_args_def)
  let ?r' = "example_tool_registry [example_add_mode, example_tool_failing, example_add_trace]"
  have hooks': "toolHooks ?r' = [example_add_mode, example_tool_failing, example_add_trace]"
    by (simp add: example_tool_registry_def NewRegistry_def)
  have run': "\<forall>i<length [?m1].
           OnToolExecuteBefore (toolHooks ?r' ! i)
             (example_input\<lparr>Arguments := last_non_nil_args (Arguments example_input) (take i [?m1])\<rparr>)
             ([[], [''X'']] ! i)
           = (([?m1] ! i, None), [[], [''X'']] ! Suc i)"
    unfolding hooks'
    by (simp add: example_add_mode_def example_input_def last_non_nil_args_def)
  have fails: "length [?m1] < length (toolHooks ?r')
      \<and> OnToolExecuteBefore (toolHooks ?r' ! length [?m1])
          (example_input\<lparr>Arguments := last_non_nil_args (Arguments example_input) [?m1]\<rparr>)
          ([[], [''X'']] ! length [?m1])
        = ((None, Some (Errorf ''boom'')), [''X'', ''F''])"
    unfolding hooks' by (simp add: example_tool_failing_def)
  have b: "TriggerToolExecuteBefore ?r' example_input []
     = ((None, Some (ErrorfW ''tool execute before hook failed'' (Errorf ''boom''))), [''X'', ''F''])"
    using TriggerToolExecuteBefore_threads_arguments
      [of "[?m1]" ?r' "[[], [''X'']]" "[]" example_input, OF _ _ _ run', THEN conjunct2, rule_format,
       OF _ _ _ fails]
    by (simp add: hooks')
  from a b show ?thesis by blast
qed


subsection \<open>The tool-after trigger\<close>

lemma last_modified_result_Nil: "last_modified_result r [] = r"
  by (simp add: last_modified_result_def List.map_filter_simps)

lemma last_modified_result_Cons:
  "last_modified_result r (m # ms) = last_modified_result (case m of None \<Rightarrow> r | Some x \<Rightarrow> x) ms"
  by (cases m) (auto simp: last_modified_result_def List.map_filter_simps split: list.splits)

lemma after_loop_Cons:
  "OnToolExecuteAfter h input result w = ((m, None), w') \<Longrightarrow>
   TriggerToolExecuteAfter_loop (h # hs) input result w =
     TriggerToolExecuteAfter_loop hs input (case m of None \<Rightarrow> result | Some x \<Rightarrow> x) w'"
  by (cases m) simp_all

lemma after_loop_run:
  assumes "length ms \<le> length hs"
    and "length ws = Suc (length ms)"
    and "ws ! 0 = w"
    and "\<forall>i<length ms.
           OnToolExecuteAfter (hs ! i) input (last_modified_result result (take i ms)) (ws ! i)
           = ((ms ! i, None), ws ! Suc i)"
  shows "TriggerToolExecuteAfter_loop hs input result w =
         TriggerToolExecuteAfter_loop (drop (length ms) hs) input
           (last_modified_result result ms) (ws ! length ms)"
  using assms
proof (induction ms arbitrary: hs result w ws)
  case Nil
  then show ?case by (simp add: last_modified_result_Nil)
next
  case (Cons m ms)
  from Cons.prems(1) obtain h hs' where hs: "hs = h # hs'"
    by (cases hs) auto
  from Cons.prems(2) obtain w0 ws' where ws: "ws = w0 # ws'"
    by (cases ws) auto
  from Cons.prems(3) ws have w0: "w0 = w" by simp
  define result' where "result' = (case m of None \<Rightarrow> result | Some x \<Rightarrow> x)"
  from Cons.prems(4) have "OnToolExecuteAfter (hs ! 0) input
        (last_modified_result result (take 0 (m # ms))) (ws ! 0)
       = (((m # ms) ! 0, None), ws ! Suc 0)"
    by (metis length_greater_0_conv list.distinct(1))
  then have first: "OnToolExecuteAfter h input result w = ((m, None), ws' ! 0)"
    by (simp add: hs ws w0 last_modified_result_Nil)
  have step: "TriggerToolExecuteAfter_loop hs input result w =
      TriggerToolExecuteAfter_loop hs' input result' (ws' ! 0)"
    unfolding hs result'_def by (rule after_loop_Cons[OF first])
  have p1: "length ms \<le> length hs'" using Cons.prems(1) hs by simp
  have p2: "length ws' = Suc (length ms)" using Cons.prems(2) ws by simp
  have p4: "\<forall>i<length ms.
           OnToolExecuteAfter (hs' ! i) input (last_modified_result result' (take i ms)) (ws' ! i)
           = ((ms ! i, None), ws' ! Suc i)"
  proof (intro allI impI)
    fix i assume "i < length ms"
    then have "Suc i < length (m # ms)" by simp
    with Cons.prems(4) have "OnToolExecuteAfter (hs ! Suc i) input
        (last_modified_result result (take (Suc i) (m # ms)))
        (ws ! Suc i) = (((m # ms) ! Suc i, None), ws ! Suc (Suc i))"
      by blast
    then show "OnToolExecuteAfter (hs' ! i) input (last_modified_result result' (take i ms)) (ws' ! i)
           = ((ms ! i, None), ws' ! Suc i)"
      by (simp add: hs ws result'_def last_modified_result_Cons)
  qed
  from Cons.IH[OF p1 p2 refl p4] show ?case
    unfolding step by (simp add: hs ws result'_def last_modified_result_Cons)
qed

text \<open>
  Claim C5, as amended. Let the hooks of the tool pipeline return \<open>[m1, m2, ...]\<close> when hook
  \<open>Hi\<close> is invoked with the result replaced by the last non-nil \<open>mj\<close> for \<open>j < i\<close> (the
  caller's result if there is none). When no hook fails, \<^verbatim>\<open>TriggerToolExecuteAfter\<close>
  returns the last non-nil modification (the caller's result if every hook returned nil).
  When the next hook returns an error, the trigger returns the wrapped error together
  with the result that was passed to the failing hook: the caller's result as replaced by
  the hooks that ran before it, which is the caller's original result only if none of
  them returned a modification.
\<close>

theorem TriggerToolExecuteAfter_threads_result:
  assumes "length ms \<le> length (toolHooks r)"
    and "length ws = Suc (length ms)"
    and "ws ! 0 = w"
    and "\<forall>i<length ms.
           OnToolExecuteAfter (toolHooks r ! i) input (last_modified_result result (take i ms)) (ws ! i)
           = ((ms ! i, None), ws ! Suc i)"
  shows "(length ms = length (toolHooks r) \<longrightarrow>
            TriggerToolExecuteAfter r input result w =
              ((last_modified_result result ms, None), ws ! length ms))
       \<and> (\<forall>x err w'. length ms < length (toolHooks r)
            \<and> OnToolExecuteAfter (toolHooks r ! length ms) input
                (last_modified_result result ms) (ws ! length ms)
              = ((x, Some err), w')
          \<longrightarrow> TriggerToolExecuteAfter r input result w =
                ((last_modified_result result ms,
                  Some (ErrorfW ''tool execute after hook failed'' err)), w'))"
proof -
  note run = after_loop_run[OF assms]
  show ?thesis
    unfolding TriggerToolExecuteAfter_def run
    by (auto simp: Cons_nth_drop_Suc[symmetric] split: option.splits)
qed

theorem TriggerToolExecuteAfter_threads_result_witness:
  "TriggerToolExecuteAfter (example_tool_registry [example_add_mode, NilToolHook, example_add_trace])
       example_input example_result []
     = ((example_result\<lparr>Output := ''out+X+Y''\<rparr>, None), [''X'', ''Y''])
   \<and> TriggerToolExecuteAfter
       (example_tool_registry [example_add_mode, example_tool_failing, example_add_trace])
       example_input example_result []
     = ((example_result\<lparr>Output := ''out+X''\<rparr>,
         Some (ErrorfW ''tool execute after hook failed'' (Errorf ''boom''))), [''X'', ''F''])"
proof -
  let ?r1 = "example_result\<lparr>Output := ''out+X''\<rparr>"
  let ?r2 = "example_result\<lparr>Output := ''out+X+Y''\<rparr>"
  let ?r = "example_tool_registry [example_add_mode, NilToolHook, example_add_trace]"
  let ?ms = "[Some ?r1, None, Some ?r2]"
  let ?ws = "[[], [''X''], [''X''], [''X'', ''Y'']]"
  have hooks: "toolHooks ?r = [example_add_mode, NilToolHook, example_add_trace]"
    by (simp add: example_tool_registry_def NewRegistry_def)
  have run: "\<forall>i<length ?ms.
           OnToolExecuteAfter (toolHooks ?r ! i) example_input
             (last_modified_result example_result (take i ?ms)) (?ws ! i)
           = ((?ms ! i, None), ?ws ! Suc i)"
    unfolding hooks
    by (simp add: less_Suc_eq all_conj_distrib example_add_mode_def NilToolHook_def
        example_add_trace_def example_result_def last_modified_result_def List.map_filter_simps)
  have a: "TriggerToolExecuteAfter ?r example_input example_result [] = ((?r2, None), [''X'', ''Y''])"
    using TriggerToolExecuteAfter_threads_result
      [of ?ms ?r ?ws "[]" example_input example_result, OF _ _ _ run, THEN conjunct1]
    by (simp add: hooks last_modified_result_def List.map_filter_simps)
  let ?r' = "example_tool_registry [example_add_mode, example_tool_failing, example_add_trace]"
  have hooks': "toolHooks ?r' = [example_add_mode, example_tool_failing, example_add_trace]"
    by (simp add: example_tool_registry_def NewRegistry_def)
  have run': "\<forall>i<length [Some ?r1].
           OnToolExecuteAfter (toolHooks ?r' ! i) example_input
             (last_modified_result example_result (take i [Some ?r1])) ([[], [''X'']] ! i)
           = (([Some ?r1] ! i, None), [[], [''X'']] ! Suc i)"
    unfolding hooks'
    by (simp add: example_add_mode_def example_result_def last_modified_result_def
        List.map_filter_simps)
  have fails: "length [Some ?r1] < length (toolHooks ?r')
      \<and> OnToolExecuteAfter (toolHooks ?r' ! length [Some ?r1]) example_input
          (last_modified_result example_result [Some ?r1]) ([[], [''X'']] ! length [Some ?r1])
        = ((None, Some (Errorf ''boom'')), [''X'', ''F''])"
    unfolding hooks' by (simp add: example_tool_failing_def)
  have b: "TriggerToolExecuteAfter ?r' example_input example_result []
     = ((?r1, Some (ErrorfW ''tool execute after hook failed'' (Errorf ''boom''))), [''X'', ''F''])"
    using TriggerToolExecuteAfter_threads_result
      [of "[Some ?r1]" ?r' "[[], [''X'']]" "[]" example_input example_result, OF _ _ _ run',
       THEN conjunct2, rule_format, OF _ _ _ fails]
    by (simp add: hooks' last_modified_result_def List.map_filter_simps)
  from a b show ?thesis by blast
qed

text \<open>The claim as stated fails: after a first hook has modified the result, a failing
  second hook makes the trigger return the modified result, not the caller's.\<close>

theorem TriggerToolExecuteAfter_error_result_counterexample:
  "snd (fst (TriggerToolExecuteAfter
       (example_tool_registry [example_add_mode, example_tool_failing]) example_input
       example_result [])) \<noteq> None
   \<and> fst (fst (TriggerToolExecuteAfter
       (example_tool_registry [example_add_mode, example_tool_failing]) example_input
       example_result [])) \<noteq> example_result"
  by (simp add: TriggerToolExecuteAfter_def example_tool_registry_def NewRegistry_def
      example_add_mode_def example_tool_failing_def example_result_def)

subsection \<open>Registration of hooks\<close>

lemma append_hook_length:
  "length (append_hook pipeline h) = length pipeline + (if h \<noteq> None then 1 else 0)"
  by (cases h) (simp_all add: append_hook_def)

lemma LoadPlugin_pipelines:
  assumes "LoadPlugin r plugin pluginCtx w = (err, r', w')"
  shows "length (configHooks r') =
           length (configHooks r) + (if err = None \<and> Config (Hooks plugin) \<noteq> None then 1 else 0)"
    and "length (sessionHooks r') =
           length (sessionHooks r) + (if err = None \<and> Session (Hooks plugin) \<noteq> None then 1 else 0)"
    and "length (messageHooks r') =
           length (messageHooks r) + (if err = None \<and> Message (Hooks plugin) \<noteq> None then 1 else 0)"
    and "length (permHooks r') =
           length (permHooks r) + (if err = None \<and> Permission (Hooks plugin) \<noteq> None then 1 else 0)"
    and "length (toolHooks r') =
           length (toolHooks r) + (if err = None \<and> Tool (Hooks plugin) \<noteq> None then 1 else 0)"
    and "length (agentHooks r') =
           length (agentHooks r) + (if err = None \<and> Agent (Hooks plugin) \<noteq> None then 1 else 0)"
  using assms
  by (auto simp: LoadPlugin_def Let_def registerHooks_def append_hook_length
      split: if_splits prod.splits option.splits)

lemma load_sequence_length:
  "load_sequence r loads w = (errs, r', w') \<Longrightarrow> length errs = length loads"
  by (induction loads arbitrary: r w errs r' w') (auto split: prod.splits)

lemma successful_loads_Cons:
  "successful_loads ((plugin, pluginCtx) # loads) (err # errs) =
     (if err = None then [plugin] else []) @ successful_loads loads errs"
  by (simp add: successful_loads_def)

lemma load_sequence_count:
  assumes step: "\<And>r plugin pluginCtx w err r' w'.
      LoadPlugin r plugin pluginCtx w = (err, r', w') \<Longrightarrow>
      f r' = f r + (if err = None \<and> g plugin then 1 else 0)"
    and run: "load_sequence r loads w = (errs, r', w')"
  shows "f r' = f r + length (filter g (successful_loads loads errs))"
  using run
proof (induction loads arbitrary: r w errs r' w')
  case Nil
  then show ?case by (simp add: successful_loads_def)
next
  case (Cons load loads)
  obtain plugin pluginCtx where load: "load = (plugin, pluginCtx)"
    by (cases load)
  obtain err r1 w1 where first: "LoadPlugin r plugin pluginCtx w = (err, r1, w1)"
    by (cases "LoadPlugin r plugin pluginCtx w")
  obtain errs1 r2 w2 where rest: "load_sequence r1 loads w1 = (errs1, r2, w2)"
    by (cases "load_sequence r1 loads w1")
  from Cons.prems have e: "errs = err # errs1" "r' = r2"
    by (simp_all add: load first rest)
  from Cons.IH[OF rest] step[OF first] show ?case
    by (simp add: e load successful_loads_Cons)
qed

lemma load_sequence_pipelines:
  assumes "load_sequence r loads w = (errs, r', w')"
  shows "length (configHooks r') = length (configHooks r)
           + length (filter (\<lambda>plugin. Config (Hooks plugin) \<noteq> None) (successful_loads loads errs))"
    and "length (sessionHooks r') = length (sessionHooks r)
           + length (filter (\<lambda>plugin. Session (Hooks plugin) \<noteq> None) (successful_loads loads errs))"
    and "length (messageHooks r') = length (messageHooks r)
           + length (filter (\<lambda>plugin. Message (Hooks plugin) \<noteq> None) (successful_loads loads errs))"
    and "length (permHooks r') = length (permHooks r)
           + length (filter (\<lambda>plugin. Permission (Hooks plugin) \<noteq> None) (successful_loads loads errs))"
    and "length (toolHooks r') = length (toolHooks r)
           + length (filter (\<lambda>plugin. Tool (Hooks plugin) \<noteq> None) (successful_loads loads errs))"
    and "length (agentHooks r') = length (agentHooks r)
           + length (filter (\<lambda>plugin. Agent (Hooks plugin) \<noteq> None) (successful_loads loads errs))"
  by (rule load_sequence_count[OF _ assms], erule LoadPlugin_pipelines)+

text \<open>
  Claim C9, as amended. After any sequence of \<^verbatim>\<open>LoadPlugin\<close> calls on a new registry, the
  pipeline of every hook kind K has as many entries as there are successfully loaded
  plugins whose \<^verbatim>\<open>Hooks().K()\<close> returned a non-nil hook. The no-op implementations of the
  contract are non-nil, so they are registered and counted like any other hook.
\<close>

theorem pipeline_length_counts_non_nil_hooks:
  "load_sequence NewRegistry loads w = (errs, r, w') \<Longrightarrow>
     length (configHooks r)
       = length (filter (\<lambda>plugin. Config (Hooks plugin) \<noteq> None) (successful_loads loads errs))
   \<and> length (sessionHooks r)
       = length (filter (\<lambda>plugin. Session (Hooks plugin) \<noteq> None) (successful_loads loads errs))
   \<and> length (messageHooks r)
       = length (filter (\<lambda>plugin. Message (Hooks plugin) \<noteq> None) (successful_loads loads errs))
   \<and> length (permHooks r)
       = length (filter (\<lambda>plugin. Permission (Hooks plugin) \<noteq> None) (successful_loads loads errs))
   \<and> length (toolHooks r)
       = length (filter (\<lambda>plugin. Tool (Hooks plugin) \<noteq> None) (successful_loads loads errs))
   \<and> length (agentHooks r)
       = length (filter (\<lambda>plugin. Agent (Hooks plugin) \<noteq> None) (successful_loads loads errs))"
  using load_sequence_pipelines[of NewRegistry loads w errs r w']
  by (simp add: NewRegistry_def)



lemma example_load_sequence:
  "load_sequence NewRegistry example_loads []
     = ([None, None, Some (Errorf ''plugin crush-skills is already loaded'')],
        \<lparr>plugins = [(''crush-skills'', example_base_plugin), (''auto-approve'', example_perm_plugin)],
         configHooks = [NilConfigHook], sessionHooks = [NilSessionHook],
         messageHooks = [NilMessageHook], permHooks = [NilPermissionHook, example_allow_view],
         toolHooks = [NilToolHook], agentHooks = [NilAgentHook]\<rparr>,
        [''init''])"
proof -
  have n1: "PluginInfo.Name (Info example_base_plugin) = ''crush-skills''"
    and i1: "Init example_base_plugin = (\<lambda>pluginCtx w. (None, w @ [''init'']))"
    and h1: "Hooks example_base_plugin = NewBaseHooks"
    by (simp_all add: example_base_plugin_def)
  have n2: "PluginInfo.Name (Info example_perm_plugin) = ''auto-approve''"
    and i2: "Init example_perm_plugin = (\<lambda>pluginCtx w. (None, w))"
    and h2: "Hooks example_perm_plugin = \<lparr>Config = None, Session = None, Message = None,
                Permission = Some example_allow_view, Tool = None, Agent = None\<rparr>"
    by (simp_all add: example_perm_plugin_def)
  show ?thesis
    by (simp add: example_loads_def LoadPlugin_def NewRegistry_def registerHooks_def append_hook_def
      n1 i1 h1 n2 i2 h2 NewBaseHooks_def Let_def)
qed


theorem pipeline_length_counts_non_nil_hooks_witness:
  "fst (load_sequence NewRegistry example_loads [])
     = [None, None, Some (Errorf ''plugin crush-skills is already loaded'')]
   \<and> length (configHooks (fst (snd (load_sequence NewRegistry example_loads [])))) = 1
   \<and> length (sessionHooks (fst (snd (load_sequence NewRegistry example_loads [])))) = 1
   \<and> length (messageHooks (fst (snd (load_sequence NewRegistry example_loads [])))) = 1
   \<and> length (permHooks (fst (snd (load_sequence NewRegistry example_loads [])))) = 2
   \<and> length (toolHooks (fst (snd (load_sequence NewRegistry example_loads [])))) = 1
   \<and> length (agentHooks (fst (snd (load_sequence NewRegistry example_loads [])))) = 1"
proof -
  have h1: "Hooks example_base_plugin = NewBaseHooks"
    by (simp add: example_base_plugin_def)
  have h2: "Hooks example_perm_plugin = \<lparr>Config = None, Session = None, Message = None,
                Permission = Some example_allow_view, Tool = None, Agent = None\<rparr>"
    by (simp add: example_perm_plugin_def)
  have loaded: "successful_loads example_loads
        [None, None, Some (Errorf ''plugin crush-skills is already loaded'')]
      = [example_base_plugin, example_perm_plugin]"
    by (simp add: successful_loads_def example_loads_def)
  show ?thesis
    using pipeline_length_counts_non_nil_hooks[OF example_load_sequence]
    by (simp add: example_load_sequence loaded h1 h2 NewBaseHooks_def)
qed

text \<open>The claim as stated fails: one plugin with the hooks of \<^verbatim>\<open>NewBaseHooks()\<close> loads
  successfully and the config pipeline has one entry, while no loaded plugin has a config
  hook other than the no-op one.\<close>

theorem pipeline_length_non_noop_counterexample:
  "fst (load_sequence NewRegistry [(example_base_plugin, \<lparr>WorkingDir = ''/w''\<rparr>)] []) = [None]
   \<and> length (configHooks
        (fst (snd (load_sequence NewRegistry [(example_base_plugin, \<lparr>WorkingDir = ''/w''\<rparr>)] [])))) = 1
   \<and> length (filter (\<lambda>plugin. Config (Hooks plugin) \<noteq> None
                              \<and> Config (Hooks plugin) \<noteq> Some NilConfigHook)
        (successful_loads [(example_base_plugin, \<lparr>WorkingDir = ''/w''\<rparr>)] [None])) = 0"
proof -
  have n1: "PluginInfo.Name (Info example_base_plugin) = ''crush-skills''"
    and i1: "Init example_base_plugin = (\<lambda>pluginCtx w. (None, w @ [''init'']))"
    and h1: "Hooks example_base_plugin = NewBaseHooks"
    by (simp_all add: example_base_plugin_def)
  show ?thesis
    by (simp add: LoadPlugin_def NewRegistry_def registerHooks_def append_hook_def
      n1 i1 h1 NewBaseHooks_def Let_def successful_loads_def)
qed


subsection \<open>Shutdown of all plugins\<close>

lemma Shutdown_range_world:
  "snd (Shutdown_range entries errors w) =
     fold (\<lambda>(name, plugin) w. snd (Shutdown plugin w)) entries w"
  by (induction entries errors w rule: Shutdown_range.induct)
    (auto split: prod.splits option.splits)

lemma Registry_Shutdown_registry: "fst (snd (Registry_Shutdown r w)) = r"
  by (simp add: Registry_Shutdown_def split: prod.splits)

lemma Registry_Shutdown_world:
  "snd (snd (Registry_Shutdown r w)) =
     fold (\<lambda>(name, plugin) w. snd (Shutdown plugin w)) (plugins r) w"
  using Shutdown_range_world[of "plugins r" "[]" w]
  by (cases "Shutdown_range (plugins r) [] w") (simp add: Registry_Shutdown_def)

lemma LoadPlugin_duplicate:
  "map_of (plugins r) (PluginInfo.Name (Info plugin)) \<noteq> None \<Longrightarrow>
   LoadPlugin r plugin pluginCtx w =
     (Some (Errorf (''plugin '' @ PluginInfo.Name (Info plugin) @ '' is already loaded'')), r, w)"
  by (simp add: LoadPlugin_def Let_def)

text \<open>
  Claim C10. \<^verbatim>\<open>Registry.Shutdown\<close> returns the registry it was given (the map from names to
  plugins and the six pipelines), in the world in which \<^verbatim>\<open>Shutdown\<close> has been called on
  every plugin of the map; \<^verbatim>\<open>GetPlugin\<close> and \<^verbatim>\<open>ListPlugins\<close> answer as before, and
  \<^verbatim>\<open>LoadPlugin\<close> of a plugin whose name is in the map still fails as already loaded,
  changing nothing.
\<close>

theorem Registry_Shutdown_keeps_registry:
  "fst (snd (Registry_Shutdown r w)) = r
   \<and> snd (snd (Registry_Shutdown r w)) =
       fold (\<lambda>(name, plugin) w. snd (Shutdown plugin w)) (plugins r) w
   \<and> (\<forall>name. GetPlugin (fst (snd (Registry_Shutdown r w))) name = GetPlugin r name)
   \<and> ListPlugins (fst (snd (Registry_Shutdown r w))) = ListPlugins r
   \<and> (\<forall>plugin pluginCtx w'.
        map_of (plugins r) (PluginInfo.Name (Info plugin)) \<noteq> None \<longrightarrow>
        LoadPlugin (fst (snd (Registry_Shutdown r w))) plugin pluginCtx w' =
          (Some (Errorf (''plugin '' @ PluginInfo.Name (Info plugin) @ '' is already loaded'')),
           fst (snd (Registry_Shutdown r w)), w'))"
  by (simp add: Registry_Shutdown_registry Registry_Shutdown_world LoadPlugin_duplicate)

lemma example_loaded_registry_eq:
  "example_loaded_registry =
     \<lparr>plugins = [(''crush-skills'', example_base_plugin), (''auto-approve'', example_perm_plugin)],
      configHooks = [NilConfigHook], sessionHooks = [NilSessionHook],
      messageHooks = [NilMessageHook], permHooks = [NilPermissionHook, example_allow_view],
      toolHooks = [NilToolHook], agentHooks = [NilAgentHook]\<rparr>"
  by (simp add: example_loaded_registry_def example_load_sequence)

theorem Registry_Shutdown_keeps_registry_witness:
  "Registry_Shutdown example_loaded_registry [] =
     (Some (ErrorfDV 1 [ErrorfW ''plugin auto-approve'' (Errorf ''busy'')]),
      example_loaded_registry, [''shutdown'', ''shutdown auto-approve''])
   \<and> LoadPlugin (fst (snd (Registry_Shutdown example_loaded_registry []))) example_base_plugin
       \<lparr>WorkingDir = ''/w''\<rparr> [''shutdown'', ''shutdown auto-approve'']
     = (Some (Errorf ''plugin crush-skills is already loaded''), example_loaded_registry,
        [''shutdown'', ''shutdown auto-approve''])"
proof -
  have n1: "PluginInfo.Name (Info example_base_plugin) = ''crush-skills''"
    and s1: "Shutdown example_base_plugin = (\<lambda>w. (None, w @ [''shutdown'']))"
    by (simp_all add: example_base_plugin_def)
  have s2: "Shutdown example_perm_plugin =
      (\<lambda>w. (Some (Errorf ''busy''), w @ [''shutdown auto-approve'']))"
    by (simp add: example_perm_plugin_def)
  have plugins: "plugins example_loaded_registry =
      [(''crush-skills'', example_base_plugin), (''auto-approve'', example_perm_plugin)]"
    by (simp add: example_loaded_registry_eq)
  have err: "fst (Registry_Shutdown example_loaded_registry []) =
      Some (ErrorfDV 1 [ErrorfW ''plugin auto-approve'' (Errorf ''busy'')])"
    by (simp add: Registry_Shutdown_def plugins s1 s2)
  have present: "map_of (plugins example_loaded_registry) (PluginInfo.Name (Info example_base_plugin)) \<noteq> None"
    by (simp add: plugins n1)
  note frame = Registry_Shutdown_keeps_registry[of example_loaded_registry "[]"]
  from frame have r: "fst (snd (Registry_Shutdown example_loaded_registry [])) = example_loaded_registry"
    by blast
  from frame have w: "snd (snd (Registry_Shutdown example_loaded_registry [])) =
      [''shutdown'', ''shutdown auto-approve'']"
    by (simp add: plugins s1 s2)
  from frame present have dup:
    "LoadPlugin (fst (snd (Registry_Shutdown example_loaded_registry []))) example_base_plugin
       \<lparr>WorkingDir = ''/w''\<rparr> [''shutdown'', ''shutdown auto-approve'']
     = (Some (Errorf (''plugin '' @ PluginInfo.Name (Info example_base_plugin) @ '' is already loaded'')),
        fst (snd (Registry_Shutdown example_loaded_registry [])),
        [''shutdown'', ''shutdown auto-approve''])"
    by blast
  from err r w have "Registry_Shutdown example_loaded_registry [] =
     (Some (ErrorfDV 1 [ErrorfW ''plugin auto-approve'' (Errorf ''busy'')]),
      example_loaded_registry, [''shutdown'', ''shutdown auto-approve''])"
    by (metis prod.collapse)
  with dup show ?thesis
    by (simp add: r n1)
qed

subsection \<open>The entry symbol of an artifact\<close>

text \<open>
  Claim C4, as amended. For every artifact that \<^verbatim>\<open>plugin.Open\<close> opens, \<^verbatim>\<open>loadGoPlugin\<close>
  looks up the symbol named exactly \<^verbatim>\<open>Plugin\<close>. When the lookup fails the load fails with
  the missing-symbol error, when the symbol does not implement the \<^verbatim>\<open>Plugin\<close> interface it
  fails with the interface-mismatch error, in both cases leaving registry and world as
  they were; otherwise the plugin is handed to \<^verbatim>\<open>LoadPlugin\<close>.
\<close>

theorem loadGoPlugin_looks_up_Plugin:
  "Open os path = Inr p \<longrightarrow>
     (\<forall>err. p ''Plugin'' = Inl err \<longrightarrow>
        loadGoPlugin os r path pluginCtx w =
          (Some (ErrorfW ''plugin does not export 'Plugin' symbol'' err), r, w))
   \<and> (p ''Plugin'' = Inr OtherSymbol \<longrightarrow>
        loadGoPlugin os r path pluginCtx w =
          (Some (Errorf ''Plugin symbol does not implement plugin.Plugin interface''), r, w))
   \<and> (\<forall>pluginImpl. p ''Plugin'' = Inr (PluginSymbol pluginImpl) \<longrightarrow>
        loadGoPlugin os r path pluginCtx w =
          (case LoadPlugin r pluginImpl pluginCtx w of
             (Some err, r', w') \<Rightarrow> (Some (ErrorfW ''failed to load plugin'' err), r', w')
           | (None, r', w') \<Rightarrow> (None, r', w')))"
  by (simp add: loadGoPlugin_def)

theorem loadGoPlugin_looks_up_Plugin_witness:
  "loadGoPlugin example_os NewRegistry ''/p/extension.so'' \<lparr>WorkingDir = ''/w''\<rparr> []
     = (Some (ErrorfW ''plugin does not export 'Plugin' symbol'' (Errorf ''symbol not found'')),
        NewRegistry, [])
   \<and> fst (loadGoPlugin example_os NewRegistry ''/p/plugin.so'' \<lparr>WorkingDir = ''/w''\<rparr> []) = None"
proof -
  have o1: "Open example_os ''/p/extension.so'' = Inr (example_artifact ''Extension'' example_base_plugin)"
    and o2: "Open example_os ''/p/plugin.so'' = Inr (example_artifact ''Plugin'' example_base_plugin)"
    by (simp_all add: example_os_def)
  have s1: "example_artifact ''Extension'' example_base_plugin ''Plugin'' = Inl (Errorf ''symbol not found'')"
    and s2: "example_artifact ''Plugin'' example_base_plugin ''Plugin'' = Inr (PluginSymbol example_base_plugin)"
    by (simp_all add: example_artifact_def)
  have n1: "PluginInfo.Name (Info example_base_plugin) = ''crush-skills''"
    and i1: "Init example_base_plugin = (\<lambda>pluginCtx w. (None, w @ [''init'']))"
    by (simp_all add: example_base_plugin_def)
  have l: "fst (LoadPlugin NewRegistry example_base_plugin \<lparr>WorkingDir = ''/w''\<rparr> []) = None"
    by (simp add: LoadPlugin_def Let_def n1 i1 NewRegistry_def)
  from loadGoPlugin_looks_up_Plugin[of example_os "''/p/extension.so''" _ NewRegistry
      "\<lparr>WorkingDir = ''/w''\<rparr>" "[]", rule_format, OF o1, THEN conjunct1, rule_format, OF s1]
  have a: "loadGoPlugin example_os NewRegistry ''/p/extension.so'' \<lparr>WorkingDir = ''/w''\<rparr> []
     = (Some (ErrorfW ''plugin does not export 'Plugin' symbol'' (Errorf ''symbol not found'')),
        NewRegistry, [])" .
  from loadGoPlugin_looks_up_Plugin[of example_os "''/p/plugin.so''" _ NewRegistry
      "\<lparr>WorkingDir = ''/w''\<rparr>" "[]", rule_format, OF o2, THEN conjunct2, THEN conjunct2,
      rule_format, OF s2] l
  have b: "fst (loadGoPlugin example_os NewRegistry ''/p/plugin.so'' \<lparr>WorkingDir = ''/w''\<rparr> []) = None"
    by (auto split: prod.splits option.splits)
  from a b show ?thesis by blast
qed

text \<open>The claim as stated fails: an artifact that exports a conforming plugin under the
  name \<^verbatim>\<open>Extension\<close> is rejected for lack of the entry symbol, and an artifact that exports
  no \<^verbatim>\<open>Extension\<close> but a \<^verbatim>\<open>Plugin\<close> loads.\<close>

theorem loadGoPlugin_Extension_symbol_counterexample:
  "example_artifact ''Extension'' example_base_plugin ''Extension'' = Inr (PluginSymbol example_base_plugin)
   \<and> fst (loadGoPlugin example_os NewRegistry ''/p/extension.so'' \<lparr>WorkingDir = ''/w''\<rparr> [])
       = Some (ErrorfW ''plugin does not export 'Plugin' symbol'' (Errorf ''symbol not found''))
   \<and> example_artifact ''Plugin'' example_base_plugin ''Extension'' = Inl (Errorf ''symbol not found'')
   \<and> fst (loadGoPlugin example_os NewRegistry ''/p/plugin.so'' \<lparr>WorkingDir = ''/w''\<rparr> []) = None"
proof -
  have n1: "PluginInfo.Name (Info example_base_plugin) = ''crush-skills''"
    and i1: "Init example_base_plugin = (\<lambda>pluginCtx w. (None, w @ [''init'']))"
    by (simp_all add: example_base_plugin_def)
  show ?thesis
    by (simp add: loadGoPlugin_def example_os_def example_artifact_def LoadPlugin_def Let_def n1 i1
        NewRegistry_def)
qed


subsection \<open>Config hooks at startup\<close>

lemma TriggerConfigHooks_loop_append:
  "TriggerConfigHooks_loop pre w = (None, w') \<Longrightarrow>
   TriggerConfigHooks_loop (pre @ rest) w = TriggerConfigHooks_loop rest w'"
  by (induction pre arbitrary: w) (auto split: prod.splits option.splits)

lemma TriggerConfigHooks_failing_hook:
  assumes "configHooks r = pre @ hook # post"
    and "TriggerConfigHooks_loop pre w = (None, w')"
    and "OnConfigLoad hook w' = (Some err, w'')"
  shows "TriggerConfigHooks r w = (Some (ErrorfW ''config hook failed'' err), w'')"
  using TriggerConfigHooks_loop_append[OF assms(2), of "hook # post"] assms(1,3)
  by (simp add: TriggerConfigHooks_def)

text \<open>
  Claim C3, as amended. Suppose that during startup, after the plugins of the
  configuration are loaded, a config hook returns an error (the config hooks before it
  having returned none). Then \<^verbatim>\<open>initPlugins\<close> returns that error, wrapped, without
  registering the shutdown of the registry as a cleanup function; \<^verbatim>\<open>New\<close> logs the warning
  ``Failed to initialize plugins'' and goes on with the configuration as the hooks left
  it: it returns the \<^verbatim>\<open>App\<close> and no error when no agent is configured or the coder agent
  initialises, and fails only if the coder agent fails to initialise.
\<close>

theorem New_continues_after_config_hook_error:
  assumes "LoadFromConfig (system host) NewRegistry (GetPluginPaths host w)
             \<lparr>WorkingDir = cfg_WorkingDir host w\<rparr> w [] = (None, r, w1, stderr)"
    and "configHooks r = pre @ hook # post"
    and "TriggerConfigHooks_loop pre w1 = (None, w2)"
    and "OnConfigLoad hook w2 = (Some err, w3)"
  shows "initPlugins host
           \<lparr>PluginRegistry = NewRegistry, AgentCoordinator = None, cleanupFuncs = [EventsCleanup]\<rparr> w
         = (Some (ErrorfW ''failed to trigger config hooks'' (ErrorfW ''config hook failed'' err)),
            \<lparr>PluginRegistry = r, AgentCoordinator = None, cleanupFuncs = [EventsCleanup]\<rparr>,
            w3, [], stderr)
       \<and> New host w =
          (if \<not> IsConfigured host w3
           then ((Some \<lparr>PluginRegistry = r, AgentCoordinator = None,
                         cleanupFuncs = [EventsCleanup, ConnClose]\<rparr>, None),
                 w3,
                 [SlogWarn ''Failed to initialize plugins''
                    [ErrorAttr ''error''
                       (ErrorfW ''failed to trigger config hooks''
                          (ErrorfW ''config hook failed'' err))],
                  SlogWarn ''No agent configuration found'' []],
                 stderr)
           else
             (case InitCoderAgent host
                     \<lparr>PluginRegistry = r, AgentCoordinator = None,
                      cleanupFuncs = [EventsCleanup, ConnClose]\<rparr> w3 of
                (Some e, app, w4, logs) \<Rightarrow>
                  ((None, Some (ErrorfW ''failed to initialize coder agent'' e)), w4,
                   SlogWarn ''Failed to initialize plugins''
                     [ErrorAttr ''error''
                        (ErrorfW ''failed to trigger config hooks''
                           (ErrorfW ''config hook failed'' err))] # logs,
                   stderr)
              | (None, app, w4, logs) \<Rightarrow>
                  ((Some app, None), w4,
                   SlogWarn ''Failed to initialize plugins''
                     [ErrorAttr ''error''
                        (ErrorfW ''failed to trigger config hooks''
                           (ErrorfW ''config hook failed'' err))] # logs,
                   stderr)))"
proof -
  note hooks = TriggerConfigHooks_failing_hook[OF assms(2,3,4)]
  have init: "initPlugins host
           \<lparr>PluginRegistry = NewRegistry, AgentCoordinator = None, cleanupFuncs = [EventsCleanup]\<rparr> w
         = (Some (ErrorfW ''failed to trigger config hooks'' (ErrorfW ''config hook failed'' err)),
            \<lparr>PluginRegistry = r, AgentCoordinator = None, cleanupFuncs = [EventsCleanup]\<rparr>,
            w3, [], stderr)"
    by (simp add: initPlugins_def Let_def assms(1) hooks)
  show ?thesis
    unfolding New_def Let_def init
    by (auto split: prod.splits option.splits)
qed

lemma example_LoadFromConfig:
  "LoadFromConfig (system example_host) NewRegistry (GetPluginPaths example_host [])
     \<lparr>WorkingDir = cfg_WorkingDir example_host []\<rparr> [] []
   = (None, example_bad_registry, [''init bad-config''], [])"
proof -
  have n: "PluginInfo.Name (Info example_failing_config_plugin) = ''bad-config''"
    and i: "Init example_failing_config_plugin = (\<lambda>pluginCtx w. (None, w @ [''init bad-config'']))"
    and h: "Hooks example_failing_config_plugin =
        \<lparr>Config = Some \<lparr>OnConfigLoad =
                         (\<lambda>w. (Some (Errorf ''invalid config''), w @ [''config hook'']))\<rparr>,
         Session = None, Message = None, Permission = None, Tool = None, Agent = None\<rparr>"
    by (simp_all add: example_failing_config_plugin_def)
  have load: "LoadPlugin NewRegistry example_failing_config_plugin \<lparr>WorkingDir = ''/w''\<rparr> []
      = (None, example_bad_registry, [''init bad-config''])"
    by (simp add: LoadPlugin_def Let_def n i h NewRegistry_def registerHooks_def append_hook_def
        example_bad_registry_def)
  have go: "loadGoPlugin example_os NewRegistry ''/p/bad.so'' \<lparr>WorkingDir = ''/w''\<rparr> []
      = (None, example_bad_registry, [''init bad-config''])"
    by (simp add: loadGoPlugin_def example_os_def example_artifact_def load)
  have path: "LoadFromPath example_os NewRegistry ''/p/bad.so'' \<lparr>WorkingDir = ''/w''\<rparr> []
      = (None, example_bad_registry, [''init bad-config''])"
    by (simp add: LoadFromPath_def example_os_def HasSuffix_def go[unfolded example_os_def])
  show ?thesis
    by (simp add: LoadFromConfig_def example_host_def path)
qed

theorem New_continues_after_config_hook_error_witness:
  "New example_host [] =
     ((Some \<lparr>PluginRegistry = example_bad_registry, AgentCoordinator = Some (),
             cleanupFuncs = [EventsCleanup, ConnClose, CloseMCPClients]\<rparr>, None),
      [''init bad-config'', ''config hook'', ''coordinator''],
      [SlogWarn ''Failed to initialize plugins''
         [ErrorAttr ''error''
            (ErrorfW ''failed to trigger config hooks''
               (ErrorfW ''config hook failed'' (Errorf ''invalid config'')))]],
      [])"
proof -
  have hooks: "configHooks example_bad_registry =
      [] @ \<lparr>OnConfigLoad = (\<lambda>w. (Some (Errorf ''invalid config''), w @ [''config hook'']))\<rparr> # []"
    by (simp add: example_bad_registry_def)
  have pre: "TriggerConfigHooks_loop [] [''init bad-config''] = (None, [''init bad-config''])"
    by simp
  have fails: "OnConfigLoad \<lparr>OnConfigLoad = (\<lambda>w. (Some (Errorf ''invalid config''), w @ [''config hook'']))\<rparr>
      [''init bad-config''] = (Some (Errorf ''invalid config''), [''init bad-config'', ''config hook''])"
    by simp
  have conf: "IsConfigured example_host [''init bad-config'', ''config hook'']"
    by (simp add: example_host_def)
  have agent: "InitCoderAgent example_host
       \<lparr>PluginRegistry = example_bad_registry, AgentCoordinator = None,
        cleanupFuncs = [EventsCleanup, ConnClose]\<rparr> [''init bad-config'', ''config hook'']
     = (None,
        \<lparr>PluginRegistry = example_bad_registry, AgentCoordinator = Some (),
         cleanupFuncs = [EventsCleanup, ConnClose, CloseMCPClients]\<rparr>,
        [''init bad-config'', ''config hook'', ''coordinator''], [])"
    by (simp add: InitCoderAgent_def example_host_def)
  from New_continues_after_config_hook_error[OF example_LoadFromConfig hooks pre fails, THEN conjunct2]
  show ?thesis
    by (simp add: conf agent)
qed

text \<open>The claim as stated fails: the one configured plugin loads, its config hook returns
  an error, and \<^verbatim>\<open>New\<close> still returns the \<^verbatim>\<open>App\<close>, without error and with its agent
  coordinator created.\<close>

theorem New_config_hook_error_counterexample:
  "fst (TriggerConfigHooks example_bad_registry [''init bad-config''])
     = Some (ErrorfW ''config hook failed'' (Errorf ''invalid config''))
   \<and> LoadFromConfig (system example_host) NewRegistry (GetPluginPaths example_host [])
       \<lparr>WorkingDir = cfg_WorkingDir example_host []\<rparr> [] []
     = (None, example_bad_registry, [''init bad-config''], [])
   \<and> fst (New example_host []) =
       (Some \<lparr>PluginRegistry = example_bad_registry, AgentCoordinator = Some (),
              cleanupFuncs = [EventsCleanup, ConnClose, CloseMCPClients]\<rparr>, None)"
proof -
  have t: "TriggerConfigHooks example_bad_registry [''init bad-config'']
     = (Some (ErrorfW ''config hook failed'' (Errorf ''invalid config'')),
        [''init bad-config'', ''config hook''])"
    by (simp add: TriggerConfigHooks_def example_bad_registry_def)
  have init: "initPlugins example_host
       \<lparr>PluginRegistry = NewRegistry, AgentCoordinator = None, cleanupFuncs = [EventsCleanup]\<rparr> []
     = (Some (ErrorfW ''failed to trigger config hooks''
               (ErrorfW ''config hook failed'' (Errorf ''invalid config''))),
        \<lparr>PluginRegistry = example_bad_registry, AgentCoordinator = None,
         cleanupFuncs = [EventsCleanup]\<rparr>,
        [''init bad-config'', ''config hook''], [], [])"
    by (simp add: initPlugins_def Let_def example_LoadFromConfig t)
  have conf: "IsConfigured example_host [''init bad-config'', ''config hook'']"
    by (simp add: example_host_def)
  have agent: "InitCoderAgent example_host
       \<lparr>PluginRegistry = example_bad_registry, AgentCoordinator = None,
        cleanupFuncs = [EventsCleanup, ConnClose]\<rparr> [''init bad-config'', ''config hook'']
     = (None,
        \<lparr>PluginRegistry = example_bad_registry, AgentCoordinator = Some (),
         cleanupFuncs = [EventsCleanup, ConnClose, CloseMCPClients]\<rparr>,
        [''init bad-config'', ''config hook'', ''coordinator''], [])"
    by (simp add: InitCoderAgent_def example_host_def)
  have new: "fst (New example_host []) =
       (Some \<lparr>PluginRegistry = example_bad_registry, AgentCoordinator = Some (),
              cleanupFuncs = [EventsCleanup, ConnClose, CloseMCPClients]\<rparr>, None)"
    by (simp add: New_def Let_def init conf agent)
  from t example_LoadFromConfig new show ?thesis
    by simp
qed

subsection \<open>Discovery of skills\<close>

lemma keep_later_names: "set (map Skill.ToolName (keep_later ss)) = set (map Skill.ToolName ss)"
  by (induction ss) auto

lemma keep_later_distinct: "distinct (map Skill.ToolName (keep_later ss))"
proof (induction ss)
  case Nil
  then show ?case by simp
next
  case (Cons s ss)
  have "Skill.ToolName s \<notin> set (map Skill.ToolName ss) \<Longrightarrow>
        Skill.ToolName s \<notin> set (map Skill.ToolName (keep_later ss))"
    using keep_later_names[of ss] by simp
  with Cons show ?case by simp
qed

lemma keep_later_subset: "set (keep_later ss) \<subseteq> set ss"
  by (induction ss) auto

lemma keep_later_snoc:
  "keep_later (ss @ [s]) =
     filter (\<lambda>x. Skill.ToolName x \<noteq> Skill.ToolName s) (keep_later ss) @ [s]"
proof (induction ss)
  case Nil
  then show ?case by simp
next
  case (Cons x ss)
  show ?case
  proof (cases "Skill.ToolName x = Skill.ToolName s")
    case True
    then show ?thesis using Cons by simp
  next
    case False
    then show ?thesis using Cons by auto
  qed
qed

lemma remove_ToolName_absent:
  "n \<notin> set (map Skill.ToolName ss) \<Longrightarrow> remove_ToolName n ss = ss"
  by (induction ss) auto

lemma remove_ToolName_distinct:
  "distinct (map Skill.ToolName ss) \<Longrightarrow>
   remove_ToolName n ss = filter (\<lambda>x. Skill.ToolName x \<noteq> n) ss"
proof (induction ss)
  case Nil
  then show ?case by simp
next
  case (Cons x ss)
  show ?case
  proof (cases "Skill.ToolName x = n")
    case True
    with Cons.prems have "n \<notin> set (map Skill.ToolName ss)" by auto
    then have "filter (\<lambda>x. Skill.ToolName x \<noteq> n) ss = ss"
      by (induction ss) auto
    with True show ?thesis by simp
  next
    case False
    with Cons show ?thesis by simp
  qed
qed

lemma filter_absent:
  "n \<notin> set (map Skill.ToolName ss) \<Longrightarrow> filter (\<lambda>x. Skill.ToolName x \<noteq> n) ss = ss"
  by (induction ss) auto

lemma discovered_add:
  assumes "discovered ss (allSkills, seen, stderr)"
  shows "(case seen (Skill.ToolName s) of
            Some existingPath \<Rightarrow> remove_ToolName (Skill.ToolName s) allSkills @ [s]
          | None \<Rightarrow> allSkills @ [s]) = keep_later (ss @ [s])"
proof -
  from assms have a: "allSkills = keep_later ss"
    and d: "dom seen = set (map Skill.ToolName ss)"
    by (simp_all add: discovered_def)
  show ?thesis
  proof (cases "seen (Skill.ToolName s)")
    case None
    then have "Skill.ToolName s \<notin> set (map Skill.ToolName ss)"
      using d by (metis domIff)
    then have "Skill.ToolName s \<notin> set (map Skill.ToolName (keep_later ss))"
      using keep_later_names[of ss] by simp
    then show ?thesis
      using None a by (simp add: keep_later_snoc filter_absent)
  next
    case (Some existingPath)
    then show ?thesis
      using a by (simp add: keep_later_snoc remove_ToolName_distinct keep_later_distinct)
  qed
qed

lemma visit_discovered:
  assumes "discovered ss state"
  shows "fst (discoverSkills_visit sys call state) = None
       \<and> discovered (ss @ call_skill sys call) (snd (discoverSkills_visit sys call state))"
proof -
  obtain allSkills seen stderr where state: "state = (allSkills, seen, stderr)"
    by (cases state)
  obtain path entry where call: "call = (path, entry)"
    by (cases call)
  from assms state have inv: "discovered ss (allSkills, seen, stderr)" by simp
  then have d: "dom seen = set (map Skill.ToolName ss)"
    by (simp add: discovered_def)
  show ?thesis
  proof (cases entry)
    case (Inl err)
    then show ?thesis
      using assms by (simp add: discoverSkills_visit_def call_skill_def call state)
  next
    case (Inr d')
    show ?thesis
    proof (cases "\<not> IsDir d' \<and> DirEntry.Name d' = ''SKILL.md''")
      case False
      then show ?thesis
        using assms Inr by (auto simp: discoverSkills_visit_def call_skill_def call state)
    next
      case True
      show ?thesis
      proof (cases "parseSkillMD sys path")
        case (Inl parseErr)
        then show ?thesis
          using inv Inr True
          by (simp add: discoverSkills_visit_def call_skill_def call state discovered_def)
      next
        case (Inr skill)
        note add = discovered_add[OF inv, of skill]
        have dom': "dom (seen(Skill.ToolName skill \<mapsto> path)) =
            set (map Skill.ToolName (ss @ [skill]))"
          using d by auto
        show ?thesis
          using add dom' \<open>entry = Inr d'\<close> True Inr
          by (cases "seen (Skill.ToolName skill)")
            (simp_all add: discoverSkills_visit_def call_skill_def call state discovered_def)
      qed
    qed
  qed
qed

lemma WalkDir_calls_discovered:
  "discovered ss state \<Longrightarrow>
   fst (WalkDir_calls sys calls state) = None
   \<and> discovered (ss @ concat (map (call_skill sys) calls)) (snd (WalkDir_calls sys calls state))"
proof (induction calls arbitrary: ss state)
  case Nil
  then show ?case by simp
next
  case (Cons call calls)
  from visit_discovered[OF Cons.prems, of sys call]
  obtain state' where v: "discoverSkills_visit sys call state = (None, state')"
    and inv: "discovered (ss @ call_skill sys call) state'"
    by (cases "discoverSkills_visit sys call state") auto
  from Cons.IH[OF inv] show ?case
    by (simp add: v)
qed

lemma discoverSkills_loop_discovered:
  "discovered ss state \<Longrightarrow>
   discovered (ss @ valid_skills sys basePaths) (discoverSkills_loop sys basePaths state)"
proof (induction basePaths arbitrary: ss state)
  case Nil
  then show ?case by (simp add: valid_skills_def)
next
  case (Cons basePath basePaths)
  show ?case
  proof (cases "NotExist sys basePath")
    case True
    with Cons.IH[OF Cons.prems] show ?thesis
      by (simp add: valid_skills_def)
  next
    case False
    from WalkDir_calls_discovered[OF Cons.prems, of sys "WalkDir sys basePath"]
    obtain state' where w: "WalkDir_calls sys (WalkDir sys basePath) state = (None, state')"
      and inv: "discovered (ss @ concat (map (call_skill sys) (WalkDir sys basePath))) state'"
      by (cases "WalkDir_calls sys (WalkDir sys basePath) state") auto
    from Cons.IH[OF inv] False show ?thesis
      by (simp add: w valid_skills_def)
  qed
qed

lemma discoverSkills_result:
  "fst (discoverSkills sys basePaths) = (keep_later (valid_skills sys basePaths), None)"
proof -
  have "discovered [] ([], Map.empty, [])"
    by (simp add: discovered_def)
  from discoverSkills_loop_discovered[OF this, of sys basePaths] show ?thesis
    by (auto simp: discoverSkills_def discovered_def split: prod.splits)
qed

lemma valid_skills_append:
  "valid_skills sys (earlier @ later) = valid_skills sys earlier @ valid_skills sys later"
  by (simp add: valid_skills_def)

lemma keep_later_append_later:
  assumes "s \<in> set (keep_later (earlier @ later))"
    and "Skill.ToolName s \<in> set (map Skill.ToolName later)"
  shows "s \<in> set (keep_later later)"
  using assms
proof (induction earlier)
  case Nil
  then show ?case by simp
next
  case (Cons x earlier)
  show ?case
  proof (cases "s = x \<and> Skill.ToolName x \<notin> set (map Skill.ToolName (earlier @ later))")
    case True
    with Cons.prems(2) show ?thesis by auto
  next
    case False
    with Cons.prems(1) have "s \<in> set (keep_later (earlier @ later))"
      by (auto split: if_splits)
    from Cons.IH[OF this Cons.prems(2)] show ?thesis .
  qed
qed

text \<open>
  Claim C8. The skills that \<^verbatim>\<open>discoverSkills\<close> returns are the valid skills in discovery
  order with, of those that generate one tool name, only the last kept: every generated
  tool name occurs exactly once. When a valid skill has a tool name already seen, the
  entry with that name is removed, the new skill appended and a warning naming both
  paths written. A returned skill whose tool name is also generated in the later base
  directories comes from those. \<^verbatim>\<open>getSkillBasePaths\<close> lists the XDG configuration
  directory (\<^verbatim>\<open>~/.config\<close> by default), then the home directory, then the project
  directory, last.
\<close>

theorem discoverSkills_later_wins:
  "fst (fst (discoverSkills sys basePaths)) = keep_later (valid_skills sys basePaths)
   \<and> distinct (map Skill.ToolName (fst (fst (discoverSkills sys basePaths))))
   \<and> set (map Skill.ToolName (fst (fst (discoverSkills sys basePaths))))
       = set (map Skill.ToolName (valid_skills sys basePaths))
   \<and> (\<forall>path d skill existingPath allSkills seenToolNames stderr.
         \<not> IsDir d \<and> DirEntry.Name d = ''SKILL.md'' \<and> parseSkillMD sys path = Inr skill
           \<and> seenToolNames (Skill.ToolName skill) = Some existingPath
         \<longrightarrow> discoverSkills_visit sys (path, Inr d) (allSkills, seenToolNames, stderr)
             = (None,
                (remove_ToolName (Skill.ToolName skill) allSkills @ [skill],
                 seenToolNames(Skill.ToolName skill \<mapsto> path),
                 stderr @ [''Warning: Duplicate tool name '' @ [CHR 0x27]
                             @ Skill.ToolName skill @ [CHR 0x27] @ '' for skills at ''
                             @ existingPath @ '' and '' @ path
                             @ ''. Using the later one.'' @ [CHR 0x0A]])))
   \<and> (\<forall>earlier later s.
         basePaths = earlier @ later \<and> s \<in> set (fst (fst (discoverSkills sys basePaths)))
           \<and> Skill.ToolName s \<in> set (map Skill.ToolName (valid_skills sys later))
         \<longrightarrow> s \<in> set (valid_skills sys later))
   \<and> getSkillBasePaths sys workingDir =
       (if Getenv sys ''XDG_CONFIG_HOME'' \<noteq> []
        then [Join [Getenv sys ''XDG_CONFIG_HOME'', ''crush'', ''skills'']]
        else (case UserHomeDir sys of
                Inr homeDir \<Rightarrow>
                  if Join [homeDir, ''.config''] \<noteq> []
                  then [Join [Join [homeDir, ''.config''], ''crush'', ''skills'']] else []
              | Inl err \<Rightarrow> []))
       @ (case UserHomeDir sys of
            Inr homeDir \<Rightarrow> [Join [homeDir, ''.crush'', ''skills'']]
          | Inl err \<Rightarrow> [])
       @ [Join [workingDir, ''.crush'', ''skills'']]"
proof -
  have result: "fst (fst (discoverSkills sys basePaths)) = keep_later (valid_skills sys basePaths)"
    by (simp add: discoverSkills_result)
  have later: "\<forall>earlier later s.
         basePaths = earlier @ later \<and> s \<in> set (fst (fst (discoverSkills sys basePaths)))
           \<and> Skill.ToolName s \<in> set (map Skill.ToolName (valid_skills sys later))
         \<longrightarrow> s \<in> set (valid_skills sys later)"
  proof (intro allI impI, elim conjE)
    fix earlier later s
    assume "basePaths = earlier @ later"
      and "s \<in> set (fst (fst (discoverSkills sys basePaths)))"
      and n: "Skill.ToolName s \<in> set (map Skill.ToolName (valid_skills sys later))"
    then have "s \<in> set (keep_later (valid_skills sys earlier @ valid_skills sys later))"
      by (simp add: discoverSkills_result valid_skills_append)
    from keep_later_append_later[OF this n] show "s \<in> set (valid_skills sys later)"
      using keep_later_subset by blast
  qed
  have visit: "\<forall>path d skill existingPath allSkills seenToolNames stderr.
         \<not> IsDir d \<and> DirEntry.Name d = ''SKILL.md'' \<and> parseSkillMD sys path = Inr skill
           \<and> seenToolNames (Skill.ToolName skill) = Some existingPath
         \<longrightarrow> discoverSkills_visit sys (path, Inr d) (allSkills, seenToolNames, stderr)
             = (None,
                (remove_ToolName (Skill.ToolName skill) allSkills @ [skill],
                 seenToolNames(Skill.ToolName skill \<mapsto> path),
                 stderr @ [''Warning: Duplicate tool name '' @ [CHR 0x27]
                             @ Skill.ToolName skill @ [CHR 0x27] @ '' for skills at ''
                             @ existingPath @ '' and '' @ path
                             @ ''. Using the later one.'' @ [CHR 0x0A]]))"
    by (simp add: discoverSkills_visit_def)
  have paths: "getSkillBasePaths sys workingDir =
       (if Getenv sys ''XDG_CONFIG_HOME'' \<noteq> []
        then [Join [Getenv sys ''XDG_CONFIG_HOME'', ''crush'', ''skills'']]
        else (case UserHomeDir sys of
                Inr homeDir \<Rightarrow>
                  if Join [homeDir, ''.config''] \<noteq> []
                  then [Join [Join [homeDir, ''.config''], ''crush'', ''skills'']] else []
              | Inl err \<Rightarrow> []))
       @ (case UserHomeDir sys of
            Inr homeDir \<Rightarrow> [Join [homeDir, ''.crush'', ''skills'']]
          | Inl err \<Rightarrow> [])
       @ [Join [workingDir, ''.crush'', ''skills'']]"
    by (simp add: getSkillBasePaths_def Let_def split: sum.splits)
  have d: "distinct (map Skill.ToolName (fst (fst (discoverSkills sys basePaths))))"
    unfolding result by (rule keep_later_distinct)
  have n: "set (map Skill.ToolName (fst (fst (discoverSkills sys basePaths))))
       = set (map Skill.ToolName (valid_skills sys basePaths))"
    unfolding result by (rule keep_later_names)
  show ?thesis
    by (intro conjI) (rule result, rule d, rule n, rule visit, rule later, rule paths)
qed

lemma example_base_paths:
  "getSkillBasePaths example_skills_os ''/w'' =
     [''/home/u/.config/crush/skills'', ''/home/u/.crush/skills''] @ [''/w/.crush/skills'']"
  by code_simp

lemma example_project_skills:
  "valid_skills example_skills_os [''/w/.crush/skills''] =
     [example_skill ''baz'' ''/w/.crush/skills/baz'' ''skills_baz''
        ''explains baz to new colleagues'' ''Baz.'',
      example_skill ''foo'' ''/w/.crush/skills/foo'' ''skills_foo''
        ''formats foo files in this project'' ''Project foo.'']"
  by code_simp

lemma example_all_skills:
  "valid_skills example_skills_os
      ([''/home/u/.config/crush/skills'', ''/home/u/.crush/skills''] @ [''/w/.crush/skills'']) =
     [example_skill ''foo'' ''/home/u/.config/crush/skills/foo'' ''skills_foo''
        ''formats foo files everywhere'' ''User foo.'',
      example_skill ''baz'' ''/w/.crush/skills/baz'' ''skills_baz''
        ''explains baz to new colleagues'' ''Baz.'',
      example_skill ''foo'' ''/w/.crush/skills/foo'' ''skills_foo''
        ''formats foo files in this project'' ''Project foo.'']"
  by code_simp

theorem discoverSkills_later_wins_witness:
  "fst (fst (discoverSkills example_skills_os (getSkillBasePaths example_skills_os ''/w''))) =
     [example_skill ''baz'' ''/w/.crush/skills/baz'' ''skills_baz''
        ''explains baz to new colleagues'' ''Baz.'',
      example_skill ''foo'' ''/w/.crush/skills/foo'' ''skills_foo''
        ''formats foo files in this project'' ''Project foo.'']
   \<and> example_skill ''foo'' ''/w/.crush/skills/foo'' ''skills_foo''
        ''formats foo files in this project'' ''Project foo.''
       \<in> set (valid_skills example_skills_os [''/w/.crush/skills''])"
proof -
  let ?foo = "example_skill ''foo'' ''/w/.crush/skills/foo'' ''skills_foo''
        ''formats foo files in this project'' ''Project foo.''"
  let ?baz = "example_skill ''baz'' ''/w/.crush/skills/baz'' ''skills_baz''
        ''explains baz to new colleagues'' ''Baz.''"
  let ?paths = "[''/home/u/.config/crush/skills'', ''/home/u/.crush/skills''] @ [''/w/.crush/skills'']"
  note inst = discoverSkills_later_wins[of example_skills_os ?paths]
  have names: "Skill.ToolName ?foo = ''skills_foo''" "Skill.ToolName ?baz = ''skills_baz''"
    "Skill.ToolName (example_skill ''foo'' ''/home/u/.config/crush/skills/foo'' ''skills_foo''
        ''formats foo files everywhere'' ''User foo.'') = ''skills_foo''"
    by (simp_all add: example_skill_def)
  from inst have "fst (fst (discoverSkills example_skills_os ?paths)) =
      keep_later (valid_skills example_skills_os ?paths)"
    by (rule conjunct1)
  then have result: "fst (fst (discoverSkills example_skills_os ?paths)) = [?baz, ?foo]"
    unfolding example_all_skills by (simp add: names)
  have name: "Skill.ToolName ?foo \<in> set (map Skill.ToolName (valid_skills example_skills_os [''/w/.crush/skills'']))"
    unfolding example_project_skills by simp
  from inst have "\<forall>earlier later s.
         ?paths = earlier @ later \<and> s \<in> set (fst (fst (discoverSkills example_skills_os ?paths)))
           \<and> Skill.ToolName s \<in> set (map Skill.ToolName (valid_skills example_skills_os later))
         \<longrightarrow> s \<in> set (valid_skills example_skills_os later)"
    by blast
  then have "?paths = [''/home/u/.config/crush/skills'', ''/home/u/.crush/skills''] @ [''/w/.crush/skills'']
      \<and> ?foo \<in> set (fst (fst (discoverSkills example_skills_os ?paths)))
      \<and> Skill.ToolName ?foo \<in> set (map Skill.ToolName (valid_skills example_skills_os [''/w/.crush/skills'']))
      \<longrightarrow> ?foo \<in> set (valid_skills example_skills_os [''/w/.crush/skills''])"
    by blast
  with result name have "?foo \<in> set (valid_skills example_skills_os [''/w/.crush/skills''])"
    by simp
  with result show ?thesis
    unfolding example_base_paths by simp
qed

subsection \<open>Parsing of skill files\<close>

lemma parseSkillMD_succeeds_iff:
  assumes "ReadFile sys skillPath = Inr contentStr"
  shows "(\<exists>skill. parseSkillMD sys skillPath = Inr skill) \<longleftrightarrow>
     (3 \<le> length (SplitN contentStr ''---'' 3)
      \<and> (\<exists>frontmatter. Unmarshal sys (SplitN contentStr ''---'' 3 ! 1) = Inr frontmatter
            \<and> SkillFrontmatter.Name frontmatter \<noteq> []
            \<and> validateSkillName (SkillFrontmatter.Name frontmatter)
            \<and> SkillFrontmatter.Name frontmatter = Base (Dir skillPath)
            \<and> 20 \<le> length (SkillFrontmatter.Description frontmatter)))"
proof (cases "3 \<le> length (SplitN contentStr ''---'' 3)")
  case False
  then show ?thesis
    using assms by (simp add: parseSkillMD_def Let_def)
next
  case True
  show ?thesis
  proof (cases "Unmarshal sys (SplitN contentStr ''---'' 3 ! 1)")
    case (Inl err)
    then show ?thesis
      using assms True by (simp add: parseSkillMD_def Let_def)
  next
    case (Inr frontmatter)
    then show ?thesis
      using assms True by (auto simp: parseSkillMD_def Let_def)
  qed
qed

text \<open>The parts of \<^verbatim>\<open>SplitN\<close> and the occurrences of the separator; bytes and
  characters.\<close>

lemma rune_width_pos: "0 < rune_width s"
  by (simp add: rune_width_def Let_def)

lemma RuneCountInString_le: "RuneCountInString s \<le> length s"
proof (induction s rule: RuneCountInString.induct)
  case (1 s)
  show ?case
  proof (cases "s = []")
    case True
    then show ?thesis by (subst RuneCountInString.simps) simp
  next
    case False
    from 1[OF False] have "RuneCountInString (drop (rune_width s) s) \<le> length s - rune_width s"
      by simp
    moreover from False have "0 < length s" by simp
    ultimately have "Suc (RuneCountInString (drop (rune_width s) s)) \<le> length s"
      using rune_width_pos[of s] by linarith
    with False show ?thesis by (subst RuneCountInString.simps) simp
  qed
qed

lemma Index_Some:
  "Index s sep = Some m \<Longrightarrow> s = take m s @ sep @ drop (m + length sep) s"
proof (induction s arbitrary: m)
  case Nil
  then show ?case by (simp split: if_splits)
next
  case (Cons c cs)
  show ?case
  proof (cases "HasPrefix (c # cs) sep")
    case True
    with Cons.prems have m: "m = 0" by simp
    from True have "take (length sep) (c # cs) = sep" by (simp add: HasPrefix_def)
    then have "c # cs = sep @ drop (length sep) (c # cs)"
      by (metis append_take_drop_id)
    with m show ?thesis by simp
  next
    case False
    with Cons.prems obtain m' where m': "Index cs sep = Some m'" and m: "m = Suc m'"
      by auto
    from Cons.IH[OF m'] m show ?thesis by simp
  qed
qed

lemma Index_occurrence:
  "s = a @ sep @ c \<Longrightarrow> \<exists>m. Index s sep = Some m \<and> m \<le> length a"
proof (induction a arbitrary: s)
  case Nil
  then have "HasPrefix s sep" by (simp add: HasPrefix_def)
  then show ?case
    by (cases s) (auto simp: HasPrefix_def)
next
  case (Cons x a)
  from Cons.IH[of "a @ sep @ c"] obtain m where "Index (a @ sep @ c) sep = Some m" "m \<le> length a"
    by auto
  with Cons.prems show ?case by auto
qed

lemma genSplit_length: "length (genSplit s sep k) \<le> Suc k"
  by (induction k arbitrary: s) (auto split: option.splits)

lemma genSplit_three:
  assumes "3 \<le> length (genSplit s sep 2)"
  shows "s = genSplit s sep 2 ! 0 @ sep @ genSplit s sep 2 ! 1 @ sep @ genSplit s sep 2 ! 2"
proof -
  have two: "genSplit s sep 2 = genSplit s sep (Suc (Suc 0))"
    by (simp add: numeral_2_eq_2)
  from assms obtain m where m: "Index s sep = Some m"
    unfolding two by (cases "Index s sep") auto
  let ?r = "drop (m + length sep) s"
  from assms m obtain m' where m': "Index ?r sep = Some m'"
    unfolding two by (cases "Index ?r sep") auto
  have g: "genSplit s sep 2 = [take m s, take m' ?r, drop (m' + length sep) ?r]"
    unfolding two by (simp add: m m')
  from Index_Some[OF m'] have "?r = take m' ?r @ sep @ drop (m' + length sep) ?r" .
  with Index_Some[OF m] have "s = take m s @ sep @ take m' ?r @ sep @ drop (m' + length sep) ?r"
    by metis
  then show ?thesis unfolding g by simp
qed

lemma SplitN_three_parts:
  assumes "sep \<noteq> []"
  shows "3 \<le> length (SplitN s sep 3) \<longleftrightarrow> (\<exists>a b c. s = a @ sep @ b @ sep @ c)"
proof
  assume l: "3 \<le> length (SplitN s sep 3)"
  have "min 3 (length s + 1) - 1 = 2"
  proof (rule ccontr)
    assume "min 3 (length s + 1) - 1 \<noteq> 2"
    then have "min 3 (length s + 1) - 1 \<le> 1" by linarith
    with genSplit_length[of s sep "min 3 (length s + 1) - 1"] l show False
      by (simp add: SplitN_def)
  qed
  with l have "3 \<le> length (genSplit s sep 2)" by (simp add: SplitN_def)
  from genSplit_three[OF this] show "\<exists>a b c. s = a @ sep @ b @ sep @ c" by blast
next
  assume "\<exists>a b c. s = a @ sep @ b @ sep @ c"
  then obtain a b c where s: "s = a @ sep @ b @ sep @ c" by blast
  from assms have "1 \<le> length sep" by (cases sep) auto
  with s have "2 \<le> length s" by simp
  then have k: "min 3 (length s + 1) - 1 = 2" by simp
  from Index_occurrence[OF s] obtain m where m: "Index s sep = Some m" and le: "m \<le> length a"
    by blast
  let ?r = "drop (m + length sep) s"
  from le have "?r = (drop (m + length sep) (a @ sep) @ b) @ sep @ c"
    by (simp add: s)
  from Index_occurrence[of ?r "drop (m + length sep) (a @ sep) @ b" sep c, OF this] obtain m' where m': "Index ?r sep = Some m'"
    by blast
  have "genSplit s sep (Suc (Suc 0)) = [take m s, take m' ?r, drop (m' + length sep) ?r]"
    by (simp add: m m')
  then have "length (genSplit s sep 2) = 3"
    by (simp only: numeral_2_eq_2) simp
  moreover have "SplitN s sep 3 = genSplit s sep 2"
    unfolding SplitN_def k by simp
  ultimately show "3 \<le> length (SplitN s sep 3)"
    by simp
qed

lemma SplitN_three_decompose:
  assumes "3 \<le> length (SplitN s sep 3)"
  shows "s = SplitN s sep 3 ! 0 @ sep @ SplitN s sep 3 ! 1 @ sep @ SplitN s sep 3 ! 2"
proof -
  have "min 3 (length s + 1) - 1 = 2"
  proof (rule ccontr)
    assume "min 3 (length s + 1) - 1 \<noteq> 2"
    then have "min 3 (length s + 1) - 1 \<le> 1" by linarith
    with genSplit_length[of s sep "min 3 (length s + 1) - 1"] assms show False
      by (simp add: SplitN_def)
  qed
  then have e: "SplitN s sep 3 = genSplit s sep 2" by (simp add: SplitN_def)
  from assms genSplit_three[of s sep] show ?thesis unfolding e by simp
qed

text \<open>
  Claim C6. For a \<^verbatim>\<open>SKILL.md\<close> file that can be read, \<^verbatim>\<open>parseSkillMD\<close> succeeds exactly when
  \<^verbatim>\<open>SplitN(text, "---", 3)\<close> yields three parts, the middle part parses as frontmatter,
  the name is non-empty and matches \<^verbatim>\<open>^[a-z0-9-]+$\<close>, the name is the base name of the
  directory of the file, and the description has length at least 20. There are three
  parts exactly when the text holds the delimiter twice, the second occurrence after the
  first, and the text is then the three parts with a delimiter between them. The length
  of the description is \<^verbatim>\<open>len\<close>, its number of bytes, which is never less than its number
  of characters. Discovery never returns an error; a \<^verbatim>\<open>SKILL.md\<close> that is rejected adds one
  warning and changes neither the skills found so far nor the tool names seen, and the
  skills returned are those of the valid files.
\<close>

theorem parseSkillMD_accepts_exactly_valid_files:
  "(\<forall>contentStr. ReadFile sys skillPath = Inr contentStr \<longrightarrow>
      ((\<exists>skill. parseSkillMD sys skillPath = Inr skill) \<longleftrightarrow>
       (3 \<le> length (SplitN contentStr ''---'' 3)
        \<and> (\<exists>frontmatter. Unmarshal sys (SplitN contentStr ''---'' 3 ! 1) = Inr frontmatter
              \<and> SkillFrontmatter.Name frontmatter \<noteq> []
              \<and> validateSkillName (SkillFrontmatter.Name frontmatter)
              \<and> SkillFrontmatter.Name frontmatter = Base (Dir skillPath)
              \<and> 20 \<le> length (SkillFrontmatter.Description frontmatter)))))
   \<and> (\<forall>contentStr. 3 \<le> length (SplitN contentStr ''---'' 3) \<longleftrightarrow>
         (\<exists>a b c. contentStr = a @ ''---'' @ b @ ''---'' @ c))
   \<and> (\<forall>contentStr. 3 \<le> length (SplitN contentStr ''---'' 3) \<longrightarrow>
         contentStr = SplitN contentStr ''---'' 3 ! 0 @ ''---''
                       @ SplitN contentStr ''---'' 3 ! 1 @ ''---''
                       @ SplitN contentStr ''---'' 3 ! 2)
   \<and> (\<forall>name. validateSkillName name \<longleftrightarrow>
         name \<noteq> [] \<and> (\<forall>c \<in> set name. is_lower c \<or> is_digit c \<or> c = CHR ''-''))
   \<and> (\<forall>description. RuneCountInString description \<le> length description)
   \<and> snd (fst (discoverSkills sys basePaths)) = None
   \<and> (\<forall>d parseErr allSkills seenToolNames stderr.
         \<not> IsDir d \<and> DirEntry.Name d = ''SKILL.md'' \<and> parseSkillMD sys skillPath = Inl parseErr
         \<longrightarrow> discoverSkills_visit sys (skillPath, Inr d) (allSkills, seenToolNames, stderr)
             = (None,
                (allSkills, seenToolNames,
                 stderr @ [''Warning: Failed to parse skill at '' @ skillPath @ '': ''
                             @ error_string parseErr @ [CHR 0x0A]])))
   \<and> fst (fst (discoverSkills sys basePaths)) = keep_later (valid_skills sys basePaths)"
proof -
  have a: "\<forall>contentStr. ReadFile sys skillPath = Inr contentStr \<longrightarrow>
      ((\<exists>skill. parseSkillMD sys skillPath = Inr skill) \<longleftrightarrow>
       (3 \<le> length (SplitN contentStr ''---'' 3)
        \<and> (\<exists>frontmatter. Unmarshal sys (SplitN contentStr ''---'' 3 ! 1) = Inr frontmatter
              \<and> SkillFrontmatter.Name frontmatter \<noteq> []
              \<and> validateSkillName (SkillFrontmatter.Name frontmatter)
              \<and> SkillFrontmatter.Name frontmatter = Base (Dir skillPath)
              \<and> 20 \<le> length (SkillFrontmatter.Description frontmatter))))"
    using parseSkillMD_succeeds_iff by blast
  have s1: "\<forall>contentStr. 3 \<le> length (SplitN contentStr ''---'' 3) \<longleftrightarrow>
         (\<exists>a b c. contentStr = a @ ''---'' @ b @ ''---'' @ c)"
    by (intro allI SplitN_three_parts) simp
  have s2: "\<forall>contentStr. 3 \<le> length (SplitN contentStr ''---'' 3) \<longrightarrow>
         contentStr = SplitN contentStr ''---'' 3 ! 0 @ ''---''
                       @ SplitN contentStr ''---'' 3 ! 1 @ ''---''
                       @ SplitN contentStr ''---'' 3 ! 2"
    by (intro allI impI SplitN_three_decompose)
  have b: "\<forall>name. validateSkillName name \<longleftrightarrow>
         name \<noteq> [] \<and> (\<forall>c \<in> set name. is_lower c \<or> is_digit c \<or> c = CHR ''-'')"
    by (simp add: validateSkillName_def list_all_iff)
  have r: "\<forall>description. RuneCountInString description \<le> length description"
    by (intro allI RuneCountInString_le)
  have c: "snd (fst (discoverSkills sys basePaths)) = None"
    by (simp add: discoverSkills_result)
  have d: "\<forall>d parseErr allSkills seenToolNames stderr.
         \<not> IsDir d \<and> DirEntry.Name d = ''SKILL.md'' \<and> parseSkillMD sys skillPath = Inl parseErr
         \<longrightarrow> discoverSkills_visit sys (skillPath, Inr d) (allSkills, seenToolNames, stderr)
             = (None,
                (allSkills, seenToolNames,
                 stderr @ [''Warning: Failed to parse skill at '' @ skillPath @ '': ''
                             @ error_string parseErr @ [CHR 0x0A]]))"
    by (simp add: discoverSkills_visit_def)
  have e: "fst (fst (discoverSkills sys basePaths)) = keep_later (valid_skills sys basePaths)"
    by (simp add: discoverSkills_result)
  show ?thesis
    by (intro conjI) (rule a, rule s1, rule s2, rule b, rule r, rule c, rule d, rule e)
qed

lemma example_bar_rejected:
  "parseSkillMD example_skills_os ''/w/.crush/skills/bar/SKILL.md'' =
     Inl (Errorf ''invalid SKILL.md format: missing frontmatter'')"
  by code_simp

lemma example_bar_file:
  "ReadFile example_skills_os ''/w/.crush/skills/bar/SKILL.md'' =
     Inr ''# bar\<newline>no frontmatter here\<newline>''"
  by code_simp

lemma example_bar_parts:
  "length (SplitN ''# bar\<newline>no frontmatter here\<newline>'' ''---'' 3) = 1"
  by code_simp

lemma example_baz_file:
  "ReadFile example_skills_os ''/w/.crush/skills/baz/SKILL.md'' =
     Inr ''---\<newline>name: baz\<newline>description: explains baz to new colleagues\<newline>---\<newline>Baz.\<newline>''"
  by code_simp

lemma example_baz_parts:
  "SplitN ''---\<newline>name: baz\<newline>description: explains baz to new colleagues\<newline>---\<newline>Baz.\<newline>'' ''---'' 3
     = [[], ''\<newline>name: baz\<newline>description: explains baz to new colleagues\<newline>'', ''\<newline>Baz.\<newline>'']"
  by code_simp

lemma example_baz_frontmatter:
  "Unmarshal example_skills_os ''\<newline>name: baz\<newline>description: explains baz to new colleagues\<newline>''
     = Inr (example_frontmatter ''baz'' ''explains baz to new colleagues'')"
  by code_simp

lemma example_baz_name:
  "validateSkillName ''baz'' \<and> Base (Dir ''/w/.crush/skills/baz/SKILL.md'') = ''baz''"
  by code_simp

lemma example_utf8_file:
  "ReadFile example_utf8_os ''/w/.crush/skills/cafe/SKILL.md'' =
     Inr (''---\<newline>name: cafe\<newline>description: caf'' @ [CHR 0xC3, CHR 0xA9]
            @ ''s in every town\<newline>---\<newline>Find one.\<newline>'')"
  by code_simp

lemma example_utf8_parts:
  "SplitN (''---\<newline>name: cafe\<newline>description: caf'' @ [CHR 0xC3, CHR 0xA9]
            @ ''s in every town\<newline>---\<newline>Find one.\<newline>'') ''---'' 3
     = [[], ''\<newline>name: cafe\<newline>description: caf'' @ [CHR 0xC3, CHR 0xA9]
                @ ''s in every town\<newline>'', ''\<newline>Find one.\<newline>'']"
  by code_simp

lemma example_utf8_frontmatter:
  "Unmarshal example_utf8_os (''\<newline>name: cafe\<newline>description: caf'' @ [CHR 0xC3, CHR 0xA9]
                @ ''s in every town\<newline>'')
     = Inr (example_frontmatter ''cafe'' (''caf'' @ [CHR 0xC3, CHR 0xA9] @ ''s in every town''))"
  by code_simp

lemma example_utf8_name:
  "validateSkillName ''cafe'' \<and> Base (Dir ''/w/.crush/skills/cafe/SKILL.md'') = ''cafe''"
  by code_simp

lemma example_utf8_length:
  "length (''caf'' @ [CHR 0xC3, CHR 0xA9] @ ''s in every town'') = 20
   \<and> RuneCountInString (''caf'' @ [CHR 0xC3, CHR 0xA9] @ ''s in every town'') = 19"
  by code_simp

theorem parseSkillMD_accepts_exactly_valid_files_witness:
  "(\<nexists>skill. parseSkillMD example_skills_os ''/w/.crush/skills/bar/SKILL.md'' = Inr skill)
   \<and> discoverSkills_visit example_skills_os
       (''/w/.crush/skills/bar/SKILL.md'', Inr \<lparr>DirEntry.Name = ''SKILL.md'', IsDir = False\<rparr>)
       ([], Map.empty, [])
     = (None, ([], Map.empty,
         [''Warning: Failed to parse skill at /w/.crush/skills/bar/SKILL.md: invalid SKILL.md format: missing frontmatter\<newline>'']))
   \<and> snd (fst (discoverSkills example_skills_os [''/w/.crush/skills''])) = None
   \<and> (\<exists>skill. parseSkillMD example_skills_os ''/w/.crush/skills/baz/SKILL.md'' = Inr skill
         \<and> skill = example_skill ''baz'' ''/w/.crush/skills/baz'' ''skills_baz''
                     ''explains baz to new colleagues'' ''Baz.'')
   \<and> (\<exists>skill. parseSkillMD example_utf8_os ''/w/.crush/skills/cafe/SKILL.md'' = Inr skill
         \<and> length (Skill.Description skill) = 20
         \<and> RuneCountInString (Skill.Description skill) = 19)"
proof -
  note inst = parseSkillMD_accepts_exactly_valid_files
    [of example_skills_os "''/w/.crush/skills/bar/SKILL.md''" "[''/w/.crush/skills'']"]
  from inst example_bar_file
  have "(\<exists>skill. parseSkillMD example_skills_os ''/w/.crush/skills/bar/SKILL.md'' = Inr skill) \<longrightarrow>
      3 \<le> length (SplitN ''# bar\<newline>no frontmatter here\<newline>'' ''---'' 3)"
    by blast
  then have a: "\<nexists>skill. parseSkillMD example_skills_os ''/w/.crush/skills/bar/SKILL.md'' = Inr skill"
    unfolding example_bar_parts by simp
  from inst have "\<forall>d parseErr allSkills seenToolNames stderr.
         \<not> IsDir d \<and> DirEntry.Name d = ''SKILL.md''
           \<and> parseSkillMD example_skills_os ''/w/.crush/skills/bar/SKILL.md'' = Inl parseErr
         \<longrightarrow> discoverSkills_visit example_skills_os (''/w/.crush/skills/bar/SKILL.md'', Inr d)
               (allSkills, seenToolNames, stderr)
             = (None,
                (allSkills, seenToolNames,
                 stderr @ [''Warning: Failed to parse skill at '' @ ''/w/.crush/skills/bar/SKILL.md''
                             @ '': '' @ error_string parseErr @ [CHR 0x0A]]))"
    by blast
  from this[rule_format, of "\<lparr>DirEntry.Name = ''SKILL.md'', IsDir = False\<rparr>"
      "Errorf ''invalid SKILL.md format: missing frontmatter''" "[]" Map.empty "[]"]
    example_bar_rejected
  have b: "discoverSkills_visit example_skills_os
       (''/w/.crush/skills/bar/SKILL.md'', Inr \<lparr>DirEntry.Name = ''SKILL.md'', IsDir = False\<rparr>)
       ([], Map.empty, [])
     = (None, ([], Map.empty,
         [''Warning: Failed to parse skill at /w/.crush/skills/bar/SKILL.md: invalid SKILL.md format: missing frontmatter\<newline>'']))"
    by simp
  from inst have c: "snd (fst (discoverSkills example_skills_os [''/w/.crush/skills''])) = None"
    by blast
  note baz = parseSkillMD_accepts_exactly_valid_files
    [of example_skills_os "''/w/.crush/skills/baz/SKILL.md''" "[]",
      THEN conjunct1, rule_format, OF example_baz_file, unfolded example_baz_parts]
  have "\<exists>frontmatter.
      Unmarshal example_skills_os
        ([[], ''\<newline>name: baz\<newline>description: explains baz to new colleagues\<newline>'', ''\<newline>Baz.\<newline>''] ! 1)
        = Inr frontmatter
      \<and> SkillFrontmatter.Name frontmatter \<noteq> []
      \<and> validateSkillName (SkillFrontmatter.Name frontmatter)
      \<and> SkillFrontmatter.Name frontmatter = Base (Dir ''/w/.crush/skills/baz/SKILL.md'')
      \<and> 20 \<le> length (SkillFrontmatter.Description frontmatter)"
    using example_baz_frontmatter example_baz_name
    by (intro exI[of _ "example_frontmatter ''baz'' ''explains baz to new colleagues''"])
      (simp add: example_frontmatter_def)
  with baz obtain skill where
    q: "parseSkillMD example_skills_os ''/w/.crush/skills/baz/SKILL.md'' = Inr skill"
    by auto
  have "parseSkillMD example_skills_os ''/w/.crush/skills/baz/SKILL.md'' =
      Inr (example_skill ''baz'' ''/w/.crush/skills/baz'' ''skills_baz''
             ''explains baz to new colleagues'' ''Baz.'')"
    by code_simp
  with q have d: "\<exists>skill. parseSkillMD example_skills_os ''/w/.crush/skills/baz/SKILL.md'' = Inr skill
         \<and> skill = example_skill ''baz'' ''/w/.crush/skills/baz'' ''skills_baz''
                     ''explains baz to new colleagues'' ''Baz.''"
    by auto
  note cafe = parseSkillMD_accepts_exactly_valid_files
    [of example_utf8_os "''/w/.crush/skills/cafe/SKILL.md''" "[]",
      THEN conjunct1, rule_format, OF example_utf8_file, unfolded example_utf8_parts]
  have "\<exists>frontmatter.
      Unmarshal example_utf8_os
        ([[], ''\<newline>name: cafe\<newline>description: caf'' @ [CHR 0xC3, CHR 0xA9]
                @ ''s in every town\<newline>'', ''\<newline>Find one.\<newline>''] ! 1)
        = Inr frontmatter
      \<and> SkillFrontmatter.Name frontmatter \<noteq> []
      \<and> validateSkillName (SkillFrontmatter.Name frontmatter)
      \<and> SkillFrontmatter.Name frontmatter = Base (Dir ''/w/.crush/skills/cafe/SKILL.md'')
      \<and> 20 \<le> length (SkillFrontmatter.Description frontmatter)"
    using example_utf8_frontmatter example_utf8_name
    by (intro exI[of _ "example_frontmatter ''cafe'' (''caf'' @ [CHR 0xC3, CHR 0xA9] @ ''s in every town'')"])
      (simp add: example_frontmatter_def)
  with cafe obtain skill where
    p: "parseSkillMD example_utf8_os ''/w/.crush/skills/cafe/SKILL.md'' = Inr skill"
    by auto
  have "parseSkillMD example_utf8_os ''/w/.crush/skills/cafe/SKILL.md'' =
      Inr (example_skill ''cafe'' ''/w/.crush/skills/cafe'' ''skills_cafe''
             (''caf'' @ [CHR 0xC3, CHR 0xA9] @ ''s in every town'') ''Find one.'')"
    by code_simp
  with p have "Skill.Description skill = ''caf'' @ [CHR 0xC3, CHR 0xA9] @ ''s in every town''"
    by (auto simp: example_skill_def)
  with example_utf8_length have "length (Skill.Description skill) = 20
      \<and> RuneCountInString (Skill.Description skill) = 19"
    by simp
  with p have e: "\<exists>skill. parseSkillMD example_utf8_os ''/w/.crush/skills/cafe/SKILL.md'' = Inr skill
         \<and> length (Skill.Description skill) = 20
         \<and> RuneCountInString (Skill.Description skill) = 19"
    by blast
  from a b c d e show ?thesis by blast
qed

subsection \<open>Tool names of skills\<close>

lemma byte_char_of: "n < 256 \<Longrightarrow> byte (char_of n) = n"
  by (simp add: byte_def)

lemma byte_less: "byte c < 256"
  by (simp add: byte_def)

lemma ToLower_char:
  assumes "is_word c"
  shows "is_lower (if is_upper c then char_of (byte c + 32) else c)
       \<or> is_digit (if is_upper c then char_of (byte c + 32) else c)
       \<or> (if is_upper c then char_of (byte c + 32) else c) = CHR ''_''"
proof (cases "is_upper c")
  case True
  then have "byte c + 32 < 256" "97 \<le> byte c + 32" "byte c + 32 \<le> 122"
    by (simp_all add: is_upper_def)
  then show ?thesis
    using True by (simp add: is_lower_def byte_char_of)
next
  case False
  with assms show ?thesis by (simp add: is_word_def)
qed

text \<open>The string that \<^verbatim>\<open>generateToolName\<close> lowers consists of ASCII word characters.\<close>

lemma ReplaceAllString_nonword_word: "c \<in> set (ReplaceAllString_nonword s) \<Longrightarrow> is_word c"
proof (induction s arbitrary: c rule: ReplaceAllString_nonword.induct)
  case (1 s)
  show ?case
  proof (cases "s = []")
    case True
    with "1.prems" show ?thesis
      by (subst (asm) ReplaceAllString_nonword.simps) simp
  next
    case False
    show ?thesis
    proof (cases "is_word (hd s)")
      case True
      with False "1.prems" have "c = hd s \<or> c \<in> set (ReplaceAllString_nonword (tl s))"
        by (subst (asm) ReplaceAllString_nonword.simps) auto
      with "1.IH"(1)[OF False True] True show ?thesis by auto
    next
      case w: False
      with False "1.prems"
      have "c = CHR ''_'' \<or> c \<in> set (ReplaceAllString_nonword (drop (rune_width s) s))"
        by (subst (asm) ReplaceAllString_nonword.simps) auto
      with "1.IH"(2)[OF False w] show ?thesis by (auto simp: is_word_def)
    qed
  qed
qed

lemma ReplaceAllString_nonword_nonempty: "s \<noteq> [] \<Longrightarrow> ReplaceAllString_nonword s \<noteq> []"
  by (subst ReplaceAllString_nonword.simps) simp

lemma ReplaceAll_nonempty: "s \<noteq> [] \<Longrightarrow> new \<noteq> [] \<Longrightarrow> ReplaceAll s old new \<noteq> []"
  by (subst ReplaceAll.simps) simp

lemma ToLower_shape:
  "c \<in> set (ToLower (ReplaceAllString_nonword s)) \<Longrightarrow> is_lower c \<or> is_digit c \<or> c = CHR ''_''"
proof -
  assume "c \<in> set (ToLower (ReplaceAllString_nonword s))"
  then obtain c0 where c0: "c0 \<in> set (ReplaceAllString_nonword s)"
    and c: "c = (if is_upper c0 then char_of (byte c0 + 32) else c0)"
    by (auto simp: ToLower_def)
  from ReplaceAllString_nonword_word[OF c0] have "is_word c0" .
  from ToLower_char[OF this] c show ?thesis by simp
qed

text \<open>A cleaned path ends with a separator only when it is the root.\<close>

lemma path_elements_no_sep: "e \<in> set (path_elements p) \<Longrightarrow> CHR ''/'' \<notin> set e"
proof (induction p arbitrary: e)
  case Nil
  then show ?case by simp
next
  case (Cons c p)
  then show ?case
    by (cases "path_elements p") (auto split: if_splits)
qed

lemma clean_elements_plain:
  assumes "\<forall>e \<in> set out. e \<noteq> [] \<and> CHR ''/'' \<notin> set e"
    and "\<forall>e \<in> set es. CHR ''/'' \<notin> set e"
  shows "\<forall>e \<in> set (clean_elements rooted es out). e \<noteq> [] \<and> CHR ''/'' \<notin> set e"
  using assms
proof (induction es arbitrary: out)
  case Nil
  then show ?case by simp
next
  case (Cons e es)
  have bl: "\<forall>e \<in> set (butlast out). e \<noteq> [] \<and> CHR ''/'' \<notin> set e"
    using Cons.prems(1) by (meson in_set_butlastD)
  have dd: "\<forall>e \<in> set (out @ [''..'']). e \<noteq> [] \<and> CHR ''/'' \<notin> set e"
    using Cons.prems(1) by auto
  have ap: "e \<noteq> [] \<Longrightarrow> \<forall>x \<in> set (out @ [e]). x \<noteq> [] \<and> CHR ''/'' \<notin> set x"
    using Cons.prems by auto
  have rest: "\<forall>e \<in> set es. CHR ''/'' \<notin> set e"
    using Cons.prems(2) by simp
  show ?case
    using Cons.IH[OF Cons.prems(1) rest] Cons.IH[OF bl rest] Cons.IH[OF dd rest]
      Cons.IH[OF ap rest]
    by (simp del: butlast.simps)
qed

lemma Join_sep_last:
  "es \<noteq> [] \<Longrightarrow> \<forall>e \<in> set es. e \<noteq> [] \<and> CHR ''/'' \<notin> set e \<Longrightarrow>
   Join_sep es ''/'' \<noteq> [] \<and> last (Join_sep es ''/'') \<noteq> CHR ''/''"
proof (induction es "''/''" rule: Join_sep.induct)
  case 1
  then show ?case by simp
next
  case (2 e)
  then show ?case by (auto dest: last_in_set)
next
  case (3 e e' es)
  then show ?case by simp
qed

lemma Clean_last: "Clean p = ''/'' \<or> (Clean p \<noteq> [] \<and> last (Clean p) \<noteq> CHR ''/'')"
proof (cases "p = []")
  case True
  then show ?thesis by (simp add: Clean_def)
next
  case False
  let ?els = "clean_elements (hd p = CHR ''/'') (path_elements p) []"
  have plain: "\<forall>e \<in> set ?els. e \<noteq> [] \<and> CHR ''/'' \<notin> set e"
    by (rule clean_elements_plain) (auto dest: path_elements_no_sep)
  show ?thesis
  proof (cases "?els = []")
    case True
    with False show ?thesis by (simp add: Clean_def Let_def)
  next
    case els: False
    from Join_sep_last[OF els plain] False show ?thesis
      by (simp add: Clean_def Let_def)
  qed
qed

lemma LastIndex_Some:
  "LastIndex s substr = Some i \<Longrightarrow> i + length substr \<le> length s \<and> take (length substr) (drop i s) = substr"
proof (induction s arbitrary: i)
  case Nil
  then show ?case by (simp split: if_splits)
next
  case (Cons c s)
  show ?case
  proof (cases "LastIndex s substr")
    case None
    with Cons.prems have i: "i = 0" and p: "HasPrefix (c # s) substr"
      by (auto split: if_splits)
    from p have "take (length substr) (c # s) = substr"
      by (simp add: HasPrefix_def)
    moreover from this have "length substr \<le> length (c # s)"
      by (metis length_take min.cobounded2 min_def nat_le_linear)
    ultimately show ?thesis using i by simp
  next
    case (Some j)
    with Cons.prems have "i = Suc j" by simp
    with Cons.IH[OF Some] show ?thesis by simp
  qed
qed

lemma validateSkillName_chars:
  "validateSkillName name \<Longrightarrow> name \<noteq> [] \<and> CHR ''/'' \<notin> set name \<and> CHR ''.'' \<notin> set name"
  by (auto simp: validateSkillName_def list_all_iff is_lower_def is_digit_def byte_def)

lemma Base_last:
  assumes "d \<noteq> []" and "last d \<noteq> CHR ''/''"
  shows "Base d \<noteq> [] \<and> last (Base d) = last d"
proof -
  from assms obtain c r where r: "rev d = c # r" and c: "c \<noteq> CHR ''/''" "c = last d"
    by (metis last_rev list.exhaust_sel rev_is_Nil_conv rev_rev_ident hd_rev)
  have "Base d = rev (takeWhile (\<lambda>c. c \<noteq> CHR ''/'') (c # r))"
    using assms(1) c(1) by (simp add: Base_def Let_def r)
  then show ?thesis
    using c by simp
qed


lemma HasPrefix_dot_slash:
  assumes "HasPrefix s ''./''" and "last s \<noteq> CHR ''/''"
  shows "TrimPrefix s ''./'' \<noteq> [] \<and> last (TrimPrefix s ''./'') = last s"
proof -
  from assms(1) obtain r where s: "s = CHR ''.'' # CHR ''/'' # r"
    by (cases s; cases "tl s") (auto simp: HasPrefix_def)
  with assms(2) have "r \<noteq> []" by auto
  with s assms(1) show ?thesis
    by (simp add: TrimPrefix_def)
qed

lemma HasSuffix_slash: "HasSuffix s ''/'' \<Longrightarrow> s \<noteq> [] \<and> last s = CHR ''/''"
  by (cases s rule: rev_cases) (auto simp: HasSuffix_def)

text \<open>The tool name of every skill that parses is the prefix \<^verbatim>\<open>skills_\<close> followed by one
  or more characters of \<^verbatim>\<open>[a-z0-9_]\<close>.\<close>

theorem parseSkillMD_tool_name_shape:
  assumes "parseSkillMD sys skillPath = Inr skill"
  shows "\<exists>rest. Skill.ToolName skill = ''skills_'' @ rest \<and> rest \<noteq> []
           \<and> (\<forall>c \<in> set rest. is_lower c \<or> is_digit c \<or> c = CHR ''_'')"
proof -
  let ?d = "Dir skillPath"
  let ?rel = "case LastIndex ?d ''/skills/'' of
                Some skillsIdx \<Rightarrow> drop (skillsIdx + 8) ?d
              | None \<Rightarrow> Base ?d"
  from assms have name: "validateSkillName (Base ?d)"
    and tool: "Skill.ToolName skill = generateToolName ?rel"
    by (auto simp: parseSkillMD_def Let_def split: sum.splits if_splits)
  from validateSkillName_chars[OF name]
  have b: "Base ?d \<noteq> []" "CHR ''/'' \<notin> set (Base ?d)" "CHR ''.'' \<notin> set (Base ?d)"
    by simp_all
  have "?d \<noteq> ''/''"
  proof
    assume "?d = ''/''"
    then have "Base ?d = ''/''" by (simp add: Base_def)
    with b(2) show False by simp
  qed
  with Clean_last[of "rev (dropWhile (\<lambda>c. c \<noteq> CHR ''/'') (rev skillPath))"]
  have d: "?d \<noteq> []" "last ?d \<noteq> CHR ''/''"
    by (simp_all add: Dir_def)
  have rel: "?rel \<noteq> [] \<and> last ?rel \<noteq> CHR ''/''"
  proof (cases "LastIndex ?d ''/skills/''")
    case None
    from b(1,2) have "last (Base ?d) \<noteq> CHR ''/''"
      by (metis last_in_set)
    then show ?thesis using None b(1) by simp
  next
    case (Some i)
    have l8: "length ''/skills/'' = 8"
      by simp
    note found = LastIndex_Some[OF Some, unfolded l8]
    from found have le: "i + 8 \<le> length ?d" ..
    from found have pre: "take 8 (drop i ?d) = ''/skills/''" ..
    have "i + 8 \<noteq> length ?d"
    proof
      assume eq: "i + 8 = length ?d"
      then have "drop i ?d = ''/skills/''" using pre by simp
      then have "last (drop i ?d) = CHR ''/''" by simp
      moreover have "i < length ?d" using eq by simp
      ultimately show False using d(2) by (simp add: last_drop)
    qed
    with le have lt: "i + 8 < length ?d" by simp
    then have ne: "drop (i + 8) ?d \<noteq> []" by simp
    have la: "last (drop (i + 8) ?d) \<noteq> CHR ''/''"
      using lt d(2) by (simp add: last_drop)
    with ne show ?thesis using Some by simp
  qed
  define cleaned where "cleaned = TrimSuffix (TrimPrefix ?rel ''./'') ''/''"
  have "TrimPrefix ?rel ''./'' \<noteq> [] \<and> last (TrimPrefix ?rel ''./'') \<noteq> CHR ''/''"
  proof (cases "HasPrefix ?rel ''./''")
    case True
    from HasPrefix_dot_slash[OF True] rel show ?thesis by simp
  next
    case False
    then show ?thesis using rel by (simp add: TrimPrefix_def)
  qed
  then have "\<not> HasSuffix (TrimPrefix ?rel ''./'') ''/''" and ne: "TrimPrefix ?rel ''./'' \<noteq> []"
    using HasSuffix_slash by blast+
  then have "cleaned \<noteq> []"
    by (simp add: cleaned_def TrimSuffix_def)
  then have ne': "ToLower (ReplaceAllString_nonword (ReplaceAll cleaned ''/'' ''_'')) \<noteq> []"
    by (simp add: ToLower_def ReplaceAllString_nonword_nonempty ReplaceAll_nonempty)
  have "Skill.ToolName skill =
      ''skills_'' @ ToLower (ReplaceAllString_nonword (ReplaceAll cleaned ''/'' ''_''))"
    unfolding tool generateToolName_def Let_def cleaned_def by (rule refl)
  with ne' ToLower_shape show ?thesis
    by blast
qed


text \<open>
  The directory of a parsed skill is a cleaned path: its elements joined by separators,
  after a leading separator when it is rooted. On such a path the search for the last
  \<^verbatim>\<open>/skills/\<close> finds the last element named \<^verbatim>\<open>skills\<close> that follows a separator and has
  elements below it.
\<close>

lemma slashed_simps [simp]:
  "slashed [] = []"
  "slashed (e # es) = CHR ''/'' # e @ slashed es"
  by (simp_all add: slashed_def)

lemma Join_sep_slashed: "Join_sep (e # es) ''/'' = e @ slashed es"
  by (induction es arbitrary: e) simp_all

lemma slashed_start: "slashed es = [] \<or> hd (slashed es) = CHR ''/''"
  by (cases es) simp_all

lemma slashed_Nil: "slashed es = [] \<longleftrightarrow> es = []"
  by (cases es) simp_all

lemma LastIndex_append_plain:
  "CHR ''/'' \<notin> set e \<Longrightarrow>
   LastIndex (e @ r) ''/skills/'' = map_option (\<lambda>i. i + length e) (LastIndex r ''/skills/'')"
proof (induction e)
  case Nil
  then show ?case by (simp add: option.map_ident)
next
  case (Cons c e)
  then have "c \<noteq> CHR ''/''" by auto
  then have "\<not> HasPrefix (c # e @ r) ''/skills/''"
    by (simp add: HasPrefix_def)
  with Cons show ?case
    by (cases "LastIndex r ''/skills/''") simp_all
qed

lemma plain_prefix:
  assumes "CHR ''/'' \<notin> set e" and "CHR ''/'' \<notin> set s" and "r = [] \<or> hd r = CHR ''/''"
  shows "take (Suc (length s)) (e @ r) = s @ ''/'' \<longleftrightarrow> e = s \<and> r \<noteq> []"
  using assms
proof (induction s arbitrary: e)
  case Nil
  then show ?case
    by (cases e; cases r) auto
next
  case (Cons c s)
  show ?case
  proof (cases e)
    case Nil
    with Cons.prems show ?thesis by (cases r) auto
  next
    case (Cons c' e')
    with Cons.prems Cons.IH[of e'] show ?thesis by auto
  qed
qed

lemma HasPrefix_skills:
  assumes "CHR ''/'' \<notin> set e" and "r = [] \<or> hd r = CHR ''/''"
  shows "HasPrefix (CHR ''/'' # e @ r) ''/skills/'' \<longleftrightarrow> e = ''skills'' \<and> r \<noteq> []"
proof -
  have "HasPrefix (CHR ''/'' # e @ r) ''/skills/''
        \<longleftrightarrow> take (Suc (length ''skills'')) (e @ r) = ''skills'' @ ''/''"
    by (simp add: HasPrefix_def)
  also have "\<dots> \<longleftrightarrow> e = ''skills'' \<and> r \<noteq> []"
    by (rule plain_prefix) (use assms in simp_all)
  finally show ?thesis .
qed

lemma LastIndex_slashed:
  assumes "\<forall>e \<in> set es. CHR ''/'' \<notin> set e"
  shows "(case LastIndex (slashed es) ''/skills/'' of
            Some i \<Rightarrow> Some (drop (i + 8) (slashed es))
          | None \<Rightarrow> None)
         = map_option (\<lambda>rel. Join_sep rel ''/'') (after_skills es)"
  using assms
proof (induction es)
  case Nil
  then show ?case by simp
next
  case (Cons e es)
  then have e: "CHR ''/'' \<notin> set e" and IH: "(case LastIndex (slashed es) ''/skills/'' of
            Some i \<Rightarrow> Some (drop (i + 8) (slashed es))
          | None \<Rightarrow> None)
         = map_option (\<lambda>rel. Join_sep rel ''/'') (after_skills es)"
    by simp_all
  note app = LastIndex_append_plain[OF e, of "slashed es"]
  note pre = HasPrefix_skills[OF e slashed_start[of es], unfolded slashed_Nil]
  show ?case
  proof (cases "LastIndex (slashed es) ''/skills/''")
    case (Some j)
    with IH obtain rel where rel: "after_skills es = Some rel"
      and d: "drop (j + 8) (slashed es) = Join_sep rel ''/''"
      by (cases "after_skills es") auto
    from Some app have "LastIndex (slashed (e # es)) ''/skills/'' = Some (Suc (j + length e))"
      by simp
    moreover have "drop (Suc (j + length e) + 8) (slashed (e # es)) = drop (j + 8) (slashed es)"
    proof -
      have dr: "\<And>n. drop (Suc (n + length e)) (CHR ''/'' # e @ slashed es) = drop n (slashed es)"
        by simp
      have ar: "Suc (j + length e) + 8 = Suc ((j + 8) + length e)"
        by simp
      show ?thesis
        unfolding ar slashed_simps by (rule dr)
    qed
    ultimately show ?thesis using rel d by (simp del: slashed_simps)
  next
    case None
    with IH have none: "after_skills es = None"
      by (cases "after_skills es") auto
    from None app have n: "LastIndex (e @ slashed es) ''/skills/'' = None" by simp
    show ?thesis
    proof (cases "e = ''skills'' \<and> es \<noteq> []")
      case True
      then obtain e' es' where es: "es = e' # es'" by (cases es) auto
      have "LastIndex (slashed (e # es)) ''/skills/'' = Some 0"
        using n pre True by simp
      moreover have "drop 8 (slashed (e # es)) = Join_sep es ''/''"
        using True by (simp add: es Join_sep_slashed)
      ultimately show ?thesis using none True by simp
    next
      case False
      have "LastIndex (slashed (e # es)) ''/skills/'' = None"
        using n pre False by simp
      then show ?thesis using none False by auto
    qed
  qed
qed

lemma path_elements_append_plain:
  "CHR ''/'' \<notin> set e \<Longrightarrow> path_elements (e @ r) = (e @ hd (path_elements r)) # tl (path_elements r)"
proof (induction e)
  case Nil
  then show ?case by (cases r) (auto split: list.splits)
next
  case (Cons c e)
  then show ?case by auto
qed

lemma path_elements_slashed:
  "\<forall>e \<in> set es. CHR ''/'' \<notin> set e \<Longrightarrow> path_elements (slashed es) = [] # es"
proof (induction es)
  case Nil
  then show ?case by simp
next
  case (Cons e es)
  then show ?case by (simp add: path_elements_append_plain)
qed

lemma path_elements_Join_sep:
  "es \<noteq> [] \<Longrightarrow> \<forall>e \<in> set es. CHR ''/'' \<notin> set e \<Longrightarrow> path_elements (Join_sep es ''/'') = es"
  by (cases es) (simp_all add: Join_sep_slashed path_elements_append_plain path_elements_slashed)

lemma clean_elements_no_dot:
  assumes "\<forall>e \<in> set out. e \<noteq> ''.''"
  shows "\<forall>e \<in> set (clean_elements rooted es out). e \<noteq> ''.''"
  using assms
proof (induction es arbitrary: out)
  case Nil
  then show ?case by simp
next
  case (Cons e es)
  have bl: "\<forall>e \<in> set (butlast out). e \<noteq> ''.''"
    using Cons.prems by (meson in_set_butlastD)
  have dd: "\<forall>e \<in> set (out @ [''..'']). e \<noteq> ''.''"
    using Cons.prems by auto
  have ap: "e \<noteq> ''.'' \<Longrightarrow> \<forall>x \<in> set (out @ [e]). x \<noteq> ''.''"
    using Cons.prems by auto
  show ?case
    using Cons.IH[OF Cons.prems] Cons.IH[OF bl] Cons.IH[OF dd] Cons.IH[OF ap]
    by (simp del: butlast.simps)
qed

lemma Clean_shape:
  "\<exists>es. (\<forall>e \<in> set es. e \<noteq> [] \<and> CHR ''/'' \<notin> set e \<and> e \<noteq> ''.'')
      \<and> (Clean p = ''.'' \<or> Clean p = ''/''
          \<or> (es \<noteq> [] \<and> (Clean p = slashed es \<or> Clean p = Join_sep es ''/'')))"
proof (cases "p = []")
  case True
  then have "Clean p = ''.''" by (simp add: Clean_def)
  then show ?thesis by (intro exI[of _ "[]"]) simp
next
  case False
  let ?els = "clean_elements (hd p = CHR ''/'') (path_elements p) []"
  have plain: "\<forall>e \<in> set ?els. e \<noteq> [] \<and> CHR ''/'' \<notin> set e"
    by (rule clean_elements_plain) (auto dest: path_elements_no_sep)
  have dot: "\<forall>e \<in> set ?els. e \<noteq> ''.''"
    by (rule clean_elements_no_dot) simp
  have shape: "Clean p = ''.'' \<or> Clean p = ''/''
          \<or> (?els \<noteq> [] \<and> (Clean p = slashed ?els \<or> Clean p = Join_sep ?els ''/''))"
  proof (cases "?els")
    case Nil
    with False show ?thesis by (simp add: Clean_def Let_def)
  next
    case (Cons e es)
    then have j: "Join_sep ?els ''/'' = e @ slashed es"
      by (simp add: Join_sep_slashed)
    from plain Cons have "e \<noteq> []" by simp
    with False Cons j show ?thesis
      by (simp add: Clean_def Let_def)
  qed
  from plain dot shape show ?thesis
    by (intro exI[of _ ?els]) blast
qed

lemma after_skills_Some:
  "after_skills es = Some rel \<Longrightarrow> rel \<noteq> [] \<and> set rel \<subseteq> set es"
proof (induction es)
  case Nil
  then show ?case by simp
next
  case (Cons e es)
  then show ?case
    by (cases "after_skills es") (auto split: if_splits)
qed

lemma HasPrefix_plain:
  assumes "CHR ''/'' \<notin> set e" and "CHR ''/'' \<notin> set s"
  shows "HasPrefix (e @ slashed es) (s @ ''/'') \<longleftrightarrow> e = s \<and> es \<noteq> []"
proof -
  have "HasPrefix (e @ slashed es) (s @ ''/'')
        \<longleftrightarrow> take (Suc (length s)) (e @ slashed es) = s @ ''/''"
    by (simp add: HasPrefix_def)
  also have "\<dots> \<longleftrightarrow> e = s \<and> slashed es \<noteq> []"
    by (rule plain_prefix) (use assms slashed_start in simp_all)
  finally show ?thesis by (simp add: slashed_Nil)
qed

text \<open>The relative path of \<^verbatim>\<open>parseSkillMD\<close>, on a cleaned directory.\<close>

lemma relPath_slashed:
  assumes "\<forall>e \<in> set es. CHR ''/'' \<notin> set e"
  shows "(case LastIndex (slashed es) ''/skills/'' of
            Some i \<Rightarrow> drop (i + 8) (slashed es)
          | None \<Rightarrow> b)
         = (case after_skills es of Some rel \<Rightarrow> Join_sep rel ''/'' | None \<Rightarrow> b)"
  using LastIndex_slashed[OF assms]
  by (cases "LastIndex (slashed es) ''/skills/''"; cases "after_skills es") simp_all

lemma relPath_rooted:
  assumes "\<forall>e \<in> set es. CHR ''/'' \<notin> set e"
  shows "(case LastIndex (slashed es) ''/skills/'' of
            Some i \<Rightarrow> drop (i + 8) (slashed es)
          | None \<Rightarrow> Base (slashed es))
         = skills_relative_path (slashed es)"
proof -
  have "after_skills ([] # es) = after_skills es"
    by (cases "after_skills es") simp_all
  then show ?thesis
    unfolding skills_relative_path_def path_elements_slashed[OF assms]
    by (simp add: relPath_slashed[OF assms])
qed

lemma relPath_relative:
  assumes "\<forall>e \<in> set es. CHR ''/'' \<notin> set e" and "es \<noteq> []"
    and "\<not> HasPrefix (Join_sep es ''/'') ''skills/''"
  shows "(case LastIndex (Join_sep es ''/'') ''/skills/'' of
            Some i \<Rightarrow> drop (i + 8) (Join_sep es ''/'')
          | None \<Rightarrow> Base (Join_sep es ''/''))
         = skills_relative_path (Join_sep es ''/'')"
proof -
  from assms(2) obtain e es' where es: "es = e # es'" by (cases es) auto
  with assms(1) have e: "CHR ''/'' \<notin> set e" and es': "\<forall>e \<in> set es'. CHR ''/'' \<notin> set e"
    by simp_all
  have j: "Join_sep es ''/'' = e @ slashed es'"
    by (simp add: es Join_sep_slashed)
  have "HasPrefix (e @ slashed es') (''skills'' @ ''/'') \<longleftrightarrow> e = ''skills'' \<and> es' \<noteq> []"
    by (rule HasPrefix_plain) (use e in simp_all)
  with assms(3) have first: "\<not> (e = ''skills'' \<and> es' \<noteq> [])"
    by (simp add: j)
  then have a: "after_skills es = after_skills es'"
    by (cases "after_skills es'") (auto simp: es)
  have "\<And>i. drop (i + length e + 8) (e @ slashed es') = drop (i + 8) (slashed es')"
    by simp
  then have code: "(case LastIndex (Join_sep es ''/'') ''/skills/'' of
            Some i \<Rightarrow> drop (i + 8) (Join_sep es ''/'')
          | None \<Rightarrow> Base (Join_sep es ''/''))
        = (case LastIndex (slashed es') ''/skills/'' of
            Some i \<Rightarrow> drop (i + 8) (slashed es')
          | None \<Rightarrow> Base (Join_sep es ''/''))"
    unfolding j LastIndex_append_plain[OF e]
    by (cases "LastIndex (slashed es') ''/skills/''") simp_all
  show ?thesis
    unfolding code relPath_slashed[OF es'] skills_relative_path_def
      path_elements_Join_sep[OF assms(2,1)] a
    by (rule refl)
qed

lemma skills_relative_path_trimmed:
  assumes plain: "\<forall>e \<in> set es. e \<noteq> [] \<and> CHR ''/'' \<notin> set e \<and> e \<noteq> ''.''"
    and d: "d = slashed es \<or> (es \<noteq> [] \<and> d = Join_sep es ''/'')"
    and name: "validateSkillName (Base d)"
  shows "\<not> HasPrefix (skills_relative_path d) ''./''
         \<and> \<not> HasSuffix (skills_relative_path d) ''/''"
proof -
  from plain have sep: "\<forall>e \<in> set es. CHR ''/'' \<notin> set e" by simp
  have "after_skills ([] # es) = after_skills es"
    by (cases "after_skills es") simp_all
  with d have a: "after_skills (path_elements d) = after_skills es"
    by (auto simp: path_elements_slashed[OF sep] path_elements_Join_sep[OF _ sep])
  show ?thesis
  proof (cases "after_skills es")
    case None
    from validateSkillName_chars[OF name]
    have b: "Base d \<noteq> []" "CHR ''/'' \<notin> set (Base d)" "CHR ''.'' \<notin> set (Base d)"
      by simp_all
    from b(1,3) have "\<not> HasPrefix (Base d) ''./''"
      by (cases "Base d") (auto simp: HasPrefix_def)
    moreover from b(1,2) have "last (Base d) \<noteq> CHR ''/''"
      by (metis last_in_set)
    then have "\<not> HasSuffix (Base d) ''/''"
      using HasSuffix_slash by blast
    ultimately show ?thesis
      by (simp add: skills_relative_path_def a None)
  next
    case (Some rel)
    from after_skills_Some[OF Some] obtain e rel' where rel: "rel = e # rel'"
      and sub: "set rel \<subseteq> set es"
      by (cases rel) auto
    from sub plain have p: "\<forall>e \<in> set rel. e \<noteq> [] \<and> CHR ''/'' \<notin> set e"
      and e: "CHR ''/'' \<notin> set e" "e \<noteq> ''.''"
      by (auto simp: rel)
    have "HasPrefix (e @ slashed rel') (''.'' @ ''/'') \<longleftrightarrow> e = ''.'' \<and> rel' \<noteq> []"
      by (rule HasPrefix_plain) (use e in simp_all)
    with e(2) have "\<not> HasPrefix (Join_sep rel ''/'') ''./''"
      by (simp add: rel Join_sep_slashed)
    moreover have "last (Join_sep rel ''/'') \<noteq> CHR ''/''"
      using Join_sep_last[OF _ p] by (simp add: rel)
    then have "\<not> HasSuffix (Join_sep rel ''/'') ''/''"
      using HasSuffix_slash by blast
    ultimately show ?thesis
      by (simp add: skills_relative_path_def a Some)
  qed
qed

text \<open>
  The tool name of a parsed skill is made from the path of its directory relative to the
  nearest ancestor named \<^verbatim>\<open>skills\<close>, the base name when there is none: separators
  replaced by underscores, then every character outside \<^verbatim>\<open>[a-zA-Z0-9_]\<close> replaced by an
  underscore, lowercased, after the prefix \<^verbatim>\<open>skills_\<close>. This holds for every skill
  directory that is not a relative path starting with the element \<^verbatim>\<open>skills\<close>.
\<close>

theorem parseSkillMD_tool_name_of_relative_path:
  assumes "parseSkillMD sys skillPath = Inr skill"
    and "\<not> HasPrefix (FullPath skill) ''skills/''"
  shows "Skill.ToolName skill =
           ''skills_'' @ ToLower (ReplaceAllString_nonword
              (ReplaceAll (skills_relative_path (FullPath skill)) ''/'' ''_''))"
proof -
  let ?d = "Dir skillPath"
  let ?rel = "case LastIndex ?d ''/skills/'' of
                Some skillsIdx \<Rightarrow> drop (skillsIdx + 8) ?d
              | None \<Rightarrow> Base ?d"
  from assms(1) have name: "validateSkillName (Base ?d)"
    and tool: "Skill.ToolName skill = generateToolName ?rel"
    and full: "FullPath skill = ?d"
    by (auto simp: parseSkillMD_def Let_def split: sum.splits if_splits)
  from validateSkillName_chars[OF name]
  have b: "CHR ''/'' \<notin> set (Base ?d)" "CHR ''.'' \<notin> set (Base ?d)"
    by simp_all
  have root: "?d \<noteq> ''/''"
  proof
    assume "?d = ''/''"
    then have "Base ?d = ''/''" by (simp add: Base_def)
    with b(1) show False by simp
  qed
  have dot: "?d \<noteq> ''.''"
  proof
    assume "?d = ''.''"
    then have "Base ?d = ''.''" by (simp add: Base_def)
    with b(2) show False by simp
  qed
  from Clean_shape[of "rev (dropWhile (\<lambda>c. c \<noteq> CHR ''/'') (rev skillPath))"] root dot
  obtain es where plain: "\<forall>e \<in> set es. e \<noteq> [] \<and> CHR ''/'' \<notin> set e \<and> e \<noteq> ''.''"
    and ne: "es \<noteq> []" and d: "?d = slashed es \<or> ?d = Join_sep es ''/''"
    unfolding Dir_def by blast
  from plain have sep: "\<forall>e \<in> set es. CHR ''/'' \<notin> set e" by simp
  have rel: "?rel = skills_relative_path ?d"
  proof (cases "?d = slashed es")
    case True
    show ?thesis unfolding True by (rule relPath_rooted[OF sep])
  next
    case False
    with d have j: "?d = Join_sep es ''/''" by simp
    from assms(2) have "\<not> HasPrefix (Join_sep es ''/'') ''skills/''"
      by (simp add: full j)
    from relPath_relative[OF sep ne this] show ?thesis
      unfolding j .
  qed
  from d ne have "?d = slashed es \<or> (es \<noteq> [] \<and> ?d = Join_sep es ''/'')"
    by simp
  from skills_relative_path_trimmed[OF plain this name]
  have "TrimSuffix (TrimPrefix (skills_relative_path ?d) ''./'') ''/'' = skills_relative_path ?d"
    by (simp add: TrimPrefix_def TrimSuffix_def)
  then show ?thesis
    unfolding tool rel full generateToolName_def Let_def by simp
qed

theorem parseSkillMD_tool_name_of_relative_path_witness:
  "parseSkillMD example_skills_os ''/w/skills/tools/analyzer/SKILL.md'' =
     Inr (example_skill ''analyzer'' ''/w/skills/tools/analyzer'' ''skills_tools_analyzer''
            ''analyzes the tools of a project'' ''Analyze.'')
   \<and> \<not> HasPrefix ''/w/skills/tools/analyzer'' ''skills/''
   \<and> skills_relative_path ''/w/skills/tools/analyzer'' = ''tools/analyzer''
   \<and> ''skills_tools_analyzer'' =
       ''skills_'' @ ToLower (ReplaceAllString_nonword
          (ReplaceAll (skills_relative_path ''/w/skills/tools/analyzer'') ''/'' ''_''))"
proof -
  let ?skill = "example_skill ''analyzer'' ''/w/skills/tools/analyzer'' ''skills_tools_analyzer''
      ''analyzes the tools of a project'' ''Analyze.''"
  have p: "parseSkillMD example_skills_os ''/w/skills/tools/analyzer/SKILL.md'' = Inr ?skill"
    by code_simp
  have f: "FullPath ?skill = ''/w/skills/tools/analyzer''"
    and n: "Skill.ToolName ?skill = ''skills_tools_analyzer''"
    by (simp_all add: example_skill_def)
  have h: "\<not> HasPrefix ''/w/skills/tools/analyzer'' ''skills/''"
    by code_simp
  have r: "skills_relative_path ''/w/skills/tools/analyzer'' = ''tools/analyzer''"
    by code_simp
  from h have "\<not> HasPrefix (FullPath ?skill) ''skills/''"
    unfolding f .
  from parseSkillMD_tool_name_of_relative_path[OF p this]
  have "''skills_tools_analyzer'' =
       ''skills_'' @ ToLower (ReplaceAllString_nonword
          (ReplaceAll (skills_relative_path ''/w/skills/tools/analyzer'') ''/'' ''_''))"
    unfolding f n .
  with p h r show ?thesis by blast
qed

text \<open>
  Claim C7 with the configuration directory \<^verbatim>\<open>XDG_CONFIG_HOME=skills\<close>, a relative path.
  \<^verbatim>\<open>Init\<close> hands the base paths of \<^verbatim>\<open>getSkillBasePaths\<close> to \<^verbatim>\<open>discoverSkills\<close>; the first
  is \<^verbatim>\<open>skills/crush/skills\<close>, and the walk reaches the file \<^verbatim>\<open>skills/crush/skills/SKILL.md\<close>
  of the skill named \<^verbatim>\<open>skills\<close>. The directory \<^verbatim>\<open>skills/crush/skills\<close> of the skill has the
  ancestor \<^verbatim>\<open>skills\<close>, the first element of the path, so that the claim gives the tool
  name of \<^verbatim>\<open>crush/skills\<close>, \<^verbatim>\<open>skills_crush_skills\<close>. \<^verbatim>\<open>parseSkillMD\<close> searches the
  directory for \<^verbatim>\<open>/skills/\<close>, finds none, and generates the tool name of the base name
  alone, \<^verbatim>\<open>skills_skills\<close>.
\<close>

theorem discoverSkills_relative_config_home:
  "getSkillBasePaths example_relative_os ''/w'' =
     [''skills/crush/skills'', ''/home/u/.crush/skills'', ''/w/.crush/skills'']
   \<and> fst (fst (discoverSkills example_relative_os (getSkillBasePaths example_relative_os ''/w'')))
       = [example_skill ''skills'' ''skills/crush/skills'' ''skills_skills''
            ''lists the skills of this user'' ''List them.'']
   \<and> skills_relative_path ''skills/crush/skills'' = ''crush/skills''
   \<and> ''skills_'' @ ToLower (ReplaceAllString_nonword (ReplaceAll ''crush/skills'' ''/'' ''_''))
       = ''skills_crush_skills''"
  by code_simp

end
